(* ===== verification/Prelude.thy ===== *)
theory Prelude
  imports Main
begin

text \<open>
  Shared vocabulary of the panel-simulation model: the names of the model's basic
  types, the collections of facts the component theories feed and use, and the generic
  lemmas on association lists and random streams that several components need.
  Entities of the ECS world are numbered by \<open>nat\<close> (ids are reserved in increasing
  order and never reused); positions are integer game units (the source's \<open>f32\<close>
  values abstracted to exact integers, all constants of the source being integral).
\<close>

named_theorems model_simps "equations of the model's operations, for evaluation"
named_theorems inv_simps "facts that carry the world invariants through an operation"

type_synonym entity = nat
type_synonym vec2 = "int \<times> int"

text \<open>Vector addition, as \<open>Vec2 + Vec2\<close> in the source.\<close>

definition vadd :: "vec2 \<Rightarrow> vec2 \<Rightarrow> vec2" where
  "vadd p q = (fst p + fst q, snd p + snd q)"

text \<open>
  ECS queries iterate their matches in a stable order; the model keeps each kind of
  entity as an association list in that order. \<open>update_at e f xs\<close> changes the
  components of entity \<open>e\<close> in place (a mutable query access).
\<close>

definition update_at :: "entity \<Rightarrow> ('a \<Rightarrow> 'a) \<Rightarrow> (entity \<times> 'a) list \<Rightarrow> (entity \<times> 'a) list" where
  "update_at e f xs = map (\<lambda>(k, v). if k = e then (k, f v) else (k, v)) xs"

subsection \<open>Vectors\<close>

lemma vadd_simp [simp]: "vadd (a, b) (c, d) = (a + c, b + d)"
  by (simp add: vadd_def)

subsection \<open>Association lists keyed by entity\<close>

lemma update_at_Nil [simp]: "update_at e f [] = []"
  by (simp add: update_at_def)

lemma update_at_Cons [simp]:
  "update_at e f ((k, v) # xs) = (if k = e then (k, f v) else (k, v)) # update_at e f xs"
  by (simp add: update_at_def)

lemma map_fst_update_at [simp]: "map fst (update_at e f xs) = map fst xs"
  by (induction xs) auto

lemma length_update_at [simp]: "length (update_at e f xs) = length xs"
  by (simp add: update_at_def)

lemma map_of_update_at [simp]:
  "map_of (update_at e f xs) k = (if k = e then map_option f (map_of xs k) else map_of xs k)"
  by (induction xs) auto

lemma map_of_Some_in_set: "map_of xs k = Some v \<Longrightarrow> (k, v) \<in> set xs"
  by (rule map_of_SomeD)

lemma map_update_at_keep:
  "(\<And>v. h (f v) = h v) \<Longrightarrow> map (\<lambda>(k, v). (k, h v)) (update_at e f xs) = map (\<lambda>(k, v). (k, h v)) xs"
  by (induction xs) auto

lemma update_at_notin: "e \<notin> fst ` set xs \<Longrightarrow> update_at e f xs = xs"
  by (induction xs) (auto simp: rev_image_eqI)

end
