(* ===== verification/Panel_Types.thy ===== *)
theory Panel_Types
  imports Prelude "HOL-Library.Word"
begin

text \<open>
  The data of \<open>src/src/panel_plugin.rs\<close> that every component shares: the
  configuration constants (lines 27--92), the participants and their panel sides
  (\<open>PanelRootSide::for_participant\<close>), the trigger types with their on-screen label
  (\<open>impl Display for TriggerType\<close>) and the gameplay event \<open>TriggerEvent\<close>.
  Lengths are integer game units, durations milliseconds.
\<close>

section \<open>Configuration constants\<close>

definition LEFT_ROOT_X :: int where "LEFT_ROOT_X = -500"
definition RIGHT_ROOT_X :: int where "RIGHT_ROOT_X = 500"
definition ARENA_WIDTH :: int where "ARENA_WIDTH = 260"
definition ARENA_WIDTH_FRAC_2 :: int where "ARENA_WIDTH_FRAC_2 = ARENA_WIDTH div 2"
definition WORKER_BALL_RADIUS :: int where "WORKER_BALL_RADIUS = 5"
definition WORKER_BALL_DIAMETER :: int where "WORKER_BALL_DIAMETER = WORKER_BALL_RADIUS * 2"
definition WORKER_BALL_SPAWN_Y :: int where "WORKER_BALL_SPAWN_Y = 320"
definition WORKER_BALL_COUNT_MAX :: nat where "WORKER_BALL_COUNT_MAX = 6"
definition WORKER_BALL_SPAWN_TIMER_MS :: nat where "WORKER_BALL_SPAWN_TIMER_MS = 10000"

lemmas panel_consts [model_simps] =
  LEFT_ROOT_X_def RIGHT_ROOT_X_def ARENA_WIDTH_def ARENA_WIDTH_FRAC_2_def
  WORKER_BALL_RADIUS_def WORKER_BALL_DIAMETER_def WORKER_BALL_SPAWN_Y_def
  WORKER_BALL_COUNT_MAX_def WORKER_BALL_SPAWN_TIMER_MS_def

section \<open>Participants and panel sides\<close>

text \<open>\<open>Participant\<close> is declared in the crate's \<open>utils\<close> module (not in the sources):
  four fixed values, modelled from the spec.\<close>

datatype participant = A | B | C | D

datatype panel_root_side = Left | Right

text \<open>\<open>PanelRootSide::for_participant\<close>: A and B play on the left panel, C and D on the right.\<close>

fun for_participant :: "participant \<Rightarrow> panel_root_side" where
  "for_participant A = Left"
| "for_participant B = Left"
| "for_participant C = Right"
| "for_participant D = Right"

text \<open>The two participants each panel serves, as \<open>spawn_workers\<close> passes them to its
  per-panel closure (A, B with the left root; C, D with the right root).\<close>

fun panel_participants :: "panel_root_side \<Rightarrow> participant \<times> participant" where
  "panel_participants Left = (A, B)"
| "panel_participants Right = (C, D)"

text \<open>The resting x of an idle trail: \<open>if go_left { LEFT_ROOT_X } else { RIGHT_ROOT_X }\<close>.\<close>

definition rest_x :: "bool \<Rightarrow> int" where
  "rest_x go_left = (if go_left then LEFT_ROOT_X else RIGHT_ROOT_X)"

section \<open>Trigger types, their labels, trigger events\<close>

datatype trigger_type = Multiply "8 word" | BurstShot | ChargedShot

text \<open>Rust's \<open>{}\<close> formatting of an unsigned integer: its decimal digits.\<close>

definition digit_char :: "nat \<Rightarrow> char" where
  "digit_char d = char_of (48 + d)"

fun dec_string :: "nat \<Rightarrow> string" where
  "dec_string n = (if n < 10 then [digit_char n] else dec_string (n div 10) @ [digit_char (n mod 10)])"

declare dec_string.simps [simp del]

text \<open>\<open>impl std::fmt::Display for TriggerType\<close>, the text of the zone's label and name.\<close>

fun trigger_label :: "trigger_type \<Rightarrow> string" where
  "trigger_label (Multiply factor) = CHR ''x'' # dec_string (unat factor)"
| "trigger_label BurstShot = ''Release'' @ [CHR 0x0A] @ ''Burst'' @ [CHR 0x0A] @ ''Shots''"
| "trigger_label ChargedShot = ''Release'' @ [CHR 0x0A] @ ''Changed'' @ [CHR 0x0A] @ ''Shots''"

text \<open>\<open>TriggerEvent\<close>, the gameplay event the translator emits.\<close>

record gameplay_event =
  te_participant :: participant
  te_trigger_type :: trigger_type

text \<open>Reading a decimal string back, the inverse the label properties are stated with.\<close>

definition digit_val :: "char \<Rightarrow> nat" where
  "digit_val c = of_char c - 48"

definition parse_dec :: "string \<Rightarrow> nat" where
  "parse_dec s = foldl (\<lambda>n c. 10 * n + digit_val c) 0 s"

section \<open>Lemmas\<close>

lemma digit_val_char: "d < 10 \<Longrightarrow> digit_val (digit_char d) = d"
  by (simp add: digit_val_def digit_char_def)

lemma parse_dec_snoc: "parse_dec (s @ [c]) = 10 * parse_dec s + digit_val c"
  by (simp add: parse_dec_def)

lemma for_participant_panel:
  "for_participant p = side \<longleftrightarrow> p = fst (panel_participants side) \<or> p = snd (panel_participants side)"
  by (cases p; cases side) auto

text \<open>Printing a factor in decimal and reading it back gives the factor.\<close>

lemma parse_dec_string: "parse_dec (dec_string n) = n"
proof (induction n rule: dec_string.induct)
  case (1 n)
  show ?case
  proof (cases "n < 10")
    case True
    then show ?thesis by (simp add: dec_string.simps parse_dec_def digit_val_char)
  next
    case False
    with "1.IH" show ?thesis
      by (simp add: dec_string.simps [of n] parse_dec_snoc digit_val_char)
  qed
qed

text \<open>C5: distinct trigger types are shown with distinct labels, so a zone's label
  identifies its type.\<close>

theorem trigger_label_inj: "trigger_label t1 = trigger_label t2 \<longleftrightarrow> t1 = t2"
proof
  assume eq: "trigger_label t1 = trigger_label t2"
  show "t1 = t2"
  proof (cases t1; cases t2)
    fix a b assume "t1 = Multiply a" "t2 = Multiply b"
    with eq have "parse_dec (dec_string (unat a)) = parse_dec (dec_string (unat b))" by simp
    then have "unat a = unat b" by (simp add: parse_dec_string)
    then show "t1 = t2" using \<open>t1 = Multiply a\<close> \<open>t2 = Multiply b\<close> by (simp add: word_unat_eq_iff)
  qed (use eq in \<open>auto simp: dec_string.simps split: if_splits\<close>)
qed simp

end
