(* ===== verification/World.thy ===== *)
theory World
  imports Panel_Types
begin

text \<open>
  The ECS world the panel systems read and write, restricted to the components of
  \<open>src/src/panel_plugin.rs\<close>: the two panel roots (\<open>PanelRoot\<close> with its
  \<open>GlobalTransform\<close>), the trigger zones (entities carrying a \<open>TriggerType\<close>), the
  worker balls (\<open>WorkerBallBundle\<close>) and the trails (\<open>WorkerBallTrailBundle\<close>, whose
  \<open>WorkerBallTrail\<close> / \<open>InactiveWorkerBallTrail\<close> component is the datatype
  \<open>trail_link\<close>). Each kind of entity is an association list in query order.
  \<open>next_entity\<close> is the next id \<open>Commands::spawn\<close> reserves.

  The physics engine (bevy_rapier2d) is outside the sources. Its shape query
  \<open>RapierContext::intersection_with_shape\<close>, restricted as the program restricts it to
  dynamic bodies of the worker-ball group, is modelled from the spec: a ball of radius
  \<open>r\<close> at \<open>p\<close> intersects a worker ball of radius \<open>s\<close> at \<open>q\<close> when their
  distance is at most \<open>r + s\<close> (touching counts as contact). The query reads the
  physics engine's copy of the balls, \<open>physics_bodies\<close>, which is the state at the start
  of the frame's update systems: the engine synchronises with the ECS only in its own
  step, after them.
\<close>

record panel_root =
  pr_side :: panel_root_side
  pr_translation :: vec2

record worker_ball =
  wb_participant :: participant
  wb_parent :: entity
  wb_translation :: vec2
  wb_velocity :: vec2
  wb_radius :: int

datatype trail_link = WorkerBallTrail entity | InactiveWorkerBallTrail bool

datatype spawn_color = NoColor | TileColor participant

record trail =
  tr_link :: trail_link
  tr_spawn_color :: spawn_color
  tr_position :: vec2

record world =
  roots :: "(entity \<times> panel_root) list"
  zones :: "(entity \<times> trigger_type) list"
  balls :: "(entity \<times> worker_ball) list"
  trails :: "(entity \<times> trail) list"
  next_entity :: entity

text \<open>The panics of the panel systems: \<open>EXPECT_TWO_PANELS_MSG\<close> and
  \<open>EXPECT_EACH_PANEL_SIDE_EXIST_MSG\<close>. A system that panics stops the program;
  the model returns the panic as \<open>Inl\<close>.\<close>

datatype panel_error = ExpectTwoPanels | ExpectEachPanelSideExist

section \<open>Bundles\<close>

text \<open>\<open>WorkerBallBundle::new\<close>: a dynamic ball of radius \<open>WORKER_BALL_RADIUS\<close> at
  \<open>(x, WORKER_BALL_SPAWN_Y)\<close> relative to its parent root, at rest. (Restitution 0.5 and
  gravity scale 15 configure the physics engine and are not observed by the model.)\<close>

definition worker_ball_new :: "participant \<Rightarrow> int \<Rightarrow> entity \<Rightarrow> worker_ball" where
  "worker_ball_new p x parent =
     \<lparr>wb_participant = p, wb_parent = parent, wb_translation = (x, WORKER_BALL_SPAWN_Y),
      wb_velocity = (0, 0), wb_radius = WORKER_BALL_RADIUS\<rparr>"

text \<open>\<open>WorkerBallTrailBundle::new\<close>: a trail linked to its ball, in the participant's
  colour, at the ball's spawn point in world coordinates.\<close>

definition trail_bundle_new :: "entity \<Rightarrow> int \<Rightarrow> participant \<Rightarrow> trail" where
  "trail_bundle_new target target_x p =
     \<lparr>tr_link = WorkerBallTrail target, tr_spawn_color = TileColor p,
      tr_position = (target_x, WORKER_BALL_SPAWN_Y)\<rparr>"

section \<open>Commands on the world\<close>

definition spawn_ball :: "worker_ball \<Rightarrow> world \<Rightarrow> entity \<times> world" where
  "spawn_ball b w =
     (next_entity w, w\<lparr>balls := balls w @ [(next_entity w, b)], next_entity := Suc (next_entity w)\<rparr>)"

definition spawn_trail :: "trail \<Rightarrow> world \<Rightarrow> entity \<times> world" where
  "spawn_trail t w =
     (next_entity w, w\<lparr>trails := trails w @ [(next_entity w, t)], next_entity := Suc (next_entity w)\<rparr>)"

section \<open>Positions and the physics query\<close>

text \<open>\<open>GlobalTransform\<close> of a ball: its parent root's translation plus its own.\<close>

definition ball_global :: "world \<Rightarrow> worker_ball \<Rightarrow> vec2" where
  "ball_global w b =
     (case map_of (roots w) (wb_parent b) of
        Some r \<Rightarrow> vadd (pr_translation r) (wb_translation b)
      | None \<Rightarrow> wb_translation b)"

definition physics_bodies :: "world \<Rightarrow> (vec2 \<times> int) list" where
  "physics_bodies w = map (\<lambda>(e, b). (ball_global w b, wb_radius b)) (balls w)"

definition circles_intersect :: "vec2 \<Rightarrow> int \<Rightarrow> vec2 \<Rightarrow> int \<Rightarrow> bool" where
  "circles_intersect p r q s \<longleftrightarrow> (fst p - fst q)\<^sup>2 + (snd p - snd q)\<^sup>2 \<le> (r + s)\<^sup>2"

definition intersection_with_shape :: "(vec2 \<times> int) list \<Rightarrow> vec2 \<Rightarrow> int \<Rightarrow> bool" where
  "intersection_with_shape bodies p r = list_ex (\<lambda>(q, s). circles_intersect p r q s) bodies"

text \<open>What moving a ball leaves unchanged: its id, owner, parent and collider.\<close>

definition ball_identity :: "(entity \<times> worker_ball) list \<Rightarrow> (entity \<times> participant \<times> entity \<times> int) list" where
  "ball_identity bs = map (\<lambda>(e, b). (e, wb_participant b, wb_parent b, wb_radius b)) bs"

text \<open>The number of balls parented to a root: the population of that panel.\<close>

definition panel_count :: "entity \<Rightarrow> (entity \<times> worker_ball) list \<Rightarrow> nat" where
  "panel_count r bs = length (filter (\<lambda>(e, b). wb_parent b = r) bs)"

text \<open>Every ball carries the collider \<open>Collider::ball(WORKER_BALL_RADIUS)\<close>.\<close>

definition std_radius :: "(entity \<times> worker_ball) list \<Rightarrow> bool" where
  "std_radius bs \<longleftrightarrow> list_all (\<lambda>(e, b). wb_radius b = WORKER_BALL_RADIUS) bs"

section \<open>Well-formed worlds\<close>

text \<open>Entity ids are distinct across all kinds and below \<open>next_entity\<close>.\<close>

definition all_ids :: "world \<Rightarrow> entity list" where
  "all_ids w = map fst (roots w) @ map fst (zones w) @ map fst (balls w) @ map fst (trails w)"

definition ids_ok :: "world \<Rightarrow> bool" where
  "ids_ok w \<longleftrightarrow> distinct (all_ids w) \<and> list_all (\<lambda>e. e < next_entity w) (all_ids w)"

section \<open>Lemmas\<close>

lemma spawn_ball_simps [simp]:
  "fst (spawn_ball b w) = next_entity w"
  "balls (snd (spawn_ball b w)) = balls w @ [(next_entity w, b)]"
  "trails (snd (spawn_ball b w)) = trails w"
  "roots (snd (spawn_ball b w)) = roots w"
  "zones (snd (spawn_ball b w)) = zones w"
  "next_entity (snd (spawn_ball b w)) = Suc (next_entity w)"
  by (simp_all add: spawn_ball_def)

lemma spawn_trail_simps [simp]:
  "fst (spawn_trail t w) = next_entity w"
  "trails (snd (spawn_trail t w)) = trails w @ [(next_entity w, t)]"
  "balls (snd (spawn_trail t w)) = balls w"
  "roots (snd (spawn_trail t w)) = roots w"
  "zones (snd (spawn_trail t w)) = zones w"
  "next_entity (snd (spawn_trail t w)) = Suc (next_entity w)"
  by (simp_all add: spawn_trail_def)

lemma intersection_with_shape_iff:
  "intersection_with_shape bodies p r \<longleftrightarrow> (\<exists>(q, s) \<in> set bodies. circles_intersect p r q s)"
  by (simp add: intersection_with_shape_def list_ex_iff)

text \<open>Two circles of the same radius whose centres are further apart horizontally than
  a diameter do not intersect.\<close>

lemma far_circles_disjoint:
  assumes "2 * r < \<bar>fst p - fst q\<bar>" and "0 \<le> r"
  shows "\<not> circles_intersect p r q r"
proof -
  have "\<not> \<bar>fst p - fst q\<bar> \<le> \<bar>r + r\<bar>" using assms by simp
  then have "(r + r)\<^sup>2 < (fst p - fst q)\<^sup>2" by (simp add: abs_le_square_iff)
  moreover have "0 \<le> (snd p - snd q)\<^sup>2" by simp
  ultimately show ?thesis unfolding circles_intersect_def by linarith
qed

lemma ids_ok_fresh: "ids_ok w \<Longrightarrow> next_entity w \<notin> set (all_ids w)"
  by (auto simp: ids_ok_def list_all_iff)

lemma ids_ok_iff:
  "ids_ok w \<longleftrightarrow> distinct (all_ids w) \<and> (\<forall>e \<in> set (all_ids w). e < next_entity w)"
  by (simp add: ids_ok_def list_all_iff)

lemma all_ids_spawn [simp]:
  "all_ids (snd (spawn_ball b w)) =
     map fst (roots w) @ map fst (zones w) @ (map fst (balls w) @ [next_entity w]) @ map fst (trails w)"
  "all_ids (snd (spawn_trail t w)) =
     map fst (roots w) @ map fst (zones w) @ map fst (balls w) @ (map fst (trails w) @ [next_entity w])"
  by (simp_all add: all_ids_def)

lemma ids_ok_spawn_ball [inv_simps]:
  assumes "ids_ok w"
  shows "ids_ok (snd (spawn_ball b w))"
proof -
  from assms have fresh: "next_entity w \<notin> set (all_ids w)" by (rule ids_ok_fresh)
  from assms have d: "distinct (all_ids w)" and bnd: "\<forall>e \<in> set (all_ids w). e < next_entity w"
    by (simp_all add: ids_ok_iff)
  from d fresh have "distinct (all_ids (snd (spawn_ball b w)))" by (auto simp: all_ids_def)
  moreover have "set (all_ids (snd (spawn_ball b w))) = insert (next_entity w) (set (all_ids w))"
    by (auto simp: all_ids_def)
  with bnd have "\<forall>e \<in> set (all_ids (snd (spawn_ball b w))). e < Suc (next_entity w)"
    by auto
  ultimately show ?thesis by (simp add: ids_ok_iff)
qed

lemma ids_ok_spawn_trail [inv_simps]:
  assumes "ids_ok w"
  shows "ids_ok (snd (spawn_trail t w))"
proof -
  from assms have fresh: "next_entity w \<notin> set (all_ids w)" by (rule ids_ok_fresh)
  from assms have d: "distinct (all_ids w)" and bnd: "\<forall>e \<in> set (all_ids w). e < next_entity w"
    by (simp_all add: ids_ok_iff)
  from d fresh have "distinct (all_ids (snd (spawn_trail t w)))" by (auto simp: all_ids_def)
  moreover have "set (all_ids (snd (spawn_trail t w))) = insert (next_entity w) (set (all_ids w))"
    by (auto simp: all_ids_def)
  with bnd have "\<forall>e \<in> set (all_ids (snd (spawn_trail t w))). e < Suc (next_entity w)"
    by auto
  ultimately show ?thesis by (simp add: ids_ok_iff)
qed

lemma ids_ok_trails_update [inv_simps]:
  "map fst ts = map fst (trails w) \<Longrightarrow> ids_ok w \<Longrightarrow> ids_ok (w\<lparr>trails := ts\<rparr>)"
  by (simp add: ids_ok_def all_ids_def)

lemma ids_ok_balls_update [inv_simps]:
  "map fst bs = map fst (balls w) \<Longrightarrow> ids_ok w \<Longrightarrow> ids_ok (w\<lparr>balls := bs\<rparr>)"
  by (simp add: ids_ok_def all_ids_def)

lemma ids_ok_distinct:
  "ids_ok w \<Longrightarrow> distinct (map fst (trails w)) \<and> distinct (map fst (balls w))"
  by (simp add: ids_ok_def all_ids_def)

lemma ids_ok_bound:
  "ids_ok w \<Longrightarrow> (e, t) \<in> set (trails w) \<Longrightarrow> e < next_entity w"
  "ids_ok w \<Longrightarrow> (e, b) \<in> set (balls w) \<Longrightarrow> e < next_entity w"
  by (simp_all add: ids_ok_iff all_ids_def) (metis UnCI fst_conv image_eqI)+

lemma ball_identity_keys: "ball_identity bs = ball_identity bs' \<Longrightarrow> map fst bs = map fst bs'"
proof -
  assume "ball_identity bs = ball_identity bs'"
  then have "map fst (ball_identity bs) = map fst (ball_identity bs')" by simp
  then show ?thesis by (simp add: ball_identity_def comp_def case_prod_beta)
qed

lemma panel_count_identity:
  "panel_count r bs = length (filter (\<lambda>(e, p, par, rad). par = r) (ball_identity bs))"
  by (induction bs) (auto simp: panel_count_def ball_identity_def)

lemma panel_count_append [simp]: "panel_count r (xs @ ys) = panel_count r xs + panel_count r ys"
  by (simp add: panel_count_def)

lemma panel_count_simps [simp]:
  "panel_count r [] = 0"
  "panel_count r ((e, b) # bs) = (if wb_parent b = r then Suc (panel_count r bs) else panel_count r bs)"
  by (simp_all add: panel_count_def)

lemma std_radius_simps [simp]:
  "std_radius []"
  "std_radius (xs @ ys) \<longleftrightarrow> std_radius xs \<and> std_radius ys"
  "std_radius ((e, b) # bs) \<longleftrightarrow> wb_radius b = WORKER_BALL_RADIUS \<and> std_radius bs"
  by (simp_all add: std_radius_def)

lemma std_radius_identity:
  "std_radius bs \<longleftrightarrow> (\<forall>(e, p, par, rad) \<in> set (ball_identity bs). rad = WORKER_BALL_RADIUS)"
  by (auto simp: std_radius_def ball_identity_def list_all_iff)

lemma std_radius_bodies:
  "std_radius (balls w) \<Longrightarrow> list_all (\<lambda>(q, s). s = WORKER_BALL_RADIUS) (physics_bodies w)"
  by (auto simp: std_radius_def physics_bodies_def list_all_iff)

text \<open>Bodies of the physics snapshot that satisfy a position test and belong to one
  panel only are at most as many as that panel's balls.\<close>

lemma filter_bodies_panel_count:
  assumes "\<forall>(e, b) \<in> set bs. P (ball_global w b) \<longrightarrow> wb_parent b = re"
  shows "length (filter (\<lambda>(q, s). P q) (map (\<lambda>(e, b). (ball_global w b, wb_radius b)) bs)) \<le> panel_count re bs"
  using assms by (induction bs) auto

end
