(* ===== verification/Setup.thy ===== *)
theory Setup
  imports World Complex_Main
begin

text \<open>
  The startup system \<open>setup\<close> of \<open>src/src/panel_plugin.rs\<close>: it spawns the left and
  the right panel root, then, for each root in turn, the obstacle circles (a pyramid of
  five rows and a grid of eight), four trigger-zone dividers, the five trigger zones each
  with its label text, the wall and the background. The model keeps what the systems read
  (the roots, the zones with their trigger types) and the order in which entity ids are
  reserved; the static geometry is kept as lists of centres, in exact rational
  coordinates relative to the root, for the layout lemmas. Meshes, materials, colours and
  z-indices are rendering data and are not modelled.
\<close>

section \<open>Layout constants\<close>

definition CIRCLE_RADIUS :: rat where "CIRCLE_RADIUS = 10"
definition CIRCLE_DIAMETER :: rat where "CIRCLE_DIAMETER = CIRCLE_RADIUS * 2"
definition CIRCLE_PYRAMID_VERTICAL_OFFSET :: rat where "CIRCLE_PYRAMID_VERTICAL_OFFSET = 250"
definition CIRCLE_PYRAMID_VERTICAL_COUNT :: nat where "CIRCLE_PYRAMID_VERTICAL_COUNT = 5"
definition CIRCLE_PYRAMID_VERTICAL_GAP :: rat where "CIRCLE_PYRAMID_VERTICAL_GAP = 8"
definition CIRCLE_PYRAMID_HORIZONTAL_GAP :: rat where "CIRCLE_PYRAMID_HORIZONTAL_GAP = 45"
definition CIRCLE_HALF_GAP :: rat where "CIRCLE_HALF_GAP = CIRCLE_PYRAMID_HORIZONTAL_GAP / 2"
definition CIRCLE_GRID_VERTICAL_OFFSET :: rat where "CIRCLE_GRID_VERTICAL_OFFSET = 70"
definition CIRCLE_GRID_VERTICAL_COUNT :: nat where "CIRCLE_GRID_VERTICAL_COUNT = 8"
definition CIRCLE_GRID_VERTICAL_GAP :: rat where "CIRCLE_GRID_VERTICAL_GAP = 15"
definition CIRCLE_GRID_HORIZONTAL_GAP :: rat where "CIRCLE_GRID_HORIZONTAL_GAP = 28"
definition CIRCLE_GRID_HORIZONTAL_HALF_COUNT_EVEN_ROW :: nat where
  "CIRCLE_GRID_HORIZONTAL_HALF_COUNT_EVEN_ROW = 2"
definition CIRCLE_GRID_HORIZONTAL_HALF_COUNT_ODD_ROW :: nat where
  "CIRCLE_GRID_HORIZONTAL_HALF_COUNT_ODD_ROW = 3"
definition TRIGGER_ZONE_Y :: rat where "TRIGGER_ZONE_Y = -250"
definition ARENA_WIDTH_FRAC_5 :: rat where "ARENA_WIDTH_FRAC_5 = of_int ARENA_WIDTH / 5"
definition ARENA_WIDTH_FRAC_10 :: rat where "ARENA_WIDTH_FRAC_10 = of_int ARENA_WIDTH / 10"

lemmas layout_consts =
  CIRCLE_RADIUS_def CIRCLE_DIAMETER_def CIRCLE_PYRAMID_VERTICAL_OFFSET_def
  CIRCLE_PYRAMID_VERTICAL_COUNT_def CIRCLE_PYRAMID_VERTICAL_GAP_def CIRCLE_PYRAMID_HORIZONTAL_GAP_def
  CIRCLE_HALF_GAP_def CIRCLE_GRID_VERTICAL_OFFSET_def CIRCLE_GRID_VERTICAL_COUNT_def
  CIRCLE_GRID_VERTICAL_GAP_def CIRCLE_GRID_HORIZONTAL_GAP_def
  CIRCLE_GRID_HORIZONTAL_HALF_COUNT_EVEN_ROW_def CIRCLE_GRID_HORIZONTAL_HALF_COUNT_ODD_ROW_def
  TRIGGER_ZONE_Y_def ARENA_WIDTH_FRAC_5_def ARENA_WIDTH_FRAC_10_def

section \<open>Static layout of one panel\<close>

type_synonym point = "rat \<times> rat"

text \<open>Row \<open>i\<close> of the pyramid: a centre circle and \<open>i / 2\<close> pairs on even rows; a
  pair at \<open>\<plusminus>x0\<close> and \<open>i / 2\<close> further pairs on odd rows.\<close>

definition pyramid_row :: "nat \<Rightarrow> point list" where
  "pyramid_row i =
     (let y = - of_nat i * (CIRCLE_DIAMETER + CIRCLE_PYRAMID_VERTICAL_GAP) + CIRCLE_PYRAMID_VERTICAL_OFFSET;
          step = CIRCLE_DIAMETER + CIRCLE_PYRAMID_HORIZONTAL_GAP;
          x0 = CIRCLE_HALF_GAP + CIRCLE_RADIUS in
      if i mod 2 = 0 then
        (0, y) # concat (map (\<lambda>j. [(of_nat j * step, y), (- (of_nat j * step), y)]) [1..<i div 2 + 1])
      else
        [(x0, y), (- x0, y)] @
        concat (map (\<lambda>j. [(of_nat j * step + x0, y), (- (of_nat j * step + x0), y)]) [1..<i div 2 + 1]))"

definition grid_row :: "nat \<Rightarrow> point list" where
  "grid_row i =
     (let y = - of_nat i * (CIRCLE_DIAMETER + CIRCLE_GRID_VERTICAL_GAP) + CIRCLE_GRID_VERTICAL_OFFSET;
          step = CIRCLE_DIAMETER + CIRCLE_GRID_HORIZONTAL_GAP;
          x0 = CIRCLE_HALF_GAP + CIRCLE_RADIUS in
      if i mod 2 = 0 then
        (0, y) # concat (map (\<lambda>j. [(of_nat j * step, y), (- (of_nat j * step), y)])
                           [1..<CIRCLE_GRID_HORIZONTAL_HALF_COUNT_EVEN_ROW + 1])
      else
        [(x0, y), (- x0, y)] @
        concat (map (\<lambda>j. [(of_nat j * step + x0, y), (- (of_nat j * step + x0), y)])
                    [1..<CIRCLE_GRID_HORIZONTAL_HALF_COUNT_ODD_ROW]))"

definition obstacle_circles :: "point list" where
  "obstacle_circles =
     concat (map pyramid_row [0..<CIRCLE_PYRAMID_VERTICAL_COUNT]) @
     concat (map grid_row [0..<CIRCLE_GRID_VERTICAL_COUNT])"

definition divider_xs :: "rat list" where
  "divider_xs = [- ARENA_WIDTH_FRAC_10, - ARENA_WIDTH_FRAC_5 - ARENA_WIDTH_FRAC_10,
                 ARENA_WIDTH_FRAC_10, ARENA_WIDTH_FRAC_5 + ARENA_WIDTH_FRAC_10]"

text \<open>The five calls of the zone closure: trigger type and centre x; every zone is
  \<open>ARENA_WIDTH / 5\<close> wide at \<open>TRIGGER_ZONE_Y\<close>.\<close>

definition zone_layout :: "(trigger_type \<times> rat) list" where
  "zone_layout =
     [(Multiply 4, 0), (Multiply 2, - ARENA_WIDTH_FRAC_5), (Multiply 2, ARENA_WIDTH_FRAC_5),
      (BurstShot, -2 * ARENA_WIDTH_FRAC_5), (ChargedShot, 2 * ARENA_WIDTH_FRAC_5)]"

section \<open>Entities spawned by setup\<close>

text \<open>Each zone is spawned followed by its label text.\<close>

fun spawn_zones :: "(trigger_type \<times> rat) list \<Rightarrow> world \<Rightarrow> world" where
  "spawn_zones [] w = w"
| "spawn_zones ((t, x) # zs) w =
     spawn_zones zs (w\<lparr>zones := zones w @ [(next_entity w, t)], next_entity := next_entity w + 2\<rparr>)"

text \<open>The closure \<open>f(root)\<close>: circles, dividers, zones with labels, wall, background.\<close>

definition setup_panel :: "world \<Rightarrow> world" where
  "setup_panel w =
     (let w1 = w\<lparr>next_entity := next_entity w + length obstacle_circles + length divider_xs\<rparr>;
          w2 = spawn_zones zone_layout w1
      in w2\<lparr>next_entity := next_entity w2 + 2\<rparr>)"

text \<open>\<open>setup\<close> run on a world: the left and the right panel root take the next two
  entity ids, then the closure \<open>f\<close> runs for each root in turn.\<close>

definition setup_at :: "world \<Rightarrow> world" where
  "setup_at w =
     setup_panel (setup_panel
       (w\<lparr>roots := roots w @
                   [(next_entity w, \<lparr>pr_side = Left, pr_translation = (LEFT_ROOT_X, 0)\<rparr>),
                    (next_entity w + 1, \<lparr>pr_side = Right, pr_translation = (RIGHT_ROOT_X, 0)\<rparr>)],
          next_entity := next_entity w + 2\<rparr>))"

text \<open>A world with no entity yet.\<close>

definition empty_world :: world where
  "empty_world = \<lparr>roots = [], zones = [], balls = [], trails = [], next_entity = 0\<rparr>"

text \<open>\<open>setup\<close> when it is the first system to spawn an entity.\<close>

definition panel_setup :: world where
  "panel_setup = setup_at empty_world"

section \<open>Lemmas\<close>

lemma spawn_zones_frame [simp]:
  "roots (spawn_zones zs w) = roots w" "balls (spawn_zones zs w) = balls w" "trails (spawn_zones zs w) = trails w"
  by (induction zs w rule: spawn_zones.induct) simp_all

lemma setup_panel_frame [simp]:
  "roots (setup_panel w) = roots w" "balls (setup_panel w) = balls w" "trails (setup_panel w) = trails w"
  by (simp_all add: setup_panel_def Let_def)

lemma setup_at_frame:
  "roots (setup_at w) = roots w @
     [(next_entity w, \<lparr>pr_side = Left, pr_translation = (LEFT_ROOT_X, 0)\<rparr>),
      (next_entity w + 1, \<lparr>pr_side = Right, pr_translation = (RIGHT_ROOT_X, 0)\<rparr>)]"
  "balls (setup_at w) = balls w" "trails (setup_at w) = trails w"
  by (simp_all add: setup_at_def)

lemma spawn_zones_types: "map snd (zones (spawn_zones zs w)) = map snd (zones w) @ map fst zs"
  by (induction zs w rule: spawn_zones.induct) simp_all

lemma setup_at_zones:
  "map snd (zones (setup_at w)) = map snd (zones w) @ map fst zone_layout @ map fst zone_layout"
  by (simp add: setup_at_def setup_panel_def Let_def spawn_zones_types)

lemma panel_setup_roots:
  "roots panel_setup = [(0, \<lparr>pr_side = Left, pr_translation = (LEFT_ROOT_X, 0)\<rparr>),
                        (1, \<lparr>pr_side = Right, pr_translation = (RIGHT_ROOT_X, 0)\<rparr>)]"
  by (simp add: panel_setup_def setup_at_frame empty_world_def)

lemma panel_setup_empty [simp]: "balls panel_setup = []" "trails panel_setup = []"
  by (simp_all add: panel_setup_def setup_at_frame empty_world_def)

text \<open>\<open>setup\<close> gives each of the two panels the five trigger zones of the zone
  closure calls, in that order; the zones, each \<open>ARENA_WIDTH / 5\<close> wide, sorted by centre,
  cover the arena's width from wall to wall without gap or overlap, and the four dividers
  stand exactly on the inner boundaries.\<close>

theorem setup_zones_tile_arena:
  "map snd (zones panel_setup) = map fst zone_layout @ map fst zone_layout \<and>
   (let ivs = map (\<lambda>(t, x). (x - ARENA_WIDTH_FRAC_10, x + ARENA_WIDTH_FRAC_10)) (sort_key snd zone_layout) in
     fst (hd ivs) = - (of_int ARENA_WIDTH / 2) \<and> snd (last ivs) = of_int ARENA_WIDTH / 2 \<and>
     map snd (butlast ivs) = map fst (tl ivs) \<and> sort divider_xs = map snd (butlast ivs))"
proof
  show "map snd (zones panel_setup) = map fst zone_layout @ map fst zone_layout"
    by (simp add: panel_setup_def setup_at_zones empty_world_def)
next
  show "let ivs = map (\<lambda>(t, x). (x - ARENA_WIDTH_FRAC_10, x + ARENA_WIDTH_FRAC_10)) (sort_key snd zone_layout) in
     fst (hd ivs) = - (of_int ARENA_WIDTH / 2) \<and> snd (last ivs) = of_int ARENA_WIDTH / 2 \<and>
     map snd (butlast ivs) = map fst (tl ivs) \<and> sort divider_xs = map snd (butlast ivs)"
    by code_simp
qed

end
