(* ===== verification/Spawn_Timer.thy ===== *)
theory Spawn_Timer
  imports Panel_Types
begin

text \<open>
  The spawner resource \<open>WorkerBallSpawner\<close> (its \<open>new\<close>, \<open>reset\<close> and the run
  condition \<open>spawn_workers_condition\<close>) and the part of Bevy's \<open>Timer\<close> it uses
  (\<open>from_seconds\<close>, \<open>tick\<close>, \<open>just_finished\<close>, \<open>reset\<close>). Bevy is not part of
  the sources: the timer follows its documented semantics (bevy_time 0.14), with durations
  in milliseconds and no pausing (the program never pauses the timer). The render mesh
  handle of the spawner is opaque and omitted.
\<close>

section \<open>Bevy's timer\<close>

datatype timer_mode = Once | Repeating

record timer =
  tm_duration :: nat
  tm_mode :: timer_mode
  tm_elapsed :: nat
  tm_finished :: bool
  tm_times_finished_this_tick :: nat

definition timer_from :: "nat \<Rightarrow> timer_mode \<Rightarrow> timer" where
  "timer_from d m = \<lparr>tm_duration = d, tm_mode = m, tm_elapsed = 0, tm_finished = False,
                      tm_times_finished_this_tick = 0\<rparr>"

text \<open>\<open>Timer::tick\<close>: a finished one-shot timer stays put; otherwise the elapsed time
  grows by \<open>delta\<close>, and a repeating timer that reaches its duration counts how often it
  finished and keeps the remainder (a zero duration counts \<open>u32::MAX\<close> times).\<close>

definition timer_tick :: "nat \<Rightarrow> timer \<Rightarrow> timer" where
  "timer_tick delta t =
     (if tm_mode t \<noteq> Repeating \<and> tm_finished t then t\<lparr>tm_times_finished_this_tick := 0\<rparr>
      else
        let e = tm_elapsed t + delta; d = tm_duration t in
        if d \<le> e then
          (if tm_mode t = Repeating then
             t\<lparr>tm_elapsed := (if d = 0 then 0 else e mod d), tm_finished := True,
               tm_times_finished_this_tick := (if d = 0 then 4294967295 else e div d)\<rparr>
           else t\<lparr>tm_elapsed := d, tm_finished := True, tm_times_finished_this_tick := 1\<rparr>)
        else t\<lparr>tm_elapsed := e, tm_finished := False, tm_times_finished_this_tick := 0\<rparr>)"

definition just_finished :: "timer \<Rightarrow> bool" where
  "just_finished t \<longleftrightarrow> 0 < tm_times_finished_this_tick t"

definition timer_reset :: "timer \<Rightarrow> timer" where
  "timer_reset t = t\<lparr>tm_elapsed := 0, tm_finished := False, tm_times_finished_this_tick := 0\<rparr>"

section \<open>The worker-ball spawner\<close>

record worker_ball_spawner =
  sp_timer :: timer
  sp_counter :: nat

text \<open>\<open>WorkerBallSpawner::new\<close>: a repeating timer of the spawn period, advanced by the
  period minus the trail lifetime (\<open>TRAIL_LIFETIME\<close> lives in the crate's \<open>utils\<close>
  module, not in the sources, and is a parameter here), and a zero round counter.\<close>

definition spawner_new :: "nat \<Rightarrow> worker_ball_spawner" where
  "spawner_new trail_lifetime =
     \<lparr>sp_timer = timer_tick (WORKER_BALL_SPAWN_TIMER_MS - trail_lifetime)
                   (timer_from WORKER_BALL_SPAWN_TIMER_MS Repeating),
      sp_counter = 0\<rparr>"

text \<open>\<open>WorkerBallSpawner::reset\<close>.\<close>

definition spawner_reset :: "nat \<Rightarrow> worker_ball_spawner \<Rightarrow> worker_ball_spawner" where
  "spawner_reset trail_lifetime s =
     s\<lparr>sp_timer := timer_tick (WORKER_BALL_SPAWN_TIMER_MS - trail_lifetime) (timer_reset (sp_timer s)),
       sp_counter := 0\<rparr>"

text \<open>\<open>spawn_workers_condition\<close>: spawning stops once the counter reaches the cap.\<close>

definition spawn_workers_condition :: "worker_ball_spawner \<Rightarrow> bool" where
  "spawn_workers_condition s \<longleftrightarrow> sp_counter s < WORKER_BALL_COUNT_MAX"

text \<open>The spawner's invariant: the timer is the repeating spawn-period timer, its
  elapsed time below the period, and the counter at most the cap.\<close>

definition spawner_inv :: "worker_ball_spawner \<Rightarrow> bool" where
  "spawner_inv s \<longleftrightarrow>
     tm_duration (sp_timer s) = WORKER_BALL_SPAWN_TIMER_MS \<and> tm_mode (sp_timer s) = Repeating \<and>
     tm_elapsed (sp_timer s) < WORKER_BALL_SPAWN_TIMER_MS \<and> sp_counter s \<le> WORKER_BALL_COUNT_MAX"

section \<open>Lemmas\<close>

lemma spawner_consts_pos [simp]:
  "0 < WORKER_BALL_SPAWN_TIMER_MS" "0 < WORKER_BALL_COUNT_MAX"
  by (simp_all add: WORKER_BALL_SPAWN_TIMER_MS_def WORKER_BALL_COUNT_MAX_def)

lemma timer_tick_repeating:
  "tm_mode t = Repeating \<Longrightarrow> 0 < tm_duration t \<Longrightarrow>
   timer_tick delta t =
     (let e = tm_elapsed t + delta; d = tm_duration t in
      if d \<le> e then t\<lparr>tm_elapsed := e mod d, tm_finished := True, tm_times_finished_this_tick := e div d\<rparr>
      else t\<lparr>tm_elapsed := e, tm_finished := False, tm_times_finished_this_tick := 0\<rparr>)"
  by (simp add: timer_tick_def Let_def)

lemma timer_tick_frame [simp]:
  "tm_duration (timer_tick delta t) = tm_duration t"
  "tm_mode (timer_tick delta t) = tm_mode t"
  by (simp_all add: timer_tick_def Let_def)

lemma timer_reset_frame [simp]:
  "tm_duration (timer_reset t) = tm_duration t"
  "tm_mode (timer_reset t) = tm_mode t"
  by (simp_all add: timer_reset_def)

lemma timer_tick_elapsed_bound:
  "tm_mode t = Repeating \<Longrightarrow> 0 < tm_duration t \<Longrightarrow> tm_elapsed (timer_tick delta t) < tm_duration t"
  by (simp add: timer_tick_repeating Let_def)

lemma spawner_tick_inv:
  "spawner_inv sp \<Longrightarrow> spawner_inv (sp\<lparr>sp_timer := timer_tick delta (sp_timer sp)\<rparr>)"
  using timer_tick_elapsed_bound [of "sp_timer sp" delta] by (auto simp: spawner_inv_def)

lemma spawner_new_inv: "spawner_inv (spawner_new lt)"
  by (simp add: spawner_inv_def spawner_new_def timer_from_def timer_tick_repeating Let_def)

lemma spawner_reset_inv: "spawner_inv s \<Longrightarrow> spawner_inv (spawner_reset lt s)"
  by (simp add: spawner_inv_def spawner_reset_def timer_reset_def timer_tick_repeating Let_def)

text \<open>A repeating timer of positive period fires on a tick exactly when the time
  accumulated since its last firing reaches the period, and keeps its elapsed time below
  the period.\<close>

theorem timer_tick_repeating_fires:
  assumes "tm_mode t = Repeating" and "0 < tm_duration t"
  shows "(just_finished (timer_tick delta t) \<longleftrightarrow> tm_duration t \<le> tm_elapsed t + delta) \<and>
         tm_elapsed (timer_tick delta t) < tm_duration t"
  using assms by (auto simp: timer_tick_repeating just_finished_def Let_def div_greater_zero_iff)

text \<open>Resetting a well-formed spawner gives the state \<open>WorkerBallSpawner::new\<close> builds.\<close>

lemma spawner_reset_is_new:
  assumes "spawner_inv s"
  shows "spawner_reset lt s = spawner_new lt"
proof (cases s)
  case (fields t c)
  with assms show ?thesis
    by (cases t) (simp add: spawner_inv_def spawner_reset_def spawner_new_def timer_reset_def timer_from_def)
qed

text \<open>C36: the spawner starts phase-shifted by the trail lifetime: from
  \<open>WorkerBallSpawner::new\<close>, the first spawn round fires on the first tick whose time
  reaches the trail lifetime (for a lifetime within one period).\<close>

theorem spawner_new_first_fire:
  assumes "0 < lt" and "lt \<le> WORKER_BALL_SPAWN_TIMER_MS"
  shows "just_finished (timer_tick d (sp_timer (spawner_new lt))) \<longleftrightarrow> lt \<le> d"
  using assms
  by (auto simp: spawner_new_def timer_from_def timer_tick_repeating just_finished_def Let_def
      div_greater_zero_iff)

section \<open>Witnesses\<close>

theorem timer_tick_repeating_fires_witness:
  "(just_finished (timer_tick 10000 (timer_from 10000 Repeating)) \<longleftrightarrow> (10000::nat) \<le> 0 + 10000) \<and>
   tm_elapsed (timer_tick 10000 (timer_from 10000 Repeating)) < 10000"
  using timer_tick_repeating_fires [of "timer_from 10000 Repeating" 10000]
  by (simp add: timer_from_def)

theorem spawner_new_first_fire_witness:
  "0 < (2000::nat) \<and> (2000::nat) \<le> WORKER_BALL_SPAWN_TIMER_MS \<and>
   just_finished (timer_tick 2000 (sp_timer (spawner_new 2000)))"
  using spawner_new_first_fire [of 2000 2000] by (simp add: panel_consts)

end
