(* ===== verification/Placement.thy ===== *)
theory Placement
  imports World
begin

text \<open>
  The placement oracle, \<open>WorkerBallShapeCaster\<close> of \<open>src/src/panel_plugin.rs\<close>: a
  rejection-sampling loop over an infinite stream of uniform samples of the panel's
  horizontal span, returning the first sample at which a ball-sized shape at spawn height
  intersects no worker ball. The loop has no bound, so \<open>caster_get\<close> is a
  \<^theory_text>\<open>partial_function (option)\<close>: \<open>None\<close> is the loop running forever. The
  paired placement of \<open>spawn_workers\<close> (two draws, retried as a pair until they are
  more than a diameter apart) is \<open>pair_loop\<close>, with a fuelled twin
  \<open>pair_within\<close> that counts the rounds.
\<close>

record caster =
  cs_root_position :: vec2
  cs_samples :: "nat \<Rightarrow> int"
  cs_pos :: nat
  cs_bodies :: "(vec2 \<times> int) list"
  cs_radius :: int

text \<open>\<open>WorkerBallShapeCaster::new\<close>: the root position, the sample iterator, the
  physics context and the collider.\<close>

definition caster_new :: "vec2 \<Rightarrow> (nat \<Rightarrow> int) \<Rightarrow> nat \<Rightarrow> (vec2 \<times> int) list \<Rightarrow> int \<Rightarrow> caster" where
  "caster_new root samples pos bodies radius =
     \<lparr>cs_root_position = root, cs_samples = samples, cs_pos = pos, cs_bodies = bodies,
      cs_radius = radius\<rparr>"

text \<open>The point the query tests for a sample \<open>x\<close>:
  \<open>(x + root.x, WORKER_BALL_SPAWN_Y + root.y)\<close>.\<close>

definition spawn_point :: "caster \<Rightarrow> int \<Rightarrow> vec2" where
  "spawn_point c x = (x + fst (cs_root_position c), WORKER_BALL_SPAWN_Y + snd (cs_root_position c))"

definition sample_free :: "caster \<Rightarrow> int \<Rightarrow> bool" where
  "sample_free c x \<longleftrightarrow> \<not> intersection_with_shape (cs_bodies c) (spawn_point c x) (cs_radius c)"

text \<open>\<open>WorkerBallShapeCaster::get\<close>: draw the next sample; return it if the shape there
  is free, otherwise draw again.\<close>

partial_function (option) caster_get :: "caster \<Rightarrow> (int \<times> caster) option" where
  "caster_get c =
     (if sample_free c (cs_samples c (cs_pos c)) then Some (cs_samples c (cs_pos c), c\<lparr>cs_pos := Suc (cs_pos c)\<rparr>)
      else caster_get (c\<lparr>cs_pos := Suc (cs_pos c)\<rparr>))"

declare caster_get.simps [code]

text \<open>One round of the paired placement: two draws from the same caster.\<close>

definition pair_round :: "caster \<Rightarrow> (int \<times> int \<times> caster) option" where
  "pair_round c =
     (case caster_get c of
        None \<Rightarrow> None
      | Some (xa, c1) \<Rightarrow>
          (case caster_get c1 of
             None \<Rightarrow> None
           | Some (xb, c2) \<Rightarrow> Some (xa, xb, c2)))"

text \<open>The exit test of the pair loop: \<open>(xa - xb).abs() > WORKER_BALL_DIAMETER\<close>.\<close>

definition pair_accept :: "int \<Rightarrow> int \<Rightarrow> bool" where
  "pair_accept xa xb \<longleftrightarrow> WORKER_BALL_DIAMETER < \<bar>xa - xb\<bar>"

text \<open>The \<open>loop\<close> of the both-alive branch: retry the pair until it is accepted.\<close>

partial_function (option) pair_loop :: "caster \<Rightarrow> (int \<times> int \<times> caster) option" where
  "pair_loop c =
     (case pair_round c of
        None \<Rightarrow> None
      | Some (xa, xb, c2) \<Rightarrow>
          (if pair_accept xa xb then Some (xa, xb, c2) else pair_loop c2))"

declare pair_loop.simps [code]

fun pair_within :: "nat \<Rightarrow> caster \<Rightarrow> (int \<times> int \<times> caster) option" where
  "pair_within 0 c = None"
| "pair_within (Suc n) c =
     (case pair_round c of
        None \<Rightarrow> None
      | Some (xa, xb, c2) \<Rightarrow>
          (if pair_accept xa xb then Some (xa, xb, c2) else pair_within n c2))"

text \<open>The least index of a free sample, when there is one.\<close>

definition first_free :: "caster \<Rightarrow> nat \<Rightarrow> bool" where
  "first_free c n \<longleftrightarrow>
     sample_free c (cs_samples c (cs_pos c + n)) \<and> (\<forall>m < n. \<not> sample_free c (cs_samples c (cs_pos c + m)))"

text \<open>Example: a caster over the panel at the origin with one ball at the spawn point and
  samples \<open>0, 50, 50, \<dots>\<close>.\<close>

definition ex_caster :: caster where
  "ex_caster = caster_new (0, 0) (\<lambda>i. if i = 0 then 0 else 50) 0 [((0, WORKER_BALL_SPAWN_Y), 5)] 5"

text \<open>A row of thirteen worker balls at spawn height, one every two diameters' worth of
  centre spacing (20 units), across the whole span of the panel at root \<open>rt\<close>.\<close>

definition blocked_line :: "vec2 \<Rightarrow> (vec2 \<times> int) list" where
  "blocked_line rt =
     map (\<lambda>i. ((fst rt - 120 + 20 * int i, WORKER_BALL_SPAWN_Y + snd rt), WORKER_BALL_RADIUS)) [0..<13]"

section \<open>Lemmas\<close>

lemma sample_free_pos [simp]: "sample_free (c\<lparr>cs_pos := k\<rparr>) x = sample_free c x"
  by (simp add: sample_free_def spawn_point_def)

lemma caster_get_first_free:
  "first_free c n \<Longrightarrow> caster_get c = Some (cs_samples c (cs_pos c + n), c\<lparr>cs_pos := cs_pos c + Suc n\<rparr>)"
proof (induction n arbitrary: c)
  case 0
  then show ?case by (simp add: first_free_def caster_get.simps)
next
  case (Suc n)
  let ?c' = "c\<lparr>cs_pos := Suc (cs_pos c)\<rparr>"
  from Suc.prems have "\<not> sample_free c (cs_samples c (cs_pos c))" and "first_free ?c' n"
    by (auto simp: first_free_def)
  then have "caster_get c = caster_get ?c'"
    by (subst caster_get.simps) simp
  also from \<open>first_free ?c' n\<close>
  have "\<dots> = Some (cs_samples ?c' (cs_pos ?c' + n), ?c'\<lparr>cs_pos := cs_pos ?c' + Suc n\<rparr>)"
    by (rule Suc.IH)
  finally show ?case by simp
qed

lemma caster_get_Some_first_free:
  assumes "caster_get c = Some r"
  shows "\<exists>n. first_free c n \<and> r = (cs_samples c (cs_pos c + n), c\<lparr>cs_pos := cs_pos c + Suc n\<rparr>)"
proof (rule caster_get.raw_induct [OF _ assms])
  fix get :: "caster \<Rightarrow> (int \<times> caster) option" and c r
  assume IH: "\<And>c r. get c = Some r \<Longrightarrow>
                \<exists>n. first_free c n \<and> r = (cs_samples c (cs_pos c + n), c\<lparr>cs_pos := cs_pos c + Suc n\<rparr>)"
    and step: "(if sample_free c (cs_samples c (cs_pos c))
                then Some (cs_samples c (cs_pos c), c\<lparr>cs_pos := Suc (cs_pos c)\<rparr>)
                else get (c\<lparr>cs_pos := Suc (cs_pos c)\<rparr>)) = Some r"
  show "\<exists>n. first_free c n \<and> r = (cs_samples c (cs_pos c + n), c\<lparr>cs_pos := cs_pos c + Suc n\<rparr>)"
  proof (cases "sample_free c (cs_samples c (cs_pos c))")
    case True
    with step show ?thesis by (intro exI [of _ 0]) (auto simp: first_free_def)
  next
    case False
    let ?c' = "c\<lparr>cs_pos := Suc (cs_pos c)\<rparr>"
    from False step have "get ?c' = Some r" by simp
    then obtain n where "first_free ?c' n"
      and r: "r = (cs_samples ?c' (cs_pos ?c' + n), ?c'\<lparr>cs_pos := cs_pos ?c' + Suc n\<rparr>)"
      using IH by blast
    with False have "first_free c (Suc n)"
      by (auto simp: first_free_def less_Suc_eq_0_disj)
    with r show ?thesis by (intro exI [of _ "Suc n"]) simp
  qed
qed

lemma first_free_exists:
  assumes "sample_free c (cs_samples c (cs_pos c + k))"
  shows "\<exists>n. first_free c n"
proof -
  let ?n = "LEAST n. sample_free c (cs_samples c (cs_pos c + n))"
  from assms have "sample_free c (cs_samples c (cs_pos c + ?n))" by (rule LeastI)
  moreover have "\<forall>m < ?n. \<not> sample_free c (cs_samples c (cs_pos c + m))"
    using not_less_Least by blast
  ultimately show ?thesis unfolding first_free_def by blast
qed

text \<open>C31: \<open>WorkerBallShapeCaster::get\<close> returns exactly the first sample drawn at which
  the spawn shape is free, and leaves the sample iterator just after it.\<close>

theorem caster_get_spec:
  "caster_get c = Some (x, c') \<longleftrightarrow>
   (\<exists>n. first_free c n \<and> x = cs_samples c (cs_pos c + n) \<and> c' = c\<lparr>cs_pos := cs_pos c + Suc n\<rparr>)"
  using caster_get_Some_first_free [of c "(x, c')"] caster_get_first_free [of c] by auto

text \<open>C32: the rejection-sampling loop returns as soon as the samples still to be drawn
  hold one free sample, and runs forever when they hold none.\<close>

theorem caster_get_terminates:
  "(\<exists>r. caster_get c = Some r) \<longleftrightarrow> (\<exists>k. sample_free c (cs_samples c (cs_pos c + k)))"
proof
  assume "\<exists>r. caster_get c = Some r"
  then show "\<exists>k. sample_free c (cs_samples c (cs_pos c + k))"
    using caster_get_Some_first_free first_free_def by blast
next
  assume "\<exists>k. sample_free c (cs_samples c (cs_pos c + k))"
  then obtain n where "first_free c n" using first_free_exists by blast
  then show "\<exists>r. caster_get c = Some r" using caster_get_first_free by blast
qed

lemma caster_get_Some_free:
  assumes "caster_get c = Some (x, c1)"
  shows "sample_free c x \<and> (\<exists>k. c1 = c\<lparr>cs_pos := k\<rparr>)"
  using caster_get_Some_first_free [OF assms] by (auto simp: first_free_def)

lemma pair_round_Some:
  assumes "pair_round c = Some (xa, xb, c2)"
  shows "sample_free c xa \<and> sample_free c xb \<and> (\<exists>k. c2 = c\<lparr>cs_pos := k\<rparr>)"
proof -
  from assms obtain c1 where g1: "caster_get c = Some (xa, c1)" and g2: "caster_get c1 = Some (xb, c2)"
    by (auto simp: pair_round_def split: option.splits)
  from caster_get_Some_free [OF g1] obtain k1 where "sample_free c xa" "c1 = c\<lparr>cs_pos := k1\<rparr>"
    by blast
  with caster_get_Some_free [OF g2] show ?thesis by auto
qed

lemma pair_within_pair_loop: "pair_within n c = Some r \<Longrightarrow> pair_loop c = Some r"
proof (induction n arbitrary: c)
  case 0
  then show ?case by simp
next
  case (Suc n)
  then show ?case
    by (subst pair_loop.simps) (auto split: option.splits if_splits)
qed

lemma pair_loop_pair_within:
  assumes "pair_loop c = Some r"
  shows "\<exists>n. pair_within n c = Some r"
proof (rule pair_loop.raw_induct [OF _ assms])
  fix loop :: "caster \<Rightarrow> (int \<times> int \<times> caster) option" and c r
  assume IH: "\<And>c r. loop c = Some r \<Longrightarrow> \<exists>n. pair_within n c = Some r"
    and step: "(case pair_round c of None \<Rightarrow> None
               | Some (xa, xb, c2) \<Rightarrow>
                   if pair_accept xa xb then Some (xa, xb, c2) else loop c2) = Some r"
  from step obtain xa xb c2 where round: "pair_round c = Some (xa, xb, c2)"
    by (auto split: option.splits)
  show "\<exists>n. pair_within n c = Some r"
  proof (cases "pair_accept xa xb")
    case True
    with step round show ?thesis by (intro exI [of _ "Suc 0"]) auto
  next
    case False
    with step round have "loop c2 = Some r" by simp
    then obtain n where "pair_within n c2 = Some r" using IH by blast
    with False round show ?thesis by (intro exI [of _ "Suc n"]) simp
  qed
qed

lemma pair_within_Some:
  "pair_within n c = Some (xa, xb, c') \<Longrightarrow>
   pair_accept xa xb \<and> sample_free c xa \<and> sample_free c xb"
proof (induction n arbitrary: c)
  case 0
  then show ?case by simp
next
  case (Suc n)
  then obtain ya yb c2 where round: "pair_round c = Some (ya, yb, c2)"
    by (auto split: option.splits)
  from pair_round_Some [OF round] obtain k where c2: "c2 = c\<lparr>cs_pos := k\<rparr>" by blast
  show ?case
  proof (cases "pair_accept ya yb")
    case True
    with Suc.prems round pair_round_Some [OF round] show ?thesis by simp
  next
    case False
    with Suc.prems round have "pair_within n c2 = Some (xa, xb, c')" by simp
    from Suc.IH [OF this] c2 show ?thesis by simp
  qed
qed


text \<open>Every integer sample of the span \<open>[-ARENA_WIDTH_FRAC_2, ARENA_WIDTH_FRAC_2)\<close> touches
  a ball of the blocked line.\<close>

lemma blocked_line_hits:
  assumes "- ARENA_WIDTH_FRAC_2 \<le> x" and "x < ARENA_WIDTH_FRAC_2"
  shows "intersection_with_shape (blocked_line rt) (x + fst rt, WORKER_BALL_SPAWN_Y + snd rt) WORKER_BALL_RADIUS"
proof -
  from assms have x: "0 \<le> x + 130" "x + 130 \<le> 259" by (simp_all add: panel_consts)
  define q where "q = (x + 130) div 20"
  have q0: "0 \<le> q" using x(1) by (simp add: q_def)
  have "q \<le> 259 div 20" unfolding q_def using x(2) by (rule zdiv_mono1) simp
  then have q12: "q \<le> 12" by simp
  have m: "0 \<le> (x + 130) mod 20" "(x + 130) mod 20 < 20" by simp_all
  have split: "x + 130 = 20 * q + (x + 130) mod 20" by (simp add: q_def)
  let ?c = "fst rt - 120 + 20 * q"
  have "\<bar>(x + fst rt) - ?c\<bar> \<le> \<bar>WORKER_BALL_RADIUS + WORKER_BALL_RADIUS\<bar>"
    using m split by (simp add: panel_consts)
  then have near: "((x + fst rt) - ?c)\<^sup>2 \<le> (WORKER_BALL_RADIUS + WORKER_BALL_RADIUS)\<^sup>2"
    by (simp add: abs_le_square_iff)
  have mem: "((?c, WORKER_BALL_SPAWN_Y + snd rt), WORKER_BALL_RADIUS) \<in> set (blocked_line rt)"
  proof -
    have "nat q \<in> set [0..<13]" using q12 by simp
    moreover have "int (nat q) = q" using q0 by simp
    ultimately show ?thesis unfolding blocked_line_def by (auto intro!: image_eqI [where x = "nat q"])
  qed
  have "circles_intersect (x + fst rt, WORKER_BALL_SPAWN_Y + snd rt) WORKER_BALL_RADIUS
          (?c, WORKER_BALL_SPAWN_Y + snd rt) WORKER_BALL_RADIUS"
    using near by (simp add: circles_intersect_def)
  with mem show ?thesis
    unfolding intersection_with_shape_iff by (intro bexI [OF _ mem]) simp
qed

text \<open>A sample \<open>x\<close> is blocked by a worker ball only if the ball's centre lies
  within a diameter of \<open>x\<close>; so \<open>2 * WORKER_BALL_COUNT_MAX\<close> balls near a panel
  block at most \<open>12 * 21 < 260\<close> of its integer samples.\<close>

lemma blocked_window:
  assumes "circles_intersect (x + fst rt, y) WORKER_BALL_RADIUS q WORKER_BALL_RADIUS"
  shows "x \<in> {fst q - fst rt - 10 .. fst q - fst rt + 10}"
proof -
  have "(x + fst rt - fst q)\<^sup>2 \<le> (WORKER_BALL_RADIUS + WORKER_BALL_RADIUS)\<^sup>2"
    using assms zero_le_power2 [of "y - snd q"] unfolding circles_intersect_def fst_conv snd_conv
    by linarith
  then have "\<bar>x + fst rt - fst q\<bar> \<le> \<bar>WORKER_BALL_RADIUS + WORKER_BALL_RADIUS\<bar>"
    by (simp only: abs_le_square_iff)
  then have "\<bar>x + fst rt - fst q\<bar> \<le> 10" by (simp add: WORKER_BALL_RADIUS_def)
  then show ?thesis by (simp add: abs_le_iff)
qed

lemma free_sample_exists:
  assumes "list_all (\<lambda>(q, s). s = WORKER_BALL_RADIUS) bodies"
    and "length (filter (\<lambda>(q, s). \<bar>fst q - fst rt\<bar> \<le> 140) bodies) \<le> 12"
  shows "\<exists>x. - ARENA_WIDTH_FRAC_2 \<le> x \<and> x < ARENA_WIDTH_FRAC_2 \<and>
             \<not> intersection_with_shape bodies (x + fst rt, y) WORKER_BALL_RADIUS"
proof (rule ccontr)
  let ?near = "filter (\<lambda>(q, s). \<bar>fst q - fst rt\<bar> \<le> 140) bodies"
  let ?win = "\<lambda>b :: vec2 \<times> int. {fst (fst b) - fst rt - 10 .. fst (fst b) - fst rt + 10}"
  assume contra: "\<not> (\<exists>x. - ARENA_WIDTH_FRAC_2 \<le> x \<and> x < ARENA_WIDTH_FRAC_2 \<and>
             \<not> intersection_with_shape bodies (x + fst rt, y) WORKER_BALL_RADIUS)"
  have cover: "{-130..<130} \<subseteq> (\<Union>b \<in> set ?near. ?win b)"
  proof
    fix x :: int assume x: "x \<in> {-130..<130}"
    with contra have "intersection_with_shape bodies (x + fst rt, y) WORKER_BALL_RADIUS"
      by (auto simp: ARENA_WIDTH_FRAC_2_def ARENA_WIDTH_def)
    then obtain q s where qs: "(q, s) \<in> set bodies"
      and c: "circles_intersect (x + fst rt, y) WORKER_BALL_RADIUS q s"
      unfolding intersection_with_shape_iff by blast
    from qs assms(1) have "s = WORKER_BALL_RADIUS" by (auto simp: list_all_iff)
    with c blocked_window [of x rt y q] have w: "x \<in> ?win (q, s)" by simp
    with x have "\<bar>fst q - fst rt\<bar> \<le> 140" by (simp add: abs_le_iff)
    with qs have "(q, s) \<in> set ?near" by simp
    with w show "x \<in> (\<Union>b \<in> set ?near. ?win b)" by blast
  qed
  have "card {-130..<130::int} \<le> card (\<Union>b \<in> set ?near. ?win b)"
    using cover by (rule card_mono [rotated]) simp
  also have "\<dots> \<le> (\<Sum>b \<in> set ?near. card (?win b))" by (rule card_UN_le) simp
  also have "\<dots> = 21 * card (set ?near)" by simp
  also have "\<dots> \<le> 21 * length ?near" by (intro mult_le_mono2 card_length)
  also have "\<dots> \<le> 21 * 12" using assms(2) by (intro mult_le_mono2)
  finally show False by simp
qed

text \<open>C22: the population cap is tight for the rejection loop of
  \<open>WorkerBallShapeCaster::get\<close>: thirteen balls at spawn height, one more than the
  \<open>2 * WORKER_BALL_COUNT_MAX\<close> a panel may hold, leave no free sample in the span the
  uniform distribution draws from, and the loop runs forever.\<close>

theorem caster_get_blocked_line:
  assumes "\<forall>k. - ARENA_WIDTH_FRAC_2 \<le> samples k \<and> samples k < ARENA_WIDTH_FRAC_2"
  shows "caster_get (caster_new rt samples pos (blocked_line rt) WORKER_BALL_RADIUS) = None \<and>
         length (blocked_line rt) = 2 * WORKER_BALL_COUNT_MAX + 1"
proof
  let ?c = "caster_new rt samples pos (blocked_line rt) WORKER_BALL_RADIUS"
  show "caster_get ?c = None"
  proof (rule ccontr)
    assume "caster_get ?c \<noteq> None"
    then obtain r where "caster_get ?c = Some r" by auto
    from caster_get_Some_first_free [OF this] obtain n where "first_free ?c n" by blast
    then have "sample_free ?c (samples (pos + n))" by (simp add: first_free_def caster_new_def)
    with blocked_line_hits [of "samples (pos + n)" rt] assms show False
      by (simp add: sample_free_def spawn_point_def caster_new_def)
  qed
  show "length (blocked_line rt) = 2 * WORKER_BALL_COUNT_MAX + 1"
    by (simp add: blocked_line_def panel_consts)
qed

text \<open>A free sample that the stream draws at some point makes the loop return.\<close>

lemma caster_get_returns_free:
  assumes "\<not> intersection_with_shape (cs_bodies c) (x + fst (cs_root_position c), WORKER_BALL_SPAWN_Y + snd (cs_root_position c)) (cs_radius c)"
    and "cs_samples c (cs_pos c + k) = x"
  shows "\<exists>r. caster_get c = Some r"
proof -
  from assms have "sample_free c (cs_samples c (cs_pos c + k))"
    by (simp add: sample_free_def spawn_point_def)
  then obtain n where "first_free c n" by (rule first_free_exists [THEN exE])
  then show ?thesis by (blast dest: caster_get_first_free)
qed

text \<open>C21: with at most \<open>2 * WORKER_BALL_COUNT_MAX\<close> worker balls near a panel, the
  rejection loop of \<open>WorkerBallShapeCaster::get\<close> returns for every sample stream that
  draws each integer of the span at some point: some sample of the span is always free.\<close>

theorem caster_get_live:
  assumes "list_all (\<lambda>(q, s). s = WORKER_BALL_RADIUS) bodies"
    and "length (filter (\<lambda>(q, s). \<bar>fst q - fst rt\<bar> \<le> 140) bodies) \<le> 2 * WORKER_BALL_COUNT_MAX"
    and "\<forall>x. - ARENA_WIDTH_FRAC_2 \<le> x \<and> x < ARENA_WIDTH_FRAC_2 \<longrightarrow> (\<exists>k. samples (pos + k) = x)"
  shows "\<exists>r. caster_get (caster_new rt samples pos bodies WORKER_BALL_RADIUS) = Some r"
proof -
  let ?c = "caster_new rt samples pos bodies WORKER_BALL_RADIUS"
  from assms(2) have "length (filter (\<lambda>(q, s). \<bar>fst q - fst rt\<bar> \<le> 140) bodies) \<le> 12"
    by (simp add: WORKER_BALL_COUNT_MAX_def)
  from free_sample_exists [OF assms(1) this, of "WORKER_BALL_SPAWN_Y + snd rt"] obtain x where
    x: "- ARENA_WIDTH_FRAC_2 \<le> x" "x < ARENA_WIDTH_FRAC_2"
    and free: "\<not> intersection_with_shape bodies (x + fst rt, WORKER_BALL_SPAWN_Y + snd rt) WORKER_BALL_RADIUS"
    by blast
  from assms(3) x obtain k where "samples (pos + k) = x" by blast
  with free show ?thesis by (intro caster_get_returns_free [where x = x and k = k]) (simp_all add: caster_new_def)
qed

section \<open>Witnesses\<close>

theorem caster_get_spec_witness:
  "first_free ex_caster 1 \<and> caster_get ex_caster = Some (50, ex_caster\<lparr>cs_pos := 2\<rparr>)"
proof -
  have ff: "first_free ex_caster 1"
    by (simp add: first_free_def ex_caster_def caster_new_def sample_free_def spawn_point_def
        intersection_with_shape_def circles_intersect_def panel_consts)
  have "\<exists>n. first_free ex_caster n \<and> 50 = cs_samples ex_caster (cs_pos ex_caster + n) \<and>
            ex_caster\<lparr>cs_pos := 2\<rparr> = ex_caster\<lparr>cs_pos := cs_pos ex_caster + Suc n\<rparr>"
    using ff by (intro exI [of _ 1]) (simp add: ex_caster_def caster_new_def)
  then have "caster_get ex_caster = Some (50, ex_caster\<lparr>cs_pos := 2\<rparr>)"
    by (rule caster_get_spec [THEN iffD2])
  with ff show ?thesis by simp
qed

theorem caster_get_blocked_line_witness:
  "(\<forall>k. - ARENA_WIDTH_FRAC_2 \<le> (0::int) \<and> (0::int) < ARENA_WIDTH_FRAC_2) \<and>
   caster_get (caster_new (LEFT_ROOT_X, 0) (\<lambda>_. 0) 0 (blocked_line (LEFT_ROOT_X, 0)) WORKER_BALL_RADIUS) = None"
  using caster_get_blocked_line [of "\<lambda>_. 0" "(LEFT_ROOT_X, 0)" 0] by (simp add: panel_consts)

theorem caster_get_live_witness:
  "\<exists>r. caster_get (caster_new (LEFT_ROOT_X, 0) (\<lambda>k. int k - 130) 0 (take 12 (blocked_line (LEFT_ROOT_X, 0)))
          WORKER_BALL_RADIUS) = Some r"
proof -
  have b: "list_all (\<lambda>(q, s). s = WORKER_BALL_RADIUS) (take 12 (blocked_line (LEFT_ROOT_X, 0)))"
    by (simp add: blocked_line_def numeral_nat upt_rec)
  have n: "length (filter (\<lambda>(q, s). \<bar>fst q - fst (LEFT_ROOT_X, 0)\<bar> \<le> 140) (take 12 (blocked_line (LEFT_ROOT_X, 0))))
     \<le> 2 * WORKER_BALL_COUNT_MAX"
    by (simp add: blocked_line_def panel_consts numeral_nat upt_rec)
  have s: "\<forall>x. - ARENA_WIDTH_FRAC_2 \<le> x \<and> x < ARENA_WIDTH_FRAC_2 \<longrightarrow> (\<exists>k. int (0 + k) - 130 = x)"
  proof (intro allI impI)
    fix x :: int assume "- ARENA_WIDTH_FRAC_2 \<le> x \<and> x < ARENA_WIDTH_FRAC_2"
    then have "int (0 + nat (x + 130)) - 130 = x" by (simp add: panel_consts)
    then show "\<exists>k. int (0 + k) - 130 = x" by blast
  qed
  from caster_get_live [OF b n, of "\<lambda>k. int k - 130" 0] s show ?thesis by simp
qed

end
