(* ===== verification/Trails.thy ===== *)
theory Trails
  imports World "HOL-Library.Multiset"
begin

text \<open>
  The trail pool's two transition points on the trail side: the per-frame system
  \<open>update_workers_particle_position\<close> (a linked trail follows its ball; a trail whose
  ball no longer resolves is parked: tagged with the system-local toggle \<open>go_left\<close>,
  made invisible, moved to that side's resting point, and the toggle flipped) and the
  trail loop of \<open>restart\<close> (every trail that is already inactive is re-parked, with a
  toggle that starts at \<open>false\<close> on each call). The reuse of idle trails by the
  spawner is in \<open>Spawner\<close>.
\<close>

text \<open>A trail the update system parks: linked to a ball that no longer resolves.\<close>

definition dangling :: "world \<Rightarrow> trail \<Rightarrow> bool" where
  "dangling w t \<longleftrightarrow> (case tr_link t of WorkerBallTrail b \<Rightarrow> map_of (balls w) b = None | _ \<Rightarrow> False)"

definition park :: "bool \<Rightarrow> trail \<Rightarrow> trail" where
  "park go_left t =
     t\<lparr>tr_link := InactiveWorkerBallTrail go_left, tr_spawn_color := NoColor,
       tr_position := (rest_x go_left, WORKER_BALL_SPAWN_Y)\<rparr>"

text \<open>The loop body of \<open>update_workers_particle_position\<close> over the trails in query
  order; trails without a \<open>WorkerBallTrail\<close> link are not matched by the query.\<close>

fun update_trails :: "world \<Rightarrow> bool \<Rightarrow> (entity \<times> trail) list \<Rightarrow> (entity \<times> trail) list \<times> bool" where
  "update_trails w go_left [] = ([], go_left)"
| "update_trails w go_left ((e, t) # ts) =
     (case tr_link t of
        WorkerBallTrail b \<Rightarrow>
          (case map_of (balls w) b of
             Some ball \<Rightarrow>
               (let (ts', g) = update_trails w go_left ts
                in ((e, t\<lparr>tr_position := ball_global w ball\<rparr>) # ts', g))
           | None \<Rightarrow>
               (let (ts', g) = update_trails w (\<not> go_left) ts
                in ((e, park go_left t) # ts', g)))
      | InactiveWorkerBallTrail _ \<Rightarrow>
          (let (ts', g) = update_trails w go_left ts in ((e, t) # ts', g)))"

definition update_workers_particle_position :: "bool \<Rightarrow> world \<Rightarrow> world \<times> bool" where
  "update_workers_particle_position go_left w =
     (let (ts, g) = update_trails w go_left (trails w) in (w\<lparr>trails := ts\<rparr>, g))"

text \<open>The trail loop of \<open>restart\<close>: the query matches the inactive trails only.\<close>

fun restart_trails :: "bool \<Rightarrow> (entity \<times> trail) list \<Rightarrow> (entity \<times> trail) list" where
  "restart_trails go_left [] = []"
| "restart_trails go_left ((e, t) # ts) =
     (case tr_link t of
        InactiveWorkerBallTrail _ \<Rightarrow> (e, park go_left t) # restart_trails (\<not> go_left) ts
      | WorkerBallTrail _ \<Rightarrow> (e, t) # restart_trails go_left ts)"

text \<open>The idle tags a run of the toggle hands out: \<open>g, \<not> g, g, \<dots>\<close>.\<close>

definition alternate :: "bool \<Rightarrow> nat \<Rightarrow> bool list" where
  "alternate g n = map (\<lambda>i. g \<noteq> odd i) [0..<n]"

text \<open>The links given to the trails the update parks, in query order.\<close>

definition parked_tags :: "world \<Rightarrow> (entity \<times> trail) list \<Rightarrow> (entity \<times> trail) list \<Rightarrow> trail_link list" where
  "parked_tags w ts ts' = [tr_link (snd q). (p, q) \<leftarrow> zip ts ts', dangling w (snd p)]"

definition idle_trail :: "trail \<Rightarrow> bool" where
  "idle_trail t \<longleftrightarrow> (case tr_link t of InactiveWorkerBallTrail _ \<Rightarrow> True | _ \<Rightarrow> False)"

definition dcount :: "world \<Rightarrow> (entity \<times> trail) list \<Rightarrow> nat" where
  "dcount w ts = length (filter (\<lambda>(e, t). dangling w t) ts)"

text \<open>How many idle trails of a side the pool holds, and the balls trails are linked to.\<close>

definition idle_count :: "bool \<Rightarrow> (entity \<times> trail) list \<Rightarrow> nat" where
  "idle_count g ts = length (filter (\<lambda>(e, t). tr_link t = InactiveWorkerBallTrail g) ts)"

definition linked_balls :: "(entity \<times> trail) list \<Rightarrow> entity list" where
  "linked_balls ts = concat (map (\<lambda>(e, t). case tr_link t of WorkerBallTrail b \<Rightarrow> [b] | _ \<Rightarrow> []) ts)"

text \<open>The world invariant: entity ids distinct and fresh, and no two trails linked to
  the same ball (at most one active trail per worker ball).\<close>

definition world_inv :: "world \<Rightarrow> bool" where
  "world_inv w \<longleftrightarrow>
     ids_ok w \<and> distinct (linked_balls (trails w)) \<and>
     list_all (\<lambda>b. b < next_entity w) (linked_balls (trails w))"

section \<open>Lemmas\<close>

lemma park_simps [simp]:
  "tr_link (park g t) = InactiveWorkerBallTrail g"
  "tr_spawn_color (park g t) = NoColor"
  "tr_position (park g t) = (rest_x g, WORKER_BALL_SPAWN_Y)"
  by (simp_all add: park_def)

lemma park_park [simp]: "park g (park h t) = park g t"
  by (simp add: park_def)

lemma alternate_Suc: "alternate g (Suc n) = g # alternate (\<not> g) n"
  by (induction n arbitrary: g) (auto simp: alternate_def map_upt_Suc)

lemma update_trails_ids: "map fst (fst (update_trails w g ts)) = map fst ts"
  by (induction w g ts rule: update_trails.induct)
     (auto split: trail_link.splits option.splits prod.splits)

lemma length_update_trails [simp]: "length (fst (update_trails w g ts)) = length ts"
  using update_trails_ids by (metis length_map)

lemma dangling_park [simp]: "\<not> dangling w (park g t)"
  by (simp add: dangling_def)

lemma dangling_linked [simp]:
  "tr_link t = WorkerBallTrail b \<Longrightarrow> dangling w t \<longleftrightarrow> map_of (balls w) b = None"
  by (simp add: dangling_def)

lemma dangling_inactive [simp]: "tr_link t = InactiveWorkerBallTrail x \<Longrightarrow> \<not> dangling w t"
  by (simp add: dangling_def)

lemma dangling_position [simp]: "dangling w (t\<lparr>tr_position := p\<rparr>) = dangling w t"
  by (simp add: dangling_def)

lemma alternate_0 [simp]: "alternate g 0 = []"
  by (simp add: alternate_def)

lemma dcount_simps [simp]:
  "dcount w [] = 0"
  "dcount w ((e, t) # ts) = (if dangling w t then Suc (dcount w ts) else dcount w ts)"
  by (simp_all add: dcount_def)

lemma update_trails_toggle: "snd (update_trails w g ts) = (g \<noteq> odd (dcount w ts))"
  by (induction w g ts rule: update_trails.induct)
     (auto split: trail_link.splits option.splits prod.splits)

lemma update_trails_resolved:
  "list_all (\<lambda>(e, t). \<not> dangling w t) (fst (update_trails w g ts))"
  by (induction w g ts rule: update_trails.induct)
     (auto split: trail_link.splits option.splits prod.splits)

lemma update_trails_parked_tags:
  "parked_tags w ts (fst (update_trails w g ts)) = map InactiveWorkerBallTrail (alternate g (dcount w ts))"
  by (induction w g ts rule: update_trails.induct)
     (auto simp: parked_tags_def alternate_Suc split: trail_link.splits option.splits prod.splits)

lemma restart_trails_ids [simp]: "map fst (restart_trails g ts) = map fst ts"
  by (induction g ts rule: restart_trails.induct) (auto split: trail_link.splits)

lemma restart_trails_idem: "restart_trails g (restart_trails g ts) = restart_trails g ts"
  by (induction g ts rule: restart_trails.induct) (auto split: trail_link.splits)

lemma restart_trails_linked:
  "(e, t) \<in> set ts \<Longrightarrow> tr_link t = WorkerBallTrail b \<Longrightarrow> (e, t) \<in> set (restart_trails g ts)"
  by (induction g ts rule: restart_trails.induct) (auto split: trail_link.splits)

lemma restart_trails_idle:
  "list_all (\<lambda>(e, t). idle_trail t \<longrightarrow> tr_spawn_color t = NoColor \<and> snd (tr_position t) = WORKER_BALL_SPAWN_Y)
     (restart_trails g ts)"
  by (induction g ts rule: restart_trails.induct) (auto simp: idle_trail_def split: trail_link.splits)

lemma idle_count_simps [simp]:
  "idle_count g [] = 0"
  "idle_count g ((e, t) # ts) =
     (if tr_link t = InactiveWorkerBallTrail g then Suc (idle_count g ts) else idle_count g ts)"
  "idle_count g (ts @ us) = idle_count g ts + idle_count g us"
  by (simp_all add: idle_count_def)

lemma linked_balls_simps [simp]:
  "linked_balls [] = []"
  "linked_balls ((e, t) # ts) =
     (case tr_link t of WorkerBallTrail b \<Rightarrow> b # linked_balls ts | _ \<Rightarrow> linked_balls ts)"
  "linked_balls (ts @ us) = linked_balls ts @ linked_balls us"
  by (simp_all add: linked_balls_def split: trail_link.splits)

lemma idle_count_pos:
  "(e, t) \<in> set ts \<Longrightarrow> tr_link t = InactiveWorkerBallTrail g \<Longrightarrow> 0 < idle_count g ts"
  by (induction ts) (auto split: if_splits)

text \<open>Relinking the one trail with id \<open>te\<close> (ids distinct) from idle to a ball.\<close>

lemma relink_counts:
  assumes "distinct (map fst ts)" and "(te, t) \<in> set ts" and "tr_link t = InactiveWorkerBallTrail g"
    and "\<And>u. tr_link (f u) = WorkerBallTrail n"
  shows "idle_count g (update_at te f ts) = idle_count g ts - 1 \<and>
         mset (linked_balls (update_at te f ts)) = add_mset n (mset (linked_balls ts))"
  using assms
proof (induction ts)
  case Nil
  then show ?case by simp
next
  case (Cons p ts)
  obtain e u where p: "p = (e, u)" by (cases p)
  show ?case
  proof (cases "e = te")
    case True
    with Cons.prems p have "u = t" and "te \<notin> fst ` set ts" by (auto simp: rev_image_eqI)
    then have "update_at te f ts = ts"
      by (induction ts) (auto simp: rev_image_eqI)
    with True p \<open>u = t\<close> Cons.prems show ?thesis by simp
  next
    case False
    with Cons p idle_count_pos [of te t ts g] show ?thesis by (auto split: trail_link.splits)
  qed
qed

lemma linked_balls_update_trails:
  "linked_balls (fst (update_trails w g ts)) = filter (\<lambda>b. map_of (balls w) b \<noteq> None) (linked_balls ts)"
  by (induction w g ts rule: update_trails.induct)
     (auto split: trail_link.splits option.splits prod.splits)

lemma linked_balls_restart_trails [simp]: "linked_balls (restart_trails g ts) = linked_balls ts"
  by (induction g ts rule: restart_trails.induct) (auto split: trail_link.splits)

lemma update_workers_inv:
  assumes "world_inv w"
  shows "world_inv (fst (update_workers_particle_position g w)) \<and>
         balls (fst (update_workers_particle_position g w)) = balls w \<and>
         roots (fst (update_workers_particle_position g w)) = roots w \<and>
         zones (fst (update_workers_particle_position g w)) = zones w"
proof -
  obtain ts g' where u: "update_trails w g (trails w) = (ts, g')" by (cases "update_trails w g (trails w)")
  have ids: "map fst ts = map fst (trails w)" using update_trails_ids [of w g "trails w"] u by simp
  have lb: "linked_balls ts = filter (\<lambda>b. map_of (balls w) b \<noteq> None) (linked_balls (trails w))"
    using linked_balls_update_trails [of w g "trails w"] u by simp
  from assms ids have "ids_ok (w\<lparr>trails := ts\<rparr>)" by (simp add: world_inv_def inv_simps)
  with assms lb show ?thesis
    by (auto simp: world_inv_def update_workers_particle_position_def u list_all_iff)
qed

text \<open>C6: after \<open>update_workers_particle_position\<close> no trail is linked to a ball that
  no longer exists; the trails it parks get the side tags \<open>g, \<not> g, g, \<dots>\<close> in query
  order, starting from the toggle it was called with, and the toggle it keeps for the next
  frame is flipped once per parked trail.\<close>

theorem update_workers_parks_alternating:
  "list_all (\<lambda>(e, t). \<not> dangling w t) (trails (fst (update_workers_particle_position g w))) \<and>
   parked_tags w (trails w) (trails (fst (update_workers_particle_position g w))) =
     map InactiveWorkerBallTrail (alternate g (dcount w (trails w))) \<and>
   snd (update_workers_particle_position g w) = (g \<noteq> odd (dcount w (trails w)))"
  using update_trails_resolved [of w g "trails w"] update_trails_parked_tags [where w = w and g = g and ts = "trails w"]
    update_trails_toggle [of w g "trails w"]
  by (simp add: update_workers_particle_position_def case_prod_beta)

end
