(* ===== verification/Spawner.thy ===== *)
theory Spawner
  imports Spawn_Timer Placement Trails
begin

text \<open>
  The system \<open>spawn_workers\<close> of \<open>src/src/panel_plugin.rs\<close>: tick the spawner's
  timer; when it fires, find the two panel roots (panicking unless there is exactly one
  per side), run the per-panel closure for the left panel (participants A, B) and then
  for the right one (C, D), and count the round. The closure reads the survivor flags:
  with one survivor it places one ball (\<open>caster_get\<close>) and always spawns a new trail
  for it; with two it places a pair (\<open>pair_loop\<close>) and gives each ball the next idle
  trail tagged with the panel's side, spawning a trail only when none is left. All
  placement queries of the frame read the physics snapshot \<open>phys\<close>; the samples of
  \<open>thread_rng\<close> are the sequence \<open>samples\<close>, and the index of the next draw is threaded
  through. \<open>None\<close> is a placement loop that never returns.
\<close>

text \<open>\<open>let &[root0, root1] = ...\<close> and the match on their sides.\<close>

definition select_roots ::
  "(entity \<times> panel_root) list \<Rightarrow> panel_error + ((entity \<times> panel_root) \<times> (entity \<times> panel_root))" where
  "select_roots rs =
     (case rs of
        [r0, r1] \<Rightarrow>
          (case (pr_side (snd r0), pr_side (snd r1)) of
             (Left, Right) \<Rightarrow> Inr (r0, r1)
           | (Right, Left) \<Rightarrow> Inr (r1, r0)
           | _ \<Rightarrow> Inl ExpectEachPanelSideExist)
      | _ \<Rightarrow> Inl ExpectTwoPanels)"

text \<open>The single-survivor branch: one ball and a freshly spawned trail.\<close>

definition spawn_single ::
  "participant \<Rightarrow> entity \<Rightarrow> vec2 \<Rightarrow> caster \<Rightarrow> world \<Rightarrow> (world \<times> nat) option" where
  "spawn_single p root_e root_t c w =
     (case caster_get c of
        None \<Rightarrow> None
      | Some (x, c') \<Rightarrow>
          (let (ball, w1) = spawn_ball (worker_ball_new p x root_e) w;
               (_, w2) = spawn_trail (trail_bundle_new ball (x + fst root_t) p) w1
           in Some (w2, cs_pos c')))"

text \<open>The first idle trail of the query tagged with the wanted side (the filter of
  \<open>trail_query_iter\<close>).\<close>

definition find_idle :: "bool \<Rightarrow> (entity \<times> trail) list \<Rightarrow> (entity \<times> trail) option" where
  "find_idle want_left ts = find (\<lambda>(e, t). tr_link t = InactiveWorkerBallTrail want_left) ts"

text \<open>\<open>setup_trail\<close>: spawn the ball; relink the next idle trail of this side to it, in
  the participant's colour at the spawn point, or spawn a new trail if there is none.\<close>

definition setup_trail ::
  "bool \<Rightarrow> entity \<Rightarrow> vec2 \<Rightarrow> participant \<Rightarrow> int \<Rightarrow> world \<Rightarrow> world" where
  "setup_trail want_left root_e root_t p x w =
     (let (ball, w1) = spawn_ball (worker_ball_new p x root_e) w in
      case find_idle want_left (trails w1) of
        Some (te, _) \<Rightarrow>
          w1\<lparr>trails := update_at te
                 (\<lambda>t. t\<lparr>tr_link := WorkerBallTrail ball, tr_spawn_color := TileColor p,
                         tr_position := (x + fst root_t, WORKER_BALL_SPAWN_Y)\<rparr>) (trails w1)\<rparr>
      | None \<Rightarrow> snd (spawn_trail (trail_bundle_new ball (x + fst root_t) p) w1))"

text \<open>The per-panel closure \<open>f(a, b, root_entity, root_transform, want_left)\<close>.\<close>

definition spawn_panel ::
  "(participant \<Rightarrow> bool) \<Rightarrow> (vec2 \<times> int) list \<Rightarrow> participant \<Rightarrow> participant \<Rightarrow>
   entity \<Rightarrow> vec2 \<Rightarrow> bool \<Rightarrow> (nat \<Rightarrow> int) \<Rightarrow> world \<Rightarrow> nat \<Rightarrow> (world \<times> nat) option" where
  "spawn_panel survivors phys a b root_e root_t want_left samples w pos =
     (let c = caster_new root_t samples pos phys WORKER_BALL_RADIUS in
      case (survivors a, survivors b) of
        (False, False) \<Rightarrow> Some (w, pos)
      | (True, False) \<Rightarrow> spawn_single a root_e root_t c w
      | (False, True) \<Rightarrow> spawn_single b root_e root_t c w
      | (True, True) \<Rightarrow>
          (case pair_loop c of
             None \<Rightarrow> None
           | Some (xa, xb, c') \<Rightarrow>
               Some (setup_trail want_left root_e root_t b xb
                       (setup_trail want_left root_e root_t a xa w), cs_pos c')))"

text \<open>\<open>spawn_workers\<close>, given the frame's time delta, the survivor flags, the physics
  snapshot and the random stream.\<close>

definition spawn_workers ::
  "nat \<Rightarrow> (participant \<Rightarrow> bool) \<Rightarrow> (vec2 \<times> int) list \<Rightarrow> (nat \<Rightarrow> int) \<Rightarrow>
   worker_ball_spawner \<Rightarrow> world \<Rightarrow> nat \<Rightarrow> (panel_error + (worker_ball_spawner \<times> world \<times> nat)) option" where
  "spawn_workers delta survivors phys samples sp w pos =
     (let sp1 = sp\<lparr>sp_timer := timer_tick delta (sp_timer sp)\<rparr> in
      if \<not> just_finished (sp_timer sp1) then Some (Inr (sp1, w, pos))
      else
        (case select_roots (roots w) of
           Inl err \<Rightarrow> Some (Inl err)
         | Inr ((le, lr), (re, rr)) \<Rightarrow>
             (case spawn_panel survivors phys A B le (pr_translation lr) True samples w pos of
                None \<Rightarrow> None
              | Some (w1, pos1) \<Rightarrow>
                  (case spawn_panel survivors phys C D re (pr_translation rr) False samples w1 pos1 of
                     None \<Rightarrow> None
                   | Some (w2, pos2) \<Rightarrow>
                       Some (Inr (sp1\<lparr>sp_counter := Suc (sp_counter sp1)\<rparr>, w2, pos2))))))"

section \<open>Example inputs\<close>

text \<open>A world with the two roots of \<open>setup\<close>, no ball and one idle trail tagged left;
  a sample sequence \<open>0, 50, 50, \<dots>\<close>.\<close>

definition ex_roots :: "(entity \<times> panel_root) list" where
  "ex_roots = [(0, \<lparr>pr_side = Left, pr_translation = (LEFT_ROOT_X, 0)\<rparr>),
               (1, \<lparr>pr_side = Right, pr_translation = (RIGHT_ROOT_X, 0)\<rparr>)]"

definition ex_world :: world where
  "ex_world = \<lparr>roots = ex_roots, zones = [], balls = [],
     trails = [(2, \<lparr>tr_link = InactiveWorkerBallTrail True, tr_spawn_color = NoColor,
                     tr_position = (LEFT_ROOT_X, WORKER_BALL_SPAWN_Y)\<rparr>)],
     next_entity = 3\<rparr>"

definition ex_samples :: "nat \<Rightarrow> int" where
  "ex_samples i = (if i = 0 then 0 else 50)"

section \<open>Lemmas\<close>

lemma find_idle_None: "find_idle g ts = None \<longleftrightarrow> idle_count g ts = 0"
  by (induction ts) (auto simp: find_idle_def)

lemma find_idle_Some:
  "find_idle g ts = Some (te, t) \<Longrightarrow> (te, t) \<in> set ts \<and> tr_link t = InactiveWorkerBallTrail g"
  by (auto simp: find_idle_def find_Some_iff dest: nth_mem)

lemma world_inv_linked_fresh:
  "world_inv w \<Longrightarrow> next_entity w \<notin> set (linked_balls (trails w))"
  by (auto simp: world_inv_def list_all_iff)

lemma setup_trail_fresh:
  assumes "world_inv w" and "idle_count g (trails w) = 0"
  shows "setup_trail g re rt p x w =
           w\<lparr>balls := balls w @ [(next_entity w, worker_ball_new p x re)],
             trails := trails w @ [(Suc (next_entity w), trail_bundle_new (next_entity w) (x + fst rt) p)],
             next_entity := Suc (Suc (next_entity w))\<rparr>"
proof -
  from assms(2) have "find_idle g (trails w) = None" by (simp add: find_idle_None)
  then show ?thesis by (simp add: setup_trail_def spawn_ball_def spawn_trail_def)
qed

lemma setup_trail_inv:
  assumes "world_inv w"
  shows "world_inv (setup_trail g re rt p x w) \<and>
         balls (setup_trail g re rt p x w) = balls w @ [(next_entity w, worker_ball_new p x re)] \<and>
         length (trails (setup_trail g re rt p x w)) =
           length (trails w) + (if idle_count g (trails w) = 0 then 1 else 0) \<and>
         idle_count g (trails (setup_trail g re rt p x w)) = idle_count g (trails w) - 1 \<and>
         roots (setup_trail g re rt p x w) = roots w \<and> zones (setup_trail g re rt p x w) = zones w"
proof (cases "find_idle g (trails w)")
  case None
  let ?w2 = "snd (spawn_trail (trail_bundle_new (next_entity w) (x + fst rt) p)
                 (snd (spawn_ball (worker_ball_new p x re) w)))"
  from None have eq: "setup_trail g re rt p x w = ?w2"
    by (simp add: setup_trail_def spawn_ball_def)
  from None have zero: "idle_count g (trails w) = 0" by (simp add: find_idle_None)
  from assms have "ids_ok ?w2" by (simp add: world_inv_def inv_simps)
  with assms world_inv_linked_fresh [OF assms] have "world_inv ?w2"
    by (auto simp: world_inv_def list_all_iff trail_bundle_new_def)
  with eq zero show ?thesis by (simp add: trail_bundle_new_def)
next
  case (Some q)
  obtain te t where q: "q = (te, t)" by (cases q)
  let ?w1 = "snd (spawn_ball (worker_ball_new p x re) w)"
  let ?f = "\<lambda>t. t\<lparr>tr_link := WorkerBallTrail (next_entity w), tr_spawn_color := TileColor p,
                  tr_position := (x + fst rt, WORKER_BALL_SPAWN_Y)\<rparr>"
  from Some q have mem: "(te, t) \<in> set (trails w)" and idle: "tr_link t = InactiveWorkerBallTrail g"
    using find_idle_Some by blast+
  from assms have dist: "distinct (map fst (trails w))"
    by (simp add: world_inv_def ids_ok_distinct)
  from relink_counts [OF dist mem idle, of ?f "next_entity w"]
  have cnt: "idle_count g (update_at te ?f (trails w)) = idle_count g (trails w) - 1"
    and ms: "mset (linked_balls (update_at te ?f (trails w))) =
             mset (next_entity w # linked_balls (trails w))" by simp_all
  have eq: "setup_trail g re rt p x w = ?w1\<lparr>trails := update_at te ?f (trails w)\<rparr>"
    using Some q by (simp add: setup_trail_def spawn_ball_def)
  have "world_inv (?w1\<lparr>trails := update_at te ?f (trails w)\<rparr>)"
  proof -
    from assms have "ids_ok (?w1\<lparr>trails := update_at te ?f (trails w)\<rparr>)"
      by (simp add: world_inv_def inv_simps)
    moreover from ms world_inv_linked_fresh [OF assms] assms
    have "distinct (linked_balls (update_at te ?f (trails w)))"
      by (simp add: mset_eq_imp_distinct_iff [OF ms] world_inv_def)
    moreover from mset_eq_setD [OF ms] assms
    have "list_all (\<lambda>b. b < Suc (next_entity w)) (linked_balls (update_at te ?f (trails w)))"
      by (auto simp: world_inv_def list_all_iff)
    ultimately show ?thesis by (simp add: world_inv_def)
  qed
  with eq cnt idle_count_pos [OF mem idle] Some show ?thesis
    by (simp add: find_idle_None [symmetric])
qed

lemma spawn_single_Some:
  "spawn_single p re rt c w = Some (w', k) \<longleftrightarrow>
   (\<exists>x c'. caster_get c = Some (x, c') \<and> k = cs_pos c' \<and>
      w' = w\<lparr>balls := balls w @ [(next_entity w, worker_ball_new p x re)],
             trails := trails w @ [(Suc (next_entity w), trail_bundle_new (next_entity w) (x + fst rt) p)],
             next_entity := Suc (Suc (next_entity w))\<rparr>)"
  by (auto simp: spawn_single_def spawn_ball_def spawn_trail_def split: option.splits)

lemma spawn_single_inv:
  assumes "world_inv w" and "spawn_single p re rt c w = Some (w', k)"
  shows "world_inv w'"
proof -
  from assms(2) obtain x c' where
    w': "w' = snd (spawn_trail (trail_bundle_new (next_entity w) (x + fst rt) p)
                  (snd (spawn_ball (worker_ball_new p x re) w)))"
    by (auto simp: spawn_single_Some spawn_ball_def spawn_trail_def)
  from assms(1) have "ids_ok w'" by (simp add: w' world_inv_def inv_simps)
  with assms(1) world_inv_linked_fresh [OF assms(1)] show ?thesis
    by (auto simp: w' world_inv_def list_all_iff trail_bundle_new_def)
qed

lemma spawn_panel_cases:
  "spawn_panel survivors phys a b re rt g samples w pos =
     (let c = caster_new rt samples pos phys WORKER_BALL_RADIUS in
      if survivors a \<and> survivors b then
        (case pair_loop c of
           None \<Rightarrow> None
         | Some (xa, xb, c') \<Rightarrow> Some (setup_trail g re rt b xb (setup_trail g re rt a xa w), cs_pos c'))
      else if survivors a then spawn_single a re rt c w
      else if survivors b then spawn_single b re rt c w
      else Some (w, pos))"
  by (simp add: spawn_panel_def Let_def split: bool.splits)

text \<open>C30: with exactly one survivor on a panel, the spawner adds one ball for that
  survivor and always spawns a new trail for it: idle trails of the panel's side are never
  reused on this path.\<close>

theorem spawn_panel_single_allocates:
  assumes "spawn_panel survivors phys a b re rt g samples w pos = Some (w', pos')"
    and "survivors a \<noteq> survivors b"
  shows "\<exists>p x. survivors p \<and> (p = a \<or> p = b) \<and>
           balls w' = balls w @ [(next_entity w, worker_ball_new p x re)] \<and>
           trails w' = trails w @ [(Suc (next_entity w), trail_bundle_new (next_entity w) (x + fst rt) p)]"
proof (cases "survivors a")
  case True
  with assms have "spawn_single a re rt (caster_new rt samples pos phys WORKER_BALL_RADIUS) w = Some (w', pos')"
    by (simp add: spawn_panel_cases Let_def)
  then obtain x where "w' = w\<lparr>balls := balls w @ [(next_entity w, worker_ball_new a x re)],
      trails := trails w @ [(Suc (next_entity w), trail_bundle_new (next_entity w) (x + fst rt) a)],
      next_entity := Suc (Suc (next_entity w))\<rparr>"
    by (auto simp: spawn_single_Some)
  with True show ?thesis by (intro exI [of _ a] exI [of _ x]) simp
next
  case False
  with assms have "spawn_single b re rt (caster_new rt samples pos phys WORKER_BALL_RADIUS) w = Some (w', pos')"
    and sb: "survivors b" by (simp_all add: spawn_panel_cases Let_def)
  then obtain x where "w' = w\<lparr>balls := balls w @ [(next_entity w, worker_ball_new b x re)],
      trails := trails w @ [(Suc (next_entity w), trail_bundle_new (next_entity w) (x + fst rt) b)],
      next_entity := Suc (Suc (next_entity w))\<rparr>"
    by (auto simp: spawn_single_Some)
  with sb show ?thesis by (intro exI [of _ b] exI [of _ x]) simp
qed

lemma spawn_panel_pair:
  assumes "spawn_panel survivors phys a b re rt g samples w pos = Some (w', pos')"
    and "survivors a" and "survivors b"
  obtains xa xb c' where "pair_loop (caster_new rt samples pos phys WORKER_BALL_RADIUS) = Some (xa, xb, c')"
    and "w' = setup_trail g re rt b xb (setup_trail g re rt a xa w)" and "pos' = cs_pos c'"
  using assms by (auto simp: spawn_panel_cases Let_def split: option.splits)

text \<open>C29: when both participants of a panel survive, the two new balls take idle trails
  of the panel's side first: the pool grows by exactly the number of balls no idle trail
  was left for, loses that many idle trails, and keeps the world invariant.\<close>

theorem spawn_panel_pair_pool:
  assumes "world_inv w" and "spawn_panel survivors phys a b re rt g samples w pos = Some (w', pos')"
    and "survivors a" and "survivors b"
  shows "world_inv w' \<and>
         length (trails w') = length (trails w) + (2 - min 2 (idle_count g (trails w))) \<and>
         idle_count g (trails w') = idle_count g (trails w) - 2"
proof -
  from spawn_panel_pair [OF assms(2-4)] obtain xa xb where
    w': "w' = setup_trail g re rt b xb (setup_trail g re rt a xa w)" by metis
  let ?w1 = "setup_trail g re rt a xa w"
  from setup_trail_inv [OF assms(1)] have inv1: "world_inv ?w1"
    and l1: "length (trails ?w1) = length (trails w) + (if idle_count g (trails w) = 0 then 1 else 0)"
    and i1: "idle_count g (trails ?w1) = idle_count g (trails w) - 1" by blast+
  from setup_trail_inv [OF inv1] w' have "world_inv w'"
    and l2: "length (trails w') = length (trails ?w1) + (if idle_count g (trails ?w1) = 0 then 1 else 0)"
    and i2: "idle_count g (trails w') = idle_count g (trails ?w1) - 1" by blast+
  with l1 i1 show ?thesis by auto
qed

text \<open>The two balls of the paired branch, in the order \<open>setup_trail\<close> spawns them.\<close>

lemma spawn_panel_pair_balls:
  assumes "world_inv w" and "pair_loop (caster_new rt samples pos phys WORKER_BALL_RADIUS) = Some (xa, xb, c')"
    and "w' = setup_trail g re rt b xb (setup_trail g re rt a xa w)"
  shows "\<exists>e1 e2. balls w' = balls w @ [(e1, worker_ball_new a xa re), (e2, worker_ball_new b xb re)]"
    and "world_inv w'"
proof -
  from setup_trail_inv [OF assms(1)] have inv1: "world_inv (setup_trail g re rt a xa w)"
    and b1: "balls (setup_trail g re rt a xa w) = balls w @ [(next_entity w, worker_ball_new a xa re)]"
    by blast+
  from setup_trail_inv [OF inv1] assms(3) b1
  show "\<exists>e1 e2. balls w' = balls w @ [(e1, worker_ball_new a xa re), (e2, worker_ball_new b xb re)]"
    and "world_inv w'" by auto
qed

text \<open>C9: when both participants of a panel survive, the spawner adds exactly their two
  balls, at spawn points that intersect no ball of the physics snapshot and that are more
  than a ball diameter apart, so the two new balls do not intersect each other.\<close>

theorem spawn_panel_pair_separated:
  assumes "world_inv w" and "spawn_panel survivors phys a b re rt g samples w pos = Some (w', pos')"
    and "survivors a" and "survivors b"
  shows "\<exists>xa xb.
           map snd (drop (length (balls w)) (balls w')) = [worker_ball_new a xa re, worker_ball_new b xb re] \<and>
           WORKER_BALL_DIAMETER < \<bar>xa - xb\<bar> \<and>
           \<not> intersection_with_shape phys (xa + fst rt, WORKER_BALL_SPAWN_Y + snd rt) WORKER_BALL_RADIUS \<and>
           \<not> intersection_with_shape phys (xb + fst rt, WORKER_BALL_SPAWN_Y + snd rt) WORKER_BALL_RADIUS \<and>
           \<not> circles_intersect (xa + fst rt, WORKER_BALL_SPAWN_Y + snd rt) WORKER_BALL_RADIUS
                                (xb + fst rt, WORKER_BALL_SPAWN_Y + snd rt) WORKER_BALL_RADIUS"
proof -
  let ?c = "caster_new rt samples pos phys WORKER_BALL_RADIUS"
  from spawn_panel_pair [OF assms(2-4)] obtain xa xb c' where
    loop: "pair_loop ?c = Some (xa, xb, c')" and
    w': "w' = setup_trail g re rt b xb (setup_trail g re rt a xa w)" by metis
  from pair_loop_pair_within [OF loop] obtain n where "pair_within n ?c = Some (xa, xb, c')" by blast
  from pair_within_Some [OF this] have far: "WORKER_BALL_DIAMETER < \<bar>xa - xb\<bar>"
    and fa: "sample_free ?c xa" and fb: "sample_free ?c xb" by (auto simp: pair_accept_def)
  from spawn_panel_pair_balls(1) [OF assms(1) loop w']
  have "map snd (drop (length (balls w)) (balls w')) = [worker_ball_new a xa re, worker_ball_new b xb re]"
    by auto
  moreover have "\<not> circles_intersect (xa + fst rt, WORKER_BALL_SPAWN_Y + snd rt) WORKER_BALL_RADIUS
                                      (xb + fst rt, WORKER_BALL_SPAWN_Y + snd rt) WORKER_BALL_RADIUS"
    by (rule far_circles_disjoint) (use far in \<open>simp_all add: WORKER_BALL_DIAMETER_def WORKER_BALL_RADIUS_def\<close>)
  ultimately show ?thesis using far fa fb
    by (auto simp: sample_free_def spawn_point_def caster_new_def)
qed

lemma spawn_panel_inv:
  assumes "world_inv w" and "spawn_panel survivors phys a b re rt g samples w pos = Some (w', pos')"
  shows "world_inv w' \<and> roots w' = roots w \<and> zones w' = zones w"
proof (cases "survivors a \<and> survivors b")
  case True
  with assms(2) obtain xa xb where w': "w' = setup_trail g re rt b xb (setup_trail g re rt a xa w)"
    by (auto elim: spawn_panel_pair)
  from setup_trail_inv [OF assms(1)] have "world_inv (setup_trail g re rt a xa w)"
    and "roots (setup_trail g re rt a xa w) = roots w" and "zones (setup_trail g re rt a xa w) = zones w"
    by blast+
  with setup_trail_inv [of "setup_trail g re rt a xa w"] w' show ?thesis by auto
next
  case False
  show ?thesis
  proof (cases "survivors a \<or> survivors b")
    case True
    with False assms(2) obtain p where
      "spawn_single p re rt (caster_new rt samples pos phys WORKER_BALL_RADIUS) w = Some (w', pos')"
      by (auto simp: spawn_panel_cases Let_def split: if_splits)
    with spawn_single_inv [OF assms(1)] show ?thesis by (auto simp: spawn_single_Some)
  next
    case neither: False
    with assms show ?thesis by (simp add: spawn_panel_cases Let_def)
  qed
qed

lemma spawn_workers_result:
  assumes "world_inv w" and "spawner_inv sp" and "spawn_workers_condition sp"
    and "spawn_workers delta survivors phys samples sp w pos = Some (Inr (sp', w', pos'))"
  shows "world_inv w' \<and> spawner_inv sp' \<and> roots w' = roots w \<and> zones w' = zones w \<and>
         sp_counter sp' = (if just_finished (timer_tick delta (sp_timer sp)) then Suc (sp_counter sp) else sp_counter sp)"
proof -
  let ?sp1 = "sp\<lparr>sp_timer := timer_tick delta (sp_timer sp)\<rparr>"
  from assms(2) have inv1: "spawner_inv ?sp1" by (rule spawner_tick_inv)
  show ?thesis
  proof (cases "just_finished (timer_tick delta (sp_timer sp))")
    case False
    with assms(1,4) inv1 show ?thesis by (auto simp: spawn_workers_def)
  next
    case True
    with assms(4) obtain le lr re rr w1 pos1 where
      roots: "select_roots (roots w) = Inr ((le, lr), (re, rr))" and
      left: "spawn_panel survivors phys A B le (pr_translation lr) True samples w pos = Some (w1, pos1)" and
      right: "spawn_panel survivors phys C D re (pr_translation rr) False samples w1 pos1 = Some (w', pos')" and
      sp': "sp' = ?sp1\<lparr>sp_counter := Suc (sp_counter sp)\<rparr>"
      by (auto simp: spawn_workers_def Let_def split: sum.splits option.splits prod.splits)
    from spawn_panel_inv [OF assms(1) left] spawn_panel_inv [OF _ right]
    have "world_inv w' \<and> roots w' = roots w \<and> zones w' = zones w" by auto
    moreover from inv1 assms(3) have "spawner_inv sp'"
      by (simp add: sp' spawner_inv_def spawn_workers_condition_def)
    ultimately show ?thesis using True sp' by simp
  qed
qed

lemma select_roots_Inr: "select_roots rs = Inr (l, r) \<Longrightarrow> rs = [l, r] \<or> rs = [r, l]"
  by (auto simp: select_roots_def split: list.splits panel_root_side.splits)

lemma spawn_panel_new_balls:
  assumes "world_inv w" and "spawn_panel survivors phys a b re rt g samples w pos = Some (w', pos')"
  shows "\<exists>new. balls w' = balls w @ new \<and> panel_count re new = length new \<and> length new \<le> 2 \<and>
           std_radius new"
proof (cases "survivors a \<and> survivors b")
  case True
  with assms(2) obtain xa xb c' where
    l: "pair_loop (caster_new rt samples pos phys WORKER_BALL_RADIUS) = Some (xa, xb, c')"
    and w': "w' = setup_trail g re rt b xb (setup_trail g re rt a xa w)"
    by (auto elim: spawn_panel_pair)
  from spawn_panel_pair_balls(1) [OF assms(1) l w'] show ?thesis
    by (auto simp: worker_ball_new_def)
next
  case False
  with assms(2) show ?thesis
    by (auto simp: spawn_panel_cases Let_def spawn_single_Some worker_ball_new_def split: if_splits)
qed

lemma spawn_workers_radius:
  assumes "world_inv w" and "spawn_workers delta survivors phys samples sp w pos = Some (Inr (sp', w', pos'))"
    and "std_radius (balls w)"
  shows "std_radius (balls w')"
proof (cases "just_finished (timer_tick delta (sp_timer sp))")
  case False
  with assms show ?thesis by (auto simp: spawn_workers_def)
next
  case True
  with assms(2) obtain le lr re rr w1 pos1 where
    "select_roots (roots w) = Inr ((le, lr), (re, rr))" and
    left: "spawn_panel survivors phys A B le (pr_translation lr) True samples w pos = Some (w1, pos1)" and
    right: "spawn_panel survivors phys C D re (pr_translation rr) False samples w1 pos1 = Some (w', pos')"
    by (auto simp: spawn_workers_def Let_def split: sum.splits option.splits prod.splits)
  from spawn_panel_inv [OF assms(1) left] have "world_inv w1" by blast
  with spawn_panel_new_balls [OF assms(1) left] spawn_panel_new_balls [OF this right] assms(3)
  show ?thesis by auto
qed

text \<open>Each panel gains at most two balls per spawn round.\<close>

lemma spawn_workers_panel_count:
  assumes "world_inv w" and "spawn_workers delta survivors phys samples sp w pos = Some (Inr (sp', w', pos'))"
  shows "panel_count e (balls w') \<le> panel_count e (balls w) + 2 * (sp_counter sp' - sp_counter sp)"
proof (cases "just_finished (timer_tick delta (sp_timer sp))")
  case False
  with assms(2) show ?thesis by (auto simp: spawn_workers_def)
next
  case True
  with assms(2) obtain le lr re rr w1 pos1 where
    roots: "select_roots (roots w) = Inr ((le, lr), (re, rr))" and
    left: "spawn_panel survivors phys A B le (pr_translation lr) True samples w pos = Some (w1, pos1)" and
    right: "spawn_panel survivors phys C D re (pr_translation rr) False samples w1 pos1 = Some (w', pos')" and
    sp': "sp' = sp\<lparr>sp_timer := timer_tick delta (sp_timer sp), sp_counter := Suc (sp_counter sp)\<rparr>"
    by (auto simp: spawn_workers_def Let_def split: sum.splits option.splits prod.splits)
  from assms(1) have "distinct (map fst (roots w))" by (simp add: world_inv_def ids_ok_def all_ids_def)
  with select_roots_Inr [OF roots] have ne: "le \<noteq> re" by auto
  from spawn_panel_new_balls [OF assms(1) left] obtain nl where
    nl: "balls w1 = balls w @ nl" "panel_count le nl = length nl" "length nl \<le> 2" by blast
  from spawn_panel_inv [OF assms(1) left] have "world_inv w1" by blast
  from spawn_panel_new_balls [OF this right] obtain nr where
    nr: "balls w' = balls w1 @ nr" "panel_count re nr = length nr" "length nr \<le> 2" by blast
  have two: "x \<noteq> y \<Longrightarrow> panel_count x ns + panel_count y ns \<le> length ns" for x y ns
    by (induction ns) auto
  have cnt: "panel_count x ns = length ns \<Longrightarrow> x \<noteq> y \<Longrightarrow> panel_count y ns = 0" for x y ns
    using two [of x y ns] by simp
  have le_len: "panel_count y ns \<le> length ns" for y ns
    by (simp add: panel_count_def)
  have "panel_count e nl + panel_count e nr \<le> 2"
  proof (cases "e = le")
    case True
    with nl nr ne cnt [of re nr e] show ?thesis by simp
  next
    case False
    with nl cnt [of le nl e] have "panel_count e nl = 0" by simp
    with nr le_len [of e nr] show ?thesis by simp
  qed
  with nl nr sp' show ?thesis by simp
qed

text \<open>A panel adds at most two balls, a spawn round at most four, and only when the round
  counter advances.\<close>

lemma spawn_panel_balls:
  assumes "world_inv w" and "spawn_panel survivors phys a b re rt g samples w pos = Some (w', pos')"
  shows "length (balls w') \<le> length (balls w) + 2"
proof (cases "survivors a \<and> survivors b")
  case True
  with assms(2) obtain xa xb where w': "w' = setup_trail g re rt b xb (setup_trail g re rt a xa w)"
    by (auto elim: spawn_panel_pair)
  from setup_trail_inv [OF assms(1)] have "world_inv (setup_trail g re rt a xa w)"
    and "balls (setup_trail g re rt a xa w) = balls w @ [(next_entity w, worker_ball_new a xa re)]"
    by blast+
  with setup_trail_inv [of "setup_trail g re rt a xa w"] w' show ?thesis by auto
next
  case False
  with assms(2) show ?thesis
    by (auto simp: spawn_panel_cases Let_def spawn_single_Some split: if_splits)
qed

lemma spawn_workers_balls:
  assumes "world_inv w" and "spawn_workers delta survivors phys samples sp w pos = Some (Inr (sp', w', pos'))"
  shows "length (balls w') \<le> length (balls w) + 4 * (sp_counter sp' - sp_counter sp) \<and>
         sp_counter sp \<le> sp_counter sp'"
proof (cases "just_finished (timer_tick delta (sp_timer sp))")
  case False
  with assms(2) show ?thesis by (auto simp: spawn_workers_def)
next
  case True
  with assms(2) obtain le lr re rr w1 pos1 where
    "select_roots (roots w) = Inr ((le, lr), (re, rr))" and
    left: "spawn_panel survivors phys A B le (pr_translation lr) True samples w pos = Some (w1, pos1)" and
    right: "spawn_panel survivors phys C D re (pr_translation rr) False samples w1 pos1 = Some (w', pos')" and
    sp': "sp' = sp\<lparr>sp_timer := timer_tick delta (sp_timer sp), sp_counter := Suc (sp_counter sp)\<rparr>"
    by (auto simp: spawn_workers_def Let_def split: sum.splits option.splits prod.splits)
  from spawn_panel_inv [OF assms(1) left] have "world_inv w1" by blast
  from spawn_panel_balls [OF assms(1) left] spawn_panel_balls [OF this right] sp' show ?thesis
    by simp
qed

text \<open>C8: the root selection of \<open>spawn_workers\<close> succeeds exactly on a query of two
  roots, one per side, and returns them as (left, right); it panics with
  \<open>EXPECT_TWO_PANELS_MSG\<close> exactly when the query does not hold two roots, and with
  \<open>EXPECT_EACH_PANEL_SIDE_EXIST_MSG\<close> exactly when it holds two of the same side.\<close>

theorem select_roots_spec:
  "(select_roots rs = Inr (l, r) \<longleftrightarrow> mset rs = {#l, r#} \<and> pr_side (snd l) = Left \<and> pr_side (snd r) = Right) \<and>
   (select_roots rs = Inl ExpectTwoPanels \<longleftrightarrow> length rs \<noteq> 2) \<and>
   (select_roots rs = Inl ExpectEachPanelSideExist \<longleftrightarrow>
      length rs = 2 \<and> pr_side (snd (rs ! 0)) = pr_side (snd (rs ! 1)))"
proof (cases rs rule: remdups_adj.cases)
  case 1
  then show ?thesis by (simp add: select_roots_def)
next
  case (2 x)
  then show ?thesis by (auto simp: select_roots_def)
next
  case (3 x y xs)
  show ?thesis
  proof (cases xs)
    case Nil
    with 3 show ?thesis
      by (auto simp: select_roots_def add_eq_conv_ex split: panel_root_side.splits)
  next
    case (Cons z zs)
    with 3 have "\<not> mset rs = {#l, r#}" by (auto dest: arg_cong [where f = size])
    with 3 Cons show ?thesis by (simp add: select_roots_def)
  qed
qed

text \<open>C12: a spawn round with everybody alive: when the timer fires, \<open>spawn_workers\<close>
  adds exactly four balls, those of A and B under the left root followed by those of C and
  D under the right root, and advances the round counter by one.\<close>

theorem spawn_workers_all_alive:
  assumes "world_inv w" and "select_roots (roots w) = Inr ((le, lr), (re, rr))"
    and "just_finished (timer_tick delta (sp_timer sp))"
    and "spawn_workers delta (\<lambda>_. True) phys samples sp w pos = Some (Inr (sp', w', pos'))"
  shows "map (\<lambda>(e, b). (wb_participant b, wb_parent b)) (drop (length (balls w)) (balls w')) =
           [(A, le), (B, le), (C, re), (D, re)] \<and> sp_counter sp' = Suc (sp_counter sp)"
proof -
  from assms(2-4) obtain w1 pos1 where
    left: "spawn_panel (\<lambda>_. True) phys A B le (pr_translation lr) True samples w pos = Some (w1, pos1)" and
    right: "spawn_panel (\<lambda>_. True) phys C D re (pr_translation rr) False samples w1 pos1 = Some (w', pos')" and
    sp': "sp' = sp\<lparr>sp_timer := timer_tick delta (sp_timer sp), sp_counter := Suc (sp_counter sp)\<rparr>"
    by (auto simp: spawn_workers_def Let_def split: option.splits prod.splits)
  from left obtain xa xb c1 where
    l1: "pair_loop (caster_new (pr_translation lr) samples pos phys WORKER_BALL_RADIUS) = Some (xa, xb, c1)"
    and l2: "w1 = setup_trail True le (pr_translation lr) B xb (setup_trail True le (pr_translation lr) A xa w)"
    by (rule spawn_panel_pair) simp_all
  from right obtain xc xd c2 where
    r1: "pair_loop (caster_new (pr_translation rr) samples pos1 phys WORKER_BALL_RADIUS) = Some (xc, xd, c2)"
    and r2: "w' = setup_trail False re (pr_translation rr) D xd (setup_trail False re (pr_translation rr) C xc w1)"
    by (rule spawn_panel_pair) simp_all
  from spawn_panel_pair_balls [OF assms(1) l1 l2] obtain e1 e2 where
    b1: "balls w1 = balls w @ [(e1, worker_ball_new A xa le), (e2, worker_ball_new B xb le)]" and i1: "world_inv w1"
    by blast
  from spawn_panel_pair_balls(1) [OF i1 r1 r2] obtain e3 e4 where
    "balls w' = balls w1 @ [(e3, worker_ball_new C xc re), (e4, worker_ball_new D xd re)]" by blast
  with b1 sp' show ?thesis by (simp add: worker_ball_new_def)
qed

section \<open>Witnesses\<close>

lemmas spawn_eval = spawn_panel_def caster_new_def pair_loop.simps pair_round_def pair_accept_def caster_get.simps
  sample_free_def intersection_with_shape_def spawn_point_def ex_samples_def ex_world_def ex_roots_def
  spawn_single_def setup_trail_def find_idle_def spawn_ball_def spawn_trail_def panel_consts

lemma ex_world_inv: "world_inv ex_world"
  by (simp add: world_inv_def ids_ok_def all_ids_def ex_world_def ex_roots_def)

theorem spawn_panel_pair_separated_witness:
  "\<exists>w' pos'. spawn_panel (\<lambda>_. True) [] A B 0 (LEFT_ROOT_X, 0) True ex_samples ex_world 0 = Some (w', pos') \<and>
     (\<exists>xa xb.
        map snd (drop (length (balls ex_world)) (balls w')) = [worker_ball_new A xa 0, worker_ball_new B xb 0] \<and>
        WORKER_BALL_DIAMETER < \<bar>xa - xb\<bar> \<and>
        \<not> intersection_with_shape [] (xa + LEFT_ROOT_X, WORKER_BALL_SPAWN_Y + 0) WORKER_BALL_RADIUS \<and>
        \<not> intersection_with_shape [] (xb + LEFT_ROOT_X, WORKER_BALL_SPAWN_Y + 0) WORKER_BALL_RADIUS \<and>
        \<not> circles_intersect (xa + LEFT_ROOT_X, WORKER_BALL_SPAWN_Y + 0) WORKER_BALL_RADIUS
                             (xb + LEFT_ROOT_X, WORKER_BALL_SPAWN_Y + 0) WORKER_BALL_RADIUS)"
proof -
  have "\<exists>r. spawn_panel (\<lambda>_. True) [] A B 0 (LEFT_ROOT_X, 0) True ex_samples ex_world 0 = Some r"
    by (simp add: spawn_eval)
  then obtain w' pos' where
    sp: "spawn_panel (\<lambda>_. True) [] A B 0 (LEFT_ROOT_X, 0) True ex_samples ex_world 0 = Some (w', pos')"
    by auto
  from spawn_panel_pair_separated [OF ex_world_inv sp] sp show ?thesis by auto
qed

theorem spawn_panel_pair_pool_witness:
  "\<exists>w' pos'. spawn_panel (\<lambda>_. True) [] A B 0 (LEFT_ROOT_X, 0) True ex_samples ex_world 0 = Some (w', pos') \<and>
     world_inv w' \<and> length (trails w') = length (trails ex_world) + 1 \<and> idle_count True (trails w') = 0"
proof -
  have "\<exists>r. spawn_panel (\<lambda>_. True) [] A B 0 (LEFT_ROOT_X, 0) True ex_samples ex_world 0 = Some r"
    by (simp add: spawn_eval)
  then obtain w' pos' where
    sp: "spawn_panel (\<lambda>_. True) [] A B 0 (LEFT_ROOT_X, 0) True ex_samples ex_world 0 = Some (w', pos')"
    by auto
  have "idle_count True (trails ex_world) = 1" by (simp add: ex_world_def)
  with spawn_panel_pair_pool [OF ex_world_inv sp] sp show ?thesis by auto
qed

theorem spawn_panel_single_allocates_witness:
  "\<exists>w' pos'. spawn_panel (\<lambda>p. p = A) [] A B 0 (LEFT_ROOT_X, 0) True ex_samples ex_world 0 = Some (w', pos') \<and>
     0 < idle_count True (trails ex_world) \<and> length (trails w') = Suc (length (trails ex_world)) \<and>
     idle_count True (trails w') = idle_count True (trails ex_world)"
proof -
  have "\<exists>r. spawn_panel (\<lambda>p. p = A) [] A B 0 (LEFT_ROOT_X, 0) True ex_samples ex_world 0 = Some r"
    by (simp add: spawn_eval)
  then obtain w' pos' where
    sp: "spawn_panel (\<lambda>p. p = A) [] A B 0 (LEFT_ROOT_X, 0) True ex_samples ex_world 0 = Some (w', pos')"
    by auto
  from spawn_panel_single_allocates [OF sp] sp show ?thesis
    by (auto simp: ex_world_def trail_bundle_new_def)
qed

theorem spawn_workers_all_alive_witness:
  "\<exists>sp' w' pos'.
     spawn_workers 2000 (\<lambda>_. True) [] (\<lambda>i. if even i then -60 else 60) (spawner_new 2000) ex_world 0 =
       Some (Inr (sp', w', pos')) \<and>
     map (\<lambda>(e, b). (wb_participant b, wb_parent b)) (drop (length (balls ex_world)) (balls w')) =
       [(A, 0), (B, 0), (C, 1), (D, 1)] \<and> sp_counter sp' = 1"
proof -
  have roots: "select_roots (roots ex_world) =
      Inr ((0, \<lparr>pr_side = Left, pr_translation = (LEFT_ROOT_X, 0)\<rparr>), (1, \<lparr>pr_side = Right, pr_translation = (RIGHT_ROOT_X, 0)\<rparr>))"
    by (simp add: ex_world_def ex_roots_def select_roots_def)
  have fire: "just_finished (timer_tick 2000 (sp_timer (spawner_new 2000)))"
    by (simp add: spawner_new_def timer_from_def timer_tick_def just_finished_def panel_consts)
  have "\<exists>r. spawn_workers 2000 (\<lambda>_. True) [] (\<lambda>i. if even i then -60 else 60) (spawner_new 2000) ex_world 0 = Some (Inr r)"
    using roots fire by (simp add: spawn_workers_def spawn_eval Let_def)
  then obtain sp' w' pos' where
    sw: "spawn_workers 2000 (\<lambda>_. True) [] (\<lambda>i. if even i then -60 else 60) (spawner_new 2000) ex_world 0 =
           Some (Inr (sp', w', pos'))" by auto
  from spawn_workers_all_alive [OF ex_world_inv roots fire sw] sw show ?thesis
    by (simp add: spawner_new_def)
qed

end
