(* ===== verification/Triggers.thy ===== *)
theory Triggers
  imports World "HOL-Library.Sublist"
begin

text \<open>
  The trigger translator \<open>trigger_event\<close> of \<open>src/src/panel_plugin.rs\<close>: the physics
  engine's contact events of the frame become gameplay \<open>TriggerEvent\<close>s, one per
  contact-begin between a trigger zone and a worker ball, and a restart signal in the same
  frame discards the whole batch. Contact events carry two entities (their flags are not
  read and are omitted).
\<close>

datatype collision_event = Started entity entity | Stopped entity entity

text \<open>\<open>trigger_zone_query.get(e)\<close> and \<open>worker_ball_query.get(e)\<close>.\<close>

definition zone_type :: "world \<Rightarrow> entity \<Rightarrow> trigger_type option" where
  "zone_type w e = map_of (zones w) e"

definition ball_owner :: "world \<Rightarrow> entity \<Rightarrow> participant option" where
  "ball_owner w e = map_option wb_participant (map_of (balls w) e)"

text \<open>One contact: the trigger type from the first entity, else the second, else skip;
  then the participant from the first entity, else the second, else skip.\<close>

definition translate :: "world \<Rightarrow> collision_event \<Rightarrow> gameplay_event option" where
  "translate w ev =
     (case ev of
        Started a b \<Rightarrow>
          (case (case zone_type w a of Some t \<Rightarrow> Some t | None \<Rightarrow> zone_type w b) of
             None \<Rightarrow> None
           | Some t \<Rightarrow>
               (case (case ball_owner w a of Some p \<Rightarrow> Some p | None \<Rightarrow> ball_owner w b) of
                  None \<Rightarrow> None
                | Some p \<Rightarrow> Some \<lparr>te_participant = p, te_trigger_type = t\<rparr>))
      | Stopped _ _ \<Rightarrow> None)"

text \<open>The read loop, in event order.\<close>

fun translate_all :: "world \<Rightarrow> collision_event list \<Rightarrow> gameplay_event list" where
  "translate_all w [] = []"
| "translate_all w (ev # evs) =
     (case translate w ev of None \<Rightarrow> translate_all w evs | Some te \<Rightarrow> te # translate_all w evs)"

text \<open>\<open>trigger_event\<close>: with a pending restart signal the contact events are cleared
  unread; otherwise every one is translated.\<close>

definition trigger_event :: "world \<Rightarrow> collision_event list \<Rightarrow> bool \<Rightarrow> gameplay_event list" where
  "trigger_event w evs restart_pending = (if restart_pending then [] else translate_all w evs)"

text \<open>A contact-begin between a trigger zone and a worker ball, in either order, and the
  gameplay event it stands for.\<close>

definition zone_ball_contact :: "world \<Rightarrow> collision_event \<Rightarrow> gameplay_event \<Rightarrow> bool" where
  "zone_ball_contact w ev te \<longleftrightarrow>
     (\<exists>z x. (ev = Started z x \<or> ev = Started x z) \<and>
            zone_type w z = Some (te_trigger_type te) \<and> ball_owner w x = Some (te_participant te))"

text \<open>Example: one \<open>x4\<close> zone (entity 2) and one ball of participant A (entity 3).\<close>

definition ex_zone_world :: world where
  "ex_zone_world =
     \<lparr>roots = [(0, \<lparr>pr_side = Left, pr_translation = (LEFT_ROOT_X, 0)\<rparr>)],
      zones = [(2, Multiply 4)],
      balls = [(3, worker_ball_new A 0 0)],
      trails = [], next_entity = 4\<rparr>"

section \<open>Lemmas\<close>

lemma zone_not_ball:
  assumes "ids_ok w" and "zone_type w z = Some t"
  shows "ball_owner w z = None"
proof -
  from assms(2) have "z \<in> set (map fst (zones w))"
    by (auto simp: zone_type_def dest: map_of_SomeD intro: rev_image_eqI)
  moreover from assms(1) have "set (map fst (zones w)) \<inter> set (map fst (balls w)) = {}"
    by (auto simp: ids_ok_def all_ids_def)
  ultimately have "map_of (balls w) z = None"
    by (auto simp: map_of_eq_None_iff)
  then show ?thesis by (simp add: ball_owner_def)
qed

lemma ball_not_zone:
  assumes "ids_ok w" and "ball_owner w x = Some p"
  shows "zone_type w x = None"
proof -
  from assms(2) have "x \<in> set (map fst (balls w))"
    by (auto simp: ball_owner_def dest: map_of_SomeD intro: rev_image_eqI)
  moreover from assms(1) have "set (map fst (zones w)) \<inter> set (map fst (balls w)) = {}"
    by (auto simp: ids_ok_def all_ids_def)
  ultimately have "map_of (zones w) x = None"
    by (auto simp: map_of_eq_None_iff)
  then show ?thesis by (simp add: zone_type_def)
qed

lemma translate_contact:
  assumes "ids_ok w" and "zone_type w z = Some t" and "ball_owner w x = Some p"
    and "ev = Started z x \<or> ev = Started x z"
  shows "translate w ev = Some \<lparr>te_participant = p, te_trigger_type = t\<rparr>"
  using assms zone_not_ball [OF assms(1,2)] ball_not_zone [OF assms(1,3)]
  by (auto simp: translate_def)

lemma translate_sound:
  assumes "ids_ok w" and "translate w ev = Some te"
  shows "zone_ball_contact w ev te"
proof (cases ev)
  case (Started a b)
  show ?thesis
  proof (cases "zone_type w a")
    case (Some t)
    with assms Started have "ball_owner w a = None" by (simp add: zone_not_ball)
    with assms Started Some obtain p where "ball_owner w b = Some p"
      and te: "te = \<lparr>te_participant = p, te_trigger_type = t\<rparr>"
      by (auto simp: translate_def split: option.splits)
    with Started Some show ?thesis
      unfolding zone_ball_contact_def by (intro exI [of _ a] exI [of _ b]) simp
  next
    case None
    with assms Started obtain t p where zb: "zone_type w b = Some t"
      and own: "ball_owner w a = Some p \<or> ball_owner w b = Some p"
      and te: "te = \<lparr>te_participant = p, te_trigger_type = t\<rparr>"
      by (auto simp: translate_def split: option.splits)
    from assms(1) zb have "ball_owner w b = None" by (rule zone_not_ball)
    with own have "ball_owner w a = Some p" by simp
    with zb te Started show ?thesis
      unfolding zone_ball_contact_def by (intro exI [of _ b] exI [of _ a]) simp
  qed
next
  case (Stopped a b)
  with assms show ?thesis by (simp add: translate_def)
qed

text \<open>C1: trigger exactness: in a frame without restart signal, a batch of contact-begin
  events each between a trigger zone and a worker ball yields exactly one gameplay event per
  contact, in order, carrying that ball's participant and that zone's trigger type.\<close>

theorem trigger_event_exact:
  assumes "ids_ok w" and "list_all (\<lambda>ev. \<exists>te. zone_ball_contact w ev te) evs"
  shows "list_all2 (zone_ball_contact w) evs (trigger_event w evs False)"
  using assms(2)
proof (induction evs)
  case Nil
  then show ?case by (simp add: trigger_event_def)
next
  case (Cons ev evs)
  then obtain te where c: "zone_ball_contact w ev te" and rest: "list_all (\<lambda>ev. \<exists>te. zone_ball_contact w ev te) evs"
    by auto
  from c obtain z x where ev: "ev = Started z x \<or> ev = Started x z"
    and z: "zone_type w z = Some (te_trigger_type te)" and x: "ball_owner w x = Some (te_participant te)"
    by (auto simp: zone_ball_contact_def)
  from translate_contact [OF assms(1) z x ev] have "translate w ev = Some te" by simp
  with Cons.IH [OF rest] c show ?case by (simp add: trigger_event_def)
qed

text \<open>C28: trigger soundness: every gameplay event the translator emits stands for a
  contact-begin between a trigger zone and a worker ball of the batch, in batch order;
  contacts of any other kind, and all contact-end events, emit nothing.\<close>

theorem trigger_event_sound:
  assumes "ids_ok w"
  shows "\<exists>evs'. subseq evs' evs \<and> list_all2 (zone_ball_contact w) evs' (trigger_event w evs r)"
proof (cases r)
  case True
  then show ?thesis by (intro exI [of _ "[]"]) (simp add: trigger_event_def)
next
  case False
  have "\<exists>evs'. subseq evs' evs \<and> list_all2 (zone_ball_contact w) evs' (translate_all w evs)"
  proof (induction evs)
    case Nil
    then show ?case by simp
  next
    case (Cons ev evs)
    then obtain evs' where sub: "subseq evs' evs" and rel: "list_all2 (zone_ball_contact w) evs' (translate_all w evs)"
      by blast
    show ?case
    proof (cases "translate w ev")
      case None
      with sub rel show ?thesis by (intro exI [of _ evs']) (simp add: list_emb_Cons)
    next
      case (Some te)
      with translate_sound [OF assms Some] sub rel show ?thesis by (intro exI [of _ "ev # evs'"]) simp
    qed
  qed
  with False show ?thesis by (simp add: trigger_event_def)
qed

section \<open>Witnesses\<close>

lemma ex_zone_world_ids: "ids_ok ex_zone_world"
  by (simp add: ids_ok_def all_ids_def ex_zone_world_def)

theorem trigger_event_exact_witness:
  "list_all2 (zone_ball_contact ex_zone_world) [Started 2 3, Started 3 2]
     (trigger_event ex_zone_world [Started 2 3, Started 3 2] False) \<and>
   trigger_event ex_zone_world [Started 2 3, Started 3 2] False =
     [\<lparr>te_participant = A, te_trigger_type = Multiply 4\<rparr>, \<lparr>te_participant = A, te_trigger_type = Multiply 4\<rparr>]"
proof -
  have c: "zone_ball_contact ex_zone_world ev \<lparr>te_participant = A, te_trigger_type = Multiply 4\<rparr>"
    if "ev = Started 2 3 \<or> ev = Started 3 2" for ev
    using that unfolding zone_ball_contact_def
    by (intro exI [of _ 2] exI [of _ 3]) (simp add: zone_type_def ball_owner_def ex_zone_world_def worker_ball_new_def)
  then have "list_all (\<lambda>ev. \<exists>te. zone_ball_contact ex_zone_world ev te) [Started 2 3, Started 3 2]"
    by auto
  from trigger_event_exact [OF ex_zone_world_ids this] show ?thesis
    by (simp add: trigger_event_def translate_def zone_type_def ball_owner_def ex_zone_world_def
        worker_ball_new_def)
qed

theorem trigger_event_sound_witness:
  "\<exists>evs'. subseq evs' [Started 2 3, Stopped 2 3, Started 0 3]
     \<and> list_all2 (zone_ball_contact ex_zone_world) evs'
           (trigger_event ex_zone_world [Started 2 3, Stopped 2 3, Started 0 3] False)"
  using trigger_event_sound [OF ex_zone_world_ids] by blast

end
