(* ===== verification/Recycler.thy ===== *)
theory Recycler
  imports Placement Triggers Trails
begin

text \<open>
  The zone-exit recycler \<open>ball_reset\<close> of \<open>src/src/panel_plugin.rs\<close>: for every
  contact-end event between a trigger zone and a worker ball, the ball is moved back to
  spawn height at a fresh x drawn by the placement oracle over the root of its
  participant's panel, and stopped. The root lookup \<open>expect\<close>s a root of that side (a
  panic otherwise). Every query of the loop reads the same physics snapshot \<open>phys\<close>:
  the transforms the loop writes reach the physics engine only in its next step.
\<close>

text \<open>\<open>root_query ... .find_map(...)\<close>: the first root of the wanted side.\<close>

definition root_of_side :: "world \<Rightarrow> panel_root_side \<Rightarrow> panel_root option" where
  "root_of_side w side = map_option snd (find (\<lambda>(e, r). pr_side r = side) (roots w))"

text \<open>The ball a contact-end concerns: the other entity when one is a trigger zone.\<close>

definition exiting_ball :: "world \<Rightarrow> entity \<Rightarrow> entity \<Rightarrow> entity option" where
  "exiting_ball w a b =
     (if zone_type w a \<noteq> None then Some b else if zone_type w b \<noteq> None then Some a else None)"

definition recycle :: "int \<Rightarrow> worker_ball \<Rightarrow> worker_ball" where
  "recycle x b = b\<lparr>wb_translation := (x, WORKER_BALL_SPAWN_Y), wb_velocity := (0, 0)\<rparr>"

text \<open>The loop of \<open>ball_reset\<close> over the frame's contact events.\<close>

fun ball_reset_loop ::
  "(nat \<Rightarrow> int) \<Rightarrow> (vec2 \<times> int) list \<Rightarrow> collision_event list \<Rightarrow> world \<Rightarrow> nat \<Rightarrow>
   (panel_error + (world \<times> nat)) option" where
  "ball_reset_loop samples phys [] w pos = Some (Inr (w, pos))"
| "ball_reset_loop samples phys (Started _ _ # evs) w pos = ball_reset_loop samples phys evs w pos"
| "ball_reset_loop samples phys (Stopped a b # evs) w pos =
     (case exiting_ball w a b of
        None \<Rightarrow> ball_reset_loop samples phys evs w pos
      | Some e \<Rightarrow>
          (case map_of (balls w) e of
             None \<Rightarrow> ball_reset_loop samples phys evs w pos
           | Some ball \<Rightarrow>
               (case root_of_side w (for_participant (wb_participant ball)) of
                  None \<Rightarrow> Some (Inl ExpectEachPanelSideExist)
                | Some r \<Rightarrow>
                    (case caster_get (caster_new (pr_translation r) samples pos phys (wb_radius ball)) of
                       None \<Rightarrow> None
                     | Some (x, c') \<Rightarrow>
                         ball_reset_loop samples phys evs
                           (w\<lparr>balls := update_at e (recycle x) (balls w)\<rparr>) (cs_pos c')))))"

definition ball_reset ::
  "(nat \<Rightarrow> int) \<Rightarrow> collision_event list \<Rightarrow> world \<Rightarrow> nat \<Rightarrow> (panel_error + (world \<times> nat)) option" where
  "ball_reset samples evs w pos = ball_reset_loop samples (physics_bodies w) evs w pos"

text \<open>Example: the left root, an \<open>x2\<close> zone (entity 2) and two balls of A (entities 3
  and 4) down by the zones.\<close>

definition ex_exit_world :: world where
  "ex_exit_world =
     \<lparr>roots = [(0, \<lparr>pr_side = Left, pr_translation = (LEFT_ROOT_X, 0)\<rparr>),
               (1, \<lparr>pr_side = Right, pr_translation = (RIGHT_ROOT_X, 0)\<rparr>)],
      zones = [(2, Multiply 2)],
      balls = [(3, (worker_ball_new A (-60) 0)\<lparr>wb_translation := (-60, -250)\<rparr>),
               (4, (worker_ball_new A 60 0)\<lparr>wb_translation := (60, -250)\<rparr>)],
      trails = [], next_entity = 5\<rparr>"

section \<open>Lemmas\<close>

lemma recycle_frame [simp]:
  "wb_participant (recycle x b) = wb_participant b"
  "wb_parent (recycle x b) = wb_parent b"
  "wb_radius (recycle x b) = wb_radius b"
  "wb_translation (recycle x b) = (x, WORKER_BALL_SPAWN_Y)"
  "wb_velocity (recycle x b) = (0, 0)"
  by (simp_all add: recycle_def)

lemma ball_reset_loop_frame:
  assumes "ball_reset_loop samples phys evs w pos = Some (Inr (w', pos'))"
  shows "roots w' = roots w \<and> zones w' = zones w \<and> trails w' = trails w \<and>
         next_entity w' = next_entity w \<and> ball_identity (balls w') = ball_identity (balls w)"
  using assms
proof (induction samples phys evs w pos rule: ball_reset_loop.induct)
  case (3 samples phys a b evs w pos)
  then show ?case
    by (auto simp: ball_identity_def map_update_at_keep [where h = "\<lambda>b. (wb_participant b, wb_parent b, wb_radius b)"]
        split: option.splits sum.splits)
qed simp_all

lemma ball_reset_loop_inv:
  assumes "world_inv w" and "ball_reset_loop samples phys evs w pos = Some (Inr (w', pos'))"
  shows "world_inv w' \<and> roots w' = roots w \<and> zones w' = zones w"
proof -
  from ball_reset_loop_frame [OF assms(2)] have fr: "roots w' = roots w" "zones w' = zones w"
    "trails w' = trails w" "next_entity w' = next_entity w" "ball_identity (balls w') = ball_identity (balls w)"
    by auto
  then have w': "w' = w\<lparr>balls := balls w'\<rparr>" by simp
  from fr(5) have "map fst (balls w') = map fst (balls w)" by (rule ball_identity_keys)
  with assms(1) have "ids_ok (w\<lparr>balls := balls w'\<rparr>)" by (simp add: world_inv_def inv_simps)
  then have "ids_ok w'" using w' by metis
  with assms(1) fr show ?thesis by (simp add: world_inv_def)
qed

lemma map_of_update_at_other:
  "k \<noteq> e \<Longrightarrow> map_of (update_at e f xs) k = map_of xs k"
  by simp



section \<open>Witnesses\<close>


end
