(* ===== verification/Restart.thy ===== *)
theory Restart
  imports Spawn_Timer Trails
begin

text \<open>
  The restart coordinator, the system \<open>restart\<close> of \<open>src/src/panel_plugin.rs\<close>: reset
  the spawner, despawn every worker ball, and re-park every trail that is already idle, in
  query order, with a toggle that starts at \<open>false\<close> on each call. Trails still linked
  to a ball are not matched by its query and keep their link; they are parked by the next
  \<open>update_workers_particle_position\<close>, whose own toggle this system does not reset.
\<close>

definition restart ::
  "nat \<Rightarrow> worker_ball_spawner \<Rightarrow> world \<Rightarrow> worker_ball_spawner \<times> world" where
  "restart trail_lifetime sp w =
     (spawner_reset trail_lifetime sp, w\<lparr>balls := [], trails := restart_trails False (trails w)\<rparr>)"

text \<open>Example: a ball of A (entity 3) with its linked trail (entity 4), and an idle trail
  (entity 5).\<close>

definition ex_restart_world :: world where
  "ex_restart_world =
     \<lparr>roots = [(0, \<lparr>pr_side = Left, pr_translation = (LEFT_ROOT_X, 0)\<rparr>)], zones = [],
      balls = [(3, worker_ball_new A 0 0)],
      trails = [(4, trail_bundle_new 3 LEFT_ROOT_X A),
                (5, \<lparr>tr_link = InactiveWorkerBallTrail True, tr_spawn_color = TileColor B,
                     tr_position = (7, 7)\<rparr>)],
      next_entity = 6\<rparr>"

section \<open>Lemmas\<close>

lemma spawner_reset_idem: "spawner_reset lt (spawner_reset lt s) = spawner_reset lt s"
  by (simp add: spawner_reset_def timer_reset_def timer_tick_def Let_def)

lemma ids_ok_restart:
  assumes "ids_ok w" and "map fst ts = map fst (trails w)"
  shows "ids_ok (w\<lparr>balls := [], trails := ts\<rparr>)"
  using assms by (auto simp: ids_ok_def all_ids_def list_all_iff)

lemma restart_inv:
  assumes "world_inv w" and "spawner_inv sp"
  shows "world_inv (snd (restart lt sp w)) \<and> spawner_inv (fst (restart lt sp w))"
  using assms ids_ok_restart [of w "trails (snd (restart lt sp w))"]
  by (simp add: restart_def world_inv_def spawner_reset_inv)

text \<open>restart is idempotent: a second restart with no frame in between changes
  nothing.\<close>

theorem restart_idempotent:
  "restart lt (fst (restart lt sp w)) (snd (restart lt sp w)) = restart lt sp w"
  by (simp add: restart_def spawner_reset_idem restart_trails_idem)

text \<open>C3: restart returns the spawner to its initial state, removes every worker ball
  and parks every idle trail invisibly at spawn height; but a trail still linked to a
  ball keeps its link, to a ball that no longer exists.\<close>

theorem restart_effect:
  assumes "spawner_inv sp" and "(e, t) \<in> set (trails w)" and "tr_link t = WorkerBallTrail b"
  shows "fst (restart lt sp w) = spawner_new lt \<and> balls (snd (restart lt sp w)) = [] \<and>
         list_all (\<lambda>(e, t). idle_trail t \<longrightarrow> tr_spawn_color t = NoColor \<and>
                             snd (tr_position t) = WORKER_BALL_SPAWN_Y) (trails (snd (restart lt sp w))) \<and>
         (e, t) \<in> set (trails (snd (restart lt sp w))) \<and> map_of (balls (snd (restart lt sp w))) b = None"
proof -
  from assms(1) have "spawner_reset lt sp = spawner_new lt" by (rule spawner_reset_is_new)
  with assms(2,3) restart_trails_linked [OF assms(2,3)] restart_trails_idle show ?thesis
    by (simp add: restart_def)
qed

section \<open>Witnesses\<close>

theorem restart_effect_witness:
  "fst (restart 2000 (spawner_new 2000) ex_restart_world) = spawner_new 2000 \<and>
   balls (snd (restart 2000 (spawner_new 2000) ex_restart_world)) = [] \<and>
   (4, trail_bundle_new 3 LEFT_ROOT_X A) \<in> set (trails (snd (restart 2000 (spawner_new 2000) ex_restart_world))) \<and>
   map_of (balls (snd (restart 2000 (spawner_new 2000) ex_restart_world))) 3 = None"
proof -
  have "(4, trail_bundle_new 3 LEFT_ROOT_X A) \<in> set (trails ex_restart_world)"
    by (simp add: ex_restart_world_def)
  moreover have "tr_link (trail_bundle_new 3 LEFT_ROOT_X A) = WorkerBallTrail 3"
    by (simp add: trail_bundle_new_def)
  ultimately show ?thesis
    using restart_effect [OF spawner_new_inv [of 2000]] by blast
qed

end
