(* ===== verification/Panel_Plugin.thy ===== *)
theory Panel_Plugin
  imports Setup Spawner Recycler Restart
begin

text \<open>
  \<open>PanelPlugin::build\<close>: one frame of the plugin's \<open>Update\<close> schedule, with the run
  conditions of the source and one order its constraints allow:
  \<open>update_workers_particle_position\<close> (declared before \<open>spawn_workers\<close>), then
  \<open>spawn_workers\<close> (if the game is going and the counter is below its cap), then
  \<open>ball_reset\<close> (if the game is going), then \<open>trigger_event\<close> (if there are collision
  or restart events), then \<open>restart\<close> (if there is a restart event). The physics engine
  steps after the update systems, so every placement query of the frame reads the balls as
  they were at its start. Between frames the engine moves balls and other systems may
  despawn them: \<open>physics_step\<close>. The reachable states are those of the startup world under
  frames and physics steps.
\<close>

record panel_state =
  ps_world :: world
  ps_spawner :: worker_ball_spawner
  ps_go_left :: bool
  ps_rng :: nat

record frame_input =
  fi_delta :: nat
  fi_game_going :: bool
  fi_survivors :: "participant \<Rightarrow> bool"
  fi_collisions :: "collision_event list"
  fi_restart :: bool

text \<open>The state after \<open>Startup\<close>: the world the startup systems left (\<open>setup\<close>'s
  entities among them), a new spawner, the update system's \<open>Local<bool>\<close> at its
  default \<open>false\<close>, no sample drawn.\<close>

definition init_from :: "nat \<Rightarrow> world \<Rightarrow> panel_state" where
  "init_from lt w0 = \<lparr>ps_world = w0, ps_spawner = spawner_new lt, ps_go_left = False, ps_rng = 0\<rparr>"

abbreviation init_state :: "nat \<Rightarrow> panel_state" where
  "init_state lt \<equiv> init_from lt panel_setup"

text \<open>The four systems after the trail update, each under its run condition.\<close>

definition spawn_stage ::
  "(nat \<Rightarrow> int) \<Rightarrow> frame_input \<Rightarrow> (vec2 \<times> int) list \<Rightarrow> worker_ball_spawner \<Rightarrow> world \<Rightarrow> nat \<Rightarrow>
   (panel_error + (worker_ball_spawner \<times> world \<times> nat)) option" where
  "spawn_stage samples inp phys sp w pos =
     (if fi_game_going inp \<and> spawn_workers_condition sp
      then spawn_workers (fi_delta inp) (fi_survivors inp) phys samples sp w pos
      else Some (Inr (sp, w, pos)))"

definition reset_stage ::
  "(nat \<Rightarrow> int) \<Rightarrow> frame_input \<Rightarrow> (vec2 \<times> int) list \<Rightarrow> world \<Rightarrow> nat \<Rightarrow>
   (panel_error + (world \<times> nat)) option" where
  "reset_stage samples inp phys w pos =
     (if fi_game_going inp then ball_reset_loop samples phys (fi_collisions inp) w pos
      else Some (Inr (w, pos)))"

definition trigger_stage :: "frame_input \<Rightarrow> world \<Rightarrow> gameplay_event list" where
  "trigger_stage inp w =
     (if fi_collisions inp \<noteq> [] \<or> fi_restart inp
      then trigger_event w (fi_collisions inp) (fi_restart inp) else [])"

definition restart_stage ::
  "nat \<Rightarrow> frame_input \<Rightarrow> worker_ball_spawner \<Rightarrow> world \<Rightarrow> worker_ball_spawner \<times> world" where
  "restart_stage lt inp sp w = (if fi_restart inp then restart lt sp w else (sp, w))"

definition panel_frame ::
  "(nat \<Rightarrow> int) \<Rightarrow> nat \<Rightarrow> frame_input \<Rightarrow> panel_state \<Rightarrow>
   (panel_error + (panel_state \<times> gameplay_event list)) option" where
  "panel_frame samples lt inp s =
     (let phys = physics_bodies (ps_world s);
          (w1, g1) = update_workers_particle_position (ps_go_left s) (ps_world s)
      in case spawn_stage samples inp phys (ps_spawner s) w1 (ps_rng s) of
           None \<Rightarrow> None
         | Some (Inl err) \<Rightarrow> Some (Inl err)
         | Some (Inr (sp2, w2, pos2)) \<Rightarrow>
             (case reset_stage samples inp phys w2 pos2 of
                None \<Rightarrow> None
              | Some (Inl err) \<Rightarrow> Some (Inl err)
              | Some (Inr (w3, pos3)) \<Rightarrow>
                  (let (sp4, w4) = restart_stage lt inp sp2 w3
                   in Some (Inr (\<lparr>ps_world = w4, ps_spawner = sp4, ps_go_left = g1, ps_rng = pos3\<rparr>,
                                 trigger_stage inp w3)))))"

text \<open>What the world may undergo between frames: balls move (any position, any
  velocity) and may be despawned by other systems; nothing else changes.\<close>

definition physics_step :: "world \<Rightarrow> world \<Rightarrow> bool" where
  "physics_step w w' \<longleftrightarrow>
     roots w' = roots w \<and> zones w' = zones w \<and> trails w' = trails w \<and>
     next_entity w' = next_entity w \<and> subseq (ball_identity (balls w')) (ball_identity (balls w))"

text \<open>The states reachable from the startup world \<open>w0\<close> by frames and physics steps;
  \<open>reachable\<close> starts from \<open>setup\<close> alone.\<close>

inductive reachable_from :: "world \<Rightarrow> (nat \<Rightarrow> int) \<Rightarrow> nat \<Rightarrow> panel_state \<Rightarrow> bool"
  for w0 samples lt where
  start: "reachable_from w0 samples lt (init_from lt w0)"
| frame: "reachable_from w0 samples lt s \<Longrightarrow> panel_frame samples lt inp s = Some (Inr (s', out)) \<Longrightarrow>
          reachable_from w0 samples lt s'"
| physics: "reachable_from w0 samples lt s \<Longrightarrow> physics_step (ps_world s) w' \<Longrightarrow>
            reachable_from w0 samples lt (s\<lparr>ps_world := w'\<rparr>)"

abbreviation reachable :: "(nat \<Rightarrow> int) \<Rightarrow> nat \<Rightarrow> panel_state \<Rightarrow> bool" where
  "reachable \<equiv> reachable_from panel_setup"

text \<open>What the panel systems need of the startup world: the world invariant, no ball or
  trail yet, and one panel root of each side.\<close>

definition startup_ok :: "world \<Rightarrow> bool" where
  "startup_ok w0 \<longleftrightarrow>
     world_inv w0 \<and> balls w0 = [] \<and> trails w0 = [] \<and>
     (\<exists>l r. select_roots (roots w0) = Inr (l, r)) \<and> (\<forall>side. root_of_side w0 side \<noteq> None)"

text \<open>The invariant of reachable states: the world invariant, the spawner invariant, the
  roots and zones of the startup world, at most four balls per spawn round, at most two per
  spawn round under each root, and the worker-ball collider on every ball.\<close>

definition state_inv :: "world \<Rightarrow> panel_state \<Rightarrow> bool" where
  "state_inv w0 s \<longleftrightarrow>
     world_inv (ps_world s) \<and> spawner_inv (ps_spawner s) \<and>
     roots (ps_world s) = roots w0 \<and> zones (ps_world s) = zones w0 \<and>
     length (balls (ps_world s)) \<le> 4 * sp_counter (ps_spawner s) \<and>
     (\<forall>e. panel_count e (balls (ps_world s)) \<le> 2 * sp_counter (ps_spawner s)) \<and>
     std_radius (balls (ps_world s))"

text \<open>Example input: a frame of 16 ms with the game going, everybody alive and no event.\<close>

definition ex_quiet_input :: frame_input where
  "ex_quiet_input = \<lparr>fi_delta = 16, fi_game_going = True, fi_survivors = (\<lambda>_. True),
                     fi_collisions = [], fi_restart = False\<rparr>"

text \<open>Example input: a frame of 16 ms with the game going, everybody alive, no contact
  and a restart signal.\<close>

definition ex_restart_input :: frame_input where
  "ex_restart_input = \<lparr>fi_delta = 16, fi_game_going = True, fi_survivors = (\<lambda>_. True),
                       fi_collisions = [], fi_restart = True\<rparr>"

section \<open>Lemmas\<close>

lemma subseq_distinct: "subseq xs ys \<Longrightarrow> distinct ys \<Longrightarrow> distinct xs"
  by (auto simp: subseq_conv_nths)

lemma subseq_set: "subseq xs ys \<Longrightarrow> set xs \<subseteq> set ys"
  by (auto elim: list_emb_set)

lemma ball_identity_fst: "map fst (ball_identity bs) = map fst bs"
  by (simp add: ball_identity_def comp_def case_prod_beta)

lemma physics_step_inv:
  assumes "world_inv w" and "physics_step w w'"
  shows "world_inv w' \<and> roots w' = roots w \<and> zones w' = zones w"
proof -
  from assms(2) have fr: "roots w' = roots w" "zones w' = zones w" "trails w' = trails w"
    "next_entity w' = next_entity w" and sub: "subseq (map fst (balls w')) (map fst (balls w))"
    using subseq_map [of "ball_identity (balls w')" "ball_identity (balls w)" fst]
    by (auto simp: physics_step_def ball_identity_fst)
  have "subseq (all_ids w') (all_ids w)"
    using sub fr by (simp add: all_ids_def list_emb_append_mono)
  with assms(1) fr(4) have "ids_ok w'"
    by (auto simp: world_inv_def ids_ok_iff dest: subseq_distinct subseq_set)
  with assms(1) fr show ?thesis by (simp add: world_inv_def)
qed

lemma setup_world_inv: "world_inv panel_setup"
  by code_simp

lemma init_state_inv: "startup_ok w0 \<Longrightarrow> state_inv w0 (init_from lt w0)"
  by (simp add: state_inv_def init_from_def startup_ok_def spawner_new_inv)

lemma panel_frame_Inr:
  assumes "panel_frame samples lt inp s = Some (Inr (s', out))"
  obtains w1 g1 sp2 w2 pos2 w3 pos3 where
    "update_workers_particle_position (ps_go_left s) (ps_world s) = (w1, g1)"
    "spawn_stage samples inp (physics_bodies (ps_world s)) (ps_spawner s) w1 (ps_rng s) = Some (Inr (sp2, w2, pos2))"
    "reset_stage samples inp (physics_bodies (ps_world s)) w2 pos2 = Some (Inr (w3, pos3))"
    "s' = \<lparr>ps_world = snd (restart_stage lt inp sp2 w3), ps_spawner = fst (restart_stage lt inp sp2 w3),
           ps_go_left = g1, ps_rng = pos3\<rparr>"
    "out = trigger_stage inp w3"
  using assms
  by (auto simp: panel_frame_def Let_def split: prod.splits option.splits sum.splits)

lemma spawn_stage_balls:
  assumes "world_inv w" and "spawn_stage samples inp phys sp w pos = Some (Inr (sp', w', pos'))"
  shows "length (balls w') \<le> length (balls w) + 4 * (sp_counter sp' - sp_counter sp) \<and>
         sp_counter sp \<le> sp_counter sp'"
  using assms spawn_workers_balls [OF assms(1)]
  by (auto simp: spawn_stage_def split: if_splits)

lemma spawn_stage_panel_count:
  assumes "world_inv w" and "spawn_stage samples inp phys sp w pos = Some (Inr (sp', w', pos'))"
  shows "panel_count e (balls w') \<le> panel_count e (balls w) + 2 * (sp_counter sp' - sp_counter sp)"
  using assms spawn_workers_panel_count [OF assms(1)]
  by (auto simp: spawn_stage_def split: if_splits)

lemma reset_stage_identity:
  assumes "reset_stage samples inp phys w pos = Some (Inr (w', pos'))"
  shows "ball_identity (balls w') = ball_identity (balls w)"
  using assms ball_reset_loop_frame [of samples phys "fi_collisions inp" w pos w' pos']
  by (auto simp: reset_stage_def split: if_splits)

lemma reset_stage_balls:
  assumes "reset_stage samples inp phys w pos = Some (Inr (w', pos'))"
  shows "length (balls w') = length (balls w) \<and> panel_count e (balls w') = panel_count e (balls w)"
proof -
  from reset_stage_identity [OF assms] have "map fst (balls w') = map fst (balls w)"
    by (rule ball_identity_keys)
  with reset_stage_identity [OF assms] show ?thesis by (metis length_map panel_count_identity)
qed

lemma restart_stage_balls:
  "fi_restart inp \<Longrightarrow> balls (snd (restart_stage lt inp sp w)) = [] \<and> sp_counter (fst (restart_stage lt inp sp w)) = 0"
  "\<not> fi_restart inp \<Longrightarrow> restart_stage lt inp sp w = (sp, w)"
  by (simp_all add: restart_stage_def restart_def spawner_reset_def)

lemma spawn_stage_inv:
  assumes "world_inv w" and "spawner_inv sp"
    and "spawn_stage samples inp phys sp w pos = Some (Inr (sp', w', pos'))"
  shows "world_inv w' \<and> spawner_inv sp' \<and> roots w' = roots w \<and> zones w' = zones w"
  using assms spawn_workers_result [OF assms(1,2)]
  by (auto simp: spawn_stage_def split: if_splits)

lemma reset_stage_inv:
  assumes "world_inv w" and "reset_stage samples inp phys w pos = Some (Inr (w', pos'))"
  shows "world_inv w' \<and> roots w' = roots w \<and> zones w' = zones w"
  using assms ball_reset_loop_inv [OF assms(1)]
  by (auto simp: reset_stage_def split: if_splits)

lemma restart_stage_inv:
  assumes "world_inv w" and "spawner_inv sp"
  shows "world_inv (snd (restart_stage lt inp sp w)) \<and> spawner_inv (fst (restart_stage lt inp sp w)) \<and>
         roots (snd (restart_stage lt inp sp w)) = roots w \<and> zones (snd (restart_stage lt inp sp w)) = zones w"
  using assms restart_inv [OF assms]
  by (simp add: restart_stage_def restart_def)

text \<open>The ball counts and colliders after the spawn and reset stages of a frame.\<close>

lemma frame_balls_inv:
  assumes "state_inv w0 s"
    and u: "update_workers_particle_position (ps_go_left s) (ps_world s) = (w1, g1)"
    and sp: "spawn_stage samples inp (physics_bodies (ps_world s)) (ps_spawner s) w1 (ps_rng s) = Some (Inr (sp2, w2, pos2))"
    and rs: "reset_stage samples inp (physics_bodies (ps_world s)) w2 pos2 = Some (Inr (w3, pos3))"
  shows "length (balls w3) \<le> 4 * sp_counter sp2 \<and> (\<forall>e. panel_count e (balls w3) \<le> 2 * sp_counter sp2) \<and>
         std_radius (balls w3)"
proof -
  from assms(1) have inv0: "world_inv (ps_world s)" by (simp add: state_inv_def)
  from update_workers_inv [OF inv0, of "ps_go_left s"] u
  have i1: "world_inv w1" and b1: "balls w1 = balls (ps_world s)" by auto
  from spawn_stage_balls [OF i1 sp] reset_stage_balls [OF rs] b1 assms(1)
  have "length (balls w3) \<le> 4 * sp_counter sp2" by (auto simp: state_inv_def)
  moreover have "panel_count e (balls w3) \<le> 2 * sp_counter sp2" for e
  proof -
    have pc0: "panel_count e (balls (ps_world s)) \<le> 2 * sp_counter (ps_spawner s)"
      using assms(1) by (simp add: state_inv_def)
    from b1 have "panel_count e (balls w2) \<le> panel_count e (balls (ps_world s)) + 2 * (sp_counter sp2 - sp_counter (ps_spawner s))"
      using spawn_stage_panel_count [OF i1 sp, of e] by simp
    with pc0 spawn_stage_balls [OF i1 sp] reset_stage_balls [OF rs, of e]
    show "panel_count e (balls w3) \<le> 2 * sp_counter sp2" by arith
  qed
  moreover have "std_radius (balls w2)"
    using assms(1) b1 sp spawn_workers_radius [OF i1, of "fi_delta inp" "fi_survivors inp"]
    by (auto simp: state_inv_def spawn_stage_def split: if_splits)
  then have "std_radius (balls w3)"
    by (simp add: std_radius_identity reset_stage_identity [OF rs])
  ultimately show ?thesis by blast
qed

lemma frame_inv:
  assumes "state_inv w0 s" and "panel_frame samples lt inp s = Some (Inr (s', out))"
  shows "state_inv w0 s'"
proof -
  from assms(2) obtain w1 g1 sp2 w2 pos2 w3 pos3 where
    u: "update_workers_particle_position (ps_go_left s) (ps_world s) = (w1, g1)" and
    sp: "spawn_stage samples inp (physics_bodies (ps_world s)) (ps_spawner s) w1 (ps_rng s) = Some (Inr (sp2, w2, pos2))" and
    rs: "reset_stage samples inp (physics_bodies (ps_world s)) w2 pos2 = Some (Inr (w3, pos3))" and
    s': "s' = \<lparr>ps_world = snd (restart_stage lt inp sp2 w3), ps_spawner = fst (restart_stage lt inp sp2 w3),
           ps_go_left = g1, ps_rng = pos3\<rparr>"
    by (rule panel_frame_Inr)
  from assms(1) update_workers_inv [of "ps_world s" "ps_go_left s"] u
  have i1: "world_inv w1" "roots w1 = roots (ps_world s)" "zones w1 = zones (ps_world s)"
    and sp0: "spawner_inv (ps_spawner s)"
    by (auto simp: state_inv_def)
  from spawn_stage_inv [OF i1(1) sp0 sp] have i2: "world_inv w2" "spawner_inv sp2"
    "roots w2 = roots w1" "zones w2 = zones w1" by auto
  from reset_stage_inv [OF i2(1) rs] have i3: "world_inv w3" "roots w3 = roots w2" "zones w3 = zones w2"
    by auto
  from frame_balls_inv [OF assms(1) u sp rs]
  have "length (balls (snd (restart_stage lt inp sp2 w3))) \<le> 4 * sp_counter (fst (restart_stage lt inp sp2 w3)) \<and>
        (\<forall>e. panel_count e (balls (snd (restart_stage lt inp sp2 w3))) \<le> 2 * sp_counter (fst (restart_stage lt inp sp2 w3))) \<and>
        std_radius (balls (snd (restart_stage lt inp sp2 w3)))"
    by (cases "fi_restart inp") (simp_all add: restart_stage_balls)
  with restart_stage_inv [OF i3(1) i2(2)] i1 i2 i3 assms(1) show ?thesis
    by (simp add: s' state_inv_def)
qed

lemma reachable_state_inv:
  assumes "startup_ok w0" and "reachable_from w0 samples lt s"
  shows "state_inv w0 s"
  using assms(2)
proof (induction rule: reachable_from.induct)
  case start
  from assms(1) show ?case by (rule init_state_inv)
next
  case (frame s inp s' out)
  then show ?case by (blast intro: frame_inv)
next
  case (physics s w')
  then have sub: "subseq (ball_identity (balls w')) (ball_identity (balls (ps_world s)))"
    by (simp add: physics_step_def)
  then have "length (balls w') \<le> length (balls (ps_world s))"
    using list_emb_length by (fastforce simp: ball_identity_def)
  moreover have "panel_count e (balls w') \<le> panel_count e (balls (ps_world s))" for e
    unfolding panel_count_identity by (rule list_emb_length [OF subseq_filter [OF sub]])
  moreover have "std_radius (balls (ps_world s)) \<Longrightarrow> std_radius (balls w')"
    using subseq_set [OF sub] by (auto simp: std_radius_identity)
  moreover from physics have "state_inv w0 s" and "physics_step (ps_world s) w'" by blast+
  ultimately show ?case using physics_step_inv [of "ps_world s" w']
    unfolding state_inv_def by (auto intro: order_trans)
qed

lemma root_of_side_balls [simp]: "root_of_side (w\<lparr>balls := bs\<rparr>) side = root_of_side w side"
  by (simp add: root_of_side_def)

lemma ball_reset_loop_no_panic:
  "\<forall>side. root_of_side w side \<noteq> None \<Longrightarrow> ball_reset_loop samples phys evs w pos \<noteq> Some (Inl e)"
proof (induction samples phys evs w pos rule: ball_reset_loop.induct)
  case (3 samples phys a b evs w pos)
  show ?case
  proof (cases "exiting_ball w a b")
    case None
    with "3.IH"(1) "3.prems" show ?thesis by simp
  next
    case (Some e')
    show ?thesis
    proof (cases "map_of (balls w) e'")
      case None
      with Some "3.IH"(2) "3.prems" show ?thesis by simp
    next
      case (Some ball)
      from "3.prems" obtain r where r: "root_of_side w (for_participant (wb_participant ball)) = Some r"
        by blast
      show ?thesis
      proof (cases "caster_get (caster_new (pr_translation r) samples pos phys (wb_radius ball))")
        case None
        with \<open>exiting_ball w a b = Some e'\<close> Some r show ?thesis by simp
      next
        case (Some xc)
        obtain x c' where xc: "xc = (x, c')" by (cases xc)
        have "\<forall>side. root_of_side (w\<lparr>balls := update_at e' (recycle x) (balls w)\<rparr>) side \<noteq> None"
          using "3.prems" by simp
        from "3.IH"(3) [OF \<open>exiting_ball w a b = Some e'\<close> \<open>map_of (balls w) e' = Some ball\<close> r Some xc [symmetric] this]
          \<open>exiting_ball w a b = Some e'\<close> \<open>map_of (balls w) e' = Some ball\<close> r Some xc
        show ?thesis by simp
      qed
    qed
  qed
qed simp_all

lemma spawn_workers_panic:
  "spawn_workers delta survivors phys samples sp w pos = Some (Inl e) \<Longrightarrow> select_roots (roots w) = Inl e"
  by (auto simp: spawn_workers_def Let_def split: if_splits sum.splits option.splits prod.splits)

lemma setup_roots_found:
  "select_roots (roots panel_setup) =
     Inr ((0, \<lparr>pr_side = Left, pr_translation = (LEFT_ROOT_X, 0)\<rparr>),
          (1, \<lparr>pr_side = Right, pr_translation = (RIGHT_ROOT_X, 0)\<rparr>))"
  "root_of_side panel_setup side \<noteq> None"
  by (simp add: panel_setup_roots select_roots_def)
     (cases side; simp add: panel_setup_roots root_of_side_def)

lemma root_of_side_roots: "roots w = roots w' \<Longrightarrow> root_of_side w side = root_of_side w' side"
  by (simp add: root_of_side_def)

lemma setup_startup_ok: "startup_ok panel_setup"
  using setup_roots_found setup_world_inv by (simp add: startup_ok_def)

lemma reachable_setup_inv: "reachable samples lt s \<Longrightarrow> state_inv panel_setup s"
  by (rule reachable_state_inv [OF setup_startup_ok])

text \<open>From a state satisfying the invariant of a startup world with one root of each side
  no frame panics.\<close>

lemma frame_no_panic:
  assumes "startup_ok w0" and "state_inv w0 s"
  shows "panel_frame samples lt inp s \<noteq> Some (Inl e)"
proof
  assume panic: "panel_frame samples lt inp s = Some (Inl e)"
  from assms(1) obtain l r where sel: "select_roots (roots w0) = Inr (l, r)"
    and found: "\<forall>side. root_of_side w0 side \<noteq> None"
    by (auto simp: startup_ok_def)
  obtain w1 g1 where u: "update_workers_particle_position (ps_go_left s) (ps_world s) = (w1, g1)"
    by fastforce
  from assms(2) update_workers_inv [of "ps_world s" "ps_go_left s"] u
  have i1: "world_inv w1" "roots w1 = roots w0" and sp0: "spawner_inv (ps_spawner s)"
    by (auto simp: state_inv_def)
  let ?phys = "physics_bodies (ps_world s)"
  show False
  proof (cases "spawn_stage samples inp ?phys (ps_spawner s) w1 (ps_rng s)")
    case None
    with panic u show False by (simp add: panel_frame_def)
  next
    case (Some res)
    show False
    proof (cases res)
      case (Inl e')
      with Some have "select_roots (roots w1) = Inl e'"
        by (auto simp: spawn_stage_def intro: spawn_workers_panic split: if_splits)
      with i1 sel show False by simp
    next
      case (Inr t)
      then obtain sp2 w2 pos2 where t: "t = (sp2, w2, pos2)" by (cases t) auto
      with Some Inr spawn_stage_inv [OF i1(1) sp0] have "roots w2 = roots w0"
        using i1 by auto
      then have "\<forall>side. root_of_side w2 side \<noteq> None"
        using root_of_side_roots [of w2 w0] found by metis
      then have "reset_stage samples inp ?phys w2 pos2 \<noteq> Some (Inl e)"
        by (simp add: reset_stage_def ball_reset_loop_no_panic)
      with panic u Some Inr t show False
        by (auto simp: panel_frame_def split: option.splits sum.splits prod.splits)
    qed
  qed
qed

text \<open>C15: in every reachable state no two trails are linked to the same worker ball (at
  most one active trail per ball), and entity ids stay distinct and fresh.\<close>

theorem reachable_one_trail_per_ball:
  "reachable samples lt s \<Longrightarrow>
   distinct (linked_balls (trails (ps_world s))) \<and> ids_ok (ps_world s)"
  using reachable_setup_inv by (simp add: state_inv_def world_inv_def)

text \<open>In every reachable state the spawn-round counter is at most
  \<open>WORKER_BALL_COUNT_MAX\<close>.\<close>

theorem reachable_rounds_bounded:
  "reachable samples lt s \<Longrightarrow> sp_counter (ps_spawner s) \<le> WORKER_BALL_COUNT_MAX"
  using reachable_setup_inv by (simp add: state_inv_def spawner_inv_def)

text \<open>C16: from a reachable state no frame panics: the spawner always finds one root per
  side, and the recycler always finds the root of a ball's side.\<close>

theorem reachable_frame_no_panic:
  assumes "reachable samples lt s"
  shows "panel_frame samples lt inp s \<noteq> Some (Inl e)"
  using frame_no_panic [OF setup_startup_ok reachable_setup_inv [OF assms]] .



text \<open>C27: once the round counter has reached \<open>WORKER_BALL_COUNT_MAX\<close>, a frame without
  restart leaves the spawner unchanged, its timer included: the run condition keeps
  \<open>spawn_workers\<close>, the only system that ticks the timer, from running.\<close>

theorem frame_capped_spawner_frozen:
  assumes "WORKER_BALL_COUNT_MAX \<le> sp_counter (ps_spawner s)" and "\<not> fi_restart inp"
    and "panel_frame samples lt inp s = Some (Inr (s', out))"
  shows "ps_spawner s' = ps_spawner s"
proof -
  from assms(3) obtain w1 g1 sp2 w2 pos2 w3 pos3 where
    sp: "spawn_stage samples inp (physics_bodies (ps_world s)) (ps_spawner s) w1 (ps_rng s) = Some (Inr (sp2, w2, pos2))" and
    s': "s' = \<lparr>ps_world = snd (restart_stage lt inp sp2 w3), ps_spawner = fst (restart_stage lt inp sp2 w3),
           ps_go_left = g1, ps_rng = pos3\<rparr>"
    by (rule panel_frame_Inr)
  from assms(1) sp have "sp2 = ps_spawner s"
    by (simp add: spawn_stage_def spawn_workers_condition_def)
  with assms(2) s' show ?thesis by (simp add: restart_stage_balls)
qed



section \<open>Witnesses\<close>

lemma init_reachable: "reachable samples lt (init_state lt)"
  by (rule reachable_from.start)

theorem reachable_one_trail_per_ball_witness:
  "distinct (linked_balls (trails (ps_world (init_state 2000)))) \<and> ids_ok (ps_world (init_state 2000))"
  using reachable_one_trail_per_ball [OF init_reachable [of "\<lambda>_. 0" 2000]] by simp

theorem reachable_rounds_bounded_witness:
  "sp_counter (ps_spawner (init_state 2000)) \<le> WORKER_BALL_COUNT_MAX"
  using reachable_rounds_bounded [OF init_reachable [of "\<lambda>_. 0" 2000]] by simp

theorem reachable_frame_no_panic_witness:
  "panel_frame (\<lambda>_. 0) 2000 ex_restart_input (init_state 2000) \<noteq> Some (Inl ExpectTwoPanels)"
  using reachable_frame_no_panic [OF init_reachable [of "\<lambda>_. 0" 2000]] by simp



theorem frame_capped_spawner_frozen_witness:
  "\<exists>s' out. panel_frame (\<lambda>_. 0) 2000 ex_quiet_input
       ((init_state 2000)\<lparr>ps_spawner := (spawner_new 2000)\<lparr>sp_counter := 6\<rparr>\<rparr>) = Some (Inr (s', out)) \<and>
     ps_spawner s' = (spawner_new 2000)\<lparr>sp_counter := 6\<rparr>"
proof -
  let ?s = "(init_state 2000)\<lparr>ps_spawner := (spawner_new 2000)\<lparr>sp_counter := 6\<rparr>\<rparr>"
  have "\<exists>r. panel_frame (\<lambda>_. 0) 2000 ex_quiet_input ?s = Some (Inr r)"
    by (simp add: panel_frame_def init_from_def ex_quiet_input_def physics_bodies_def
        update_workers_particle_position_def spawn_stage_def reset_stage_def
        spawn_workers_condition_def panel_consts restart_stage_def Let_def)
  then obtain s' out where fr: "panel_frame (\<lambda>_. 0) 2000 ex_quiet_input ?s = Some (Inr (s', out))"
    by auto
  have "WORKER_BALL_COUNT_MAX \<le> sp_counter (ps_spawner ?s)" "\<not> fi_restart ex_quiet_input"
    by (simp_all add: ex_quiet_input_def panel_consts)
  from frame_capped_spawner_frozen [OF this fr] fr show ?thesis by simp
qed



end
