(* ===== verification/Frame_Order.thy ===== *)
theory Frame_Order
  imports Panel_Plugin
begin

text \<open>
  The freedom the schedule of \<open>PanelPlugin::build\<close> leaves: it orders
  \<open>update_workers_particle_position\<close> before \<open>spawn_workers\<close> and nothing else, so
  Bevy may run \<open>trigger_event\<close> anywhere in the frame. \<open>panel_frame\<close> fixes one order
  (\<open>trigger_event\<close> after \<open>ball_reset\<close>); the lemmas here show that the events it emits
  do not depend on that choice. The other systems only append balls with fresh ids, move
  balls, touch trails or, with a restart signal that makes \<open>trigger_event\<close> discard its
  batch anyway, despawn balls; none changes what the translator reads of the entities a
  contact event of the frame names.
\<close>

text \<open>The two entities of a contact event.\<close>

definition event_entities :: "collision_event \<Rightarrow> entity list" where
  "event_entities ev = (case ev of Started a b \<Rightarrow> [a, b] | Stopped a b \<Rightarrow> [a, b])"

text \<open>The world \<open>w'\<close> keeps the zones of \<open>w\<close> and extends its balls with balls whose
  ids were not yet taken in \<open>w\<close>.\<close>

definition grows :: "world \<Rightarrow> world \<Rightarrow> bool" where
  "grows w w' \<longleftrightarrow>
     zones w' = zones w \<and> next_entity w \<le> next_entity w' \<and>
     (\<exists>new. balls w' = balls w @ new \<and> list_all (\<lambda>(e, b). next_entity w \<le> e) new)"

section \<open>Lemmas\<close>

lemma grows_refl [simp]: "grows w w"
  by (simp add: grows_def)

lemma grows_trans:
  assumes "grows w1 w2" and "grows w2 w3"
  shows "grows w1 w3"
proof -
  from assms(1) obtain n1 where "balls w2 = balls w1 @ n1" "list_all (\<lambda>(e, b). next_entity w1 \<le> e) n1"
    "zones w2 = zones w1" "next_entity w1 \<le> next_entity w2" by (auto simp: grows_def)
  moreover from assms(2) obtain n2 where "balls w3 = balls w2 @ n2"
    "list_all (\<lambda>(e, b). next_entity w2 \<le> e) n2" "zones w3 = zones w2" "next_entity w2 \<le> next_entity w3"
    by (auto simp: grows_def)
  ultimately show ?thesis
    unfolding grows_def by (intro conjI exI [where x = "n1 @ n2"]) (auto simp: list_all_iff)
qed

lemma setup_trail_grows: "grows w (setup_trail g re rt p x w)"
  by (auto simp: grows_def setup_trail_def spawn_ball_def spawn_trail_def split: option.splits)

lemma spawn_single_grows: "spawn_single p re rt c w = Some (w', k) \<Longrightarrow> grows w w'"
  by (auto simp: grows_def spawn_single_Some)

lemma spawn_panel_grows:
  assumes "spawn_panel survivors phys a b re rt g samples w pos = Some (w', pos')"
  shows "grows w w'"
proof (cases "survivors a \<and> survivors b")
  case True
  with assms obtain xa xb where "w' = setup_trail g re rt b xb (setup_trail g re rt a xa w)"
    by (auto elim: spawn_panel_pair)
  then show ?thesis by (metis grows_trans setup_trail_grows)
next
  case False
  with assms show ?thesis
    by (auto simp: spawn_panel_cases Let_def split: if_splits dest: spawn_single_grows)
qed

lemma spawn_workers_grows:
  assumes "spawn_workers delta surv phys samples sp w pos = Some (Inr (sp', w', pos'))"
  shows "grows w w'"
proof (cases "just_finished (timer_tick delta (sp_timer sp))")
  case False
  with assms show ?thesis by (simp add: spawn_workers_def)
next
  case True
  show ?thesis
  proof (cases "select_roots (roots w)")
    case (Inl err)
    with True assms show ?thesis by (simp add: spawn_workers_def)
  next
    case (Inr r)
    then obtain le re and lr rr :: panel_root where r: "select_roots (roots w) = Inr ((le, lr), (re, rr))"
      by (metis prod.exhaust)
    with True assms obtain w1 pos1 where
      left: "spawn_panel surv phys A B le (pr_translation lr) True samples w pos = Some (w1, pos1)" and
      right: "spawn_panel surv phys C D re (pr_translation rr) False samples w1 pos1 = Some (w', pos')"
      by (auto simp: spawn_workers_def Let_def split: option.splits)
    from spawn_panel_grows [OF left] spawn_panel_grows [OF right] show ?thesis by (rule grows_trans)
  qed
qed

lemma spawn_stage_grows:
  assumes "spawn_stage samples inp phys sp w pos = Some (Inr (sp', w', pos'))"
  shows "grows w w'"
  using assms spawn_workers_grows by (auto simp: spawn_stage_def split: if_splits)

lemma grows_ball_owner:
  assumes "grows w w'" and "e < next_entity w"
  shows "ball_owner w' e = ball_owner w e \<and> zone_type w' e = zone_type w e"
proof -
  from assms(1) obtain new where b: "balls w' = balls w @ new"
    and f: "list_all (\<lambda>(e, b). next_entity w \<le> e) new" and z: "zones w' = zones w"
    by (auto simp: grows_def)
  from f assms(2) have "map_of new e = None"
    by (auto simp: map_of_eq_None_iff list_all_iff)
  with b z show ?thesis
    by (simp add: ball_owner_def zone_type_def map_of_append map_add_def split: option.splits)
qed

lemma owner_map:
  "map_option wb_participant (map_of bs e) =
   map_of (map (\<lambda>(e, p, r, s). (e, p)) (ball_identity bs)) e"
  by (induction bs) (auto simp: ball_identity_def)

lemma identity_ball_owner:
  assumes "ball_identity (balls w') = ball_identity (balls w)" and "zones w' = zones w"
  shows "ball_owner w' e = ball_owner w e \<and> zone_type w' e = zone_type w e"
  using assms by (simp add: ball_owner_def zone_type_def owner_map)

lemma translate_cong:
  assumes "list_all (\<lambda>e. ball_owner w' e = ball_owner w e \<and> zone_type w' e = zone_type w e) (event_entities ev)"
  shows "translate w' ev = translate w ev"
  using assms by (cases ev) (simp_all add: translate_def event_entities_def cong: option.case_cong)

lemma translate_all_cong:
  assumes "list_all (\<lambda>ev. list_all (\<lambda>e. ball_owner w' e = ball_owner w e \<and> zone_type w' e = zone_type w e)
             (event_entities ev)) evs"
  shows "translate_all w' evs = translate_all w evs"
  using assms
proof (induction evs)
  case (Cons ev evs)
  then have "translate w' ev = translate w ev" by (simp add: translate_cong)
  with Cons show ?case by (simp cong: option.case_cong)
qed simp

lemma update_workers_grows: "grows w (fst (update_workers_particle_position g w))"
  by (simp add: grows_def update_workers_particle_position_def case_prod_beta)

lemma reset_stage_same:
  assumes "reset_stage samples inp phys w pos = Some (Inr (w', pos'))"
  shows "ball_owner w' e = ball_owner w e \<and> zone_type w' e = zone_type w e \<and> next_entity w' = next_entity w"
proof -
  have "zones w' = zones w \<and> next_entity w' = next_entity w \<and> ball_identity (balls w') = ball_identity (balls w)"
  proof (cases "fi_game_going inp")
    case True
    with assms have "ball_reset_loop samples phys (fi_collisions inp) w pos = Some (Inr (w', pos'))"
      by (simp add: reset_stage_def)
    then show ?thesis by (blast dest: ball_reset_loop_frame)
  next
    case False
    with assms show ?thesis by (simp add: reset_stage_def)
  qed
  then show ?thesis using identity_ball_owner [of w' w e] by blast
qed

text \<open>C34: \<open>trigger_event\<close> may run anywhere in the frame: as long as the contact events
  name entities that existed before the frame, the events emitted when it runs last (after
  \<open>ball_reset\<close>, as \<open>panel_frame\<close> schedules it) equal those emitted when it runs first,
  on the world the frame starts from, and those when it runs after \<open>restart\<close>, on the world
  the frame ends with.\<close>

theorem frame_trigger_order_free:
  assumes "panel_frame samples lt inp s = Some (Inr (s', out))"
    and "list_all (\<lambda>ev. list_all (\<lambda>e. e < next_entity (ps_world s)) (event_entities ev)) (fi_collisions inp)"
  shows "out = trigger_stage inp (ps_world s) \<and> out = trigger_stage inp (ps_world s')"
proof -
  from assms(1) obtain w1 g1 sp2 w2 pos2 w3 pos3 where
    u: "update_workers_particle_position (ps_go_left s) (ps_world s) = (w1, g1)" and
    sp: "spawn_stage samples inp (physics_bodies (ps_world s)) (ps_spawner s) w1 (ps_rng s) = Some (Inr (sp2, w2, pos2))" and
    rs: "reset_stage samples inp (physics_bodies (ps_world s)) w2 pos2 = Some (Inr (w3, pos3))" and
    s': "s' = \<lparr>ps_world = snd (restart_stage lt inp sp2 w3), ps_spawner = fst (restart_stage lt inp sp2 w3),
           ps_go_left = g1, ps_rng = pos3\<rparr>" and
    out: "out = trigger_stage inp w3"
    by (rule panel_frame_Inr)
  have g: "grows (ps_world s) w2"
    using update_workers_grows [of "ps_world s" "ps_go_left s"] spawn_stage_grows [OF sp] u
    by (auto intro: grows_trans)
  have "ball_owner w3 e = ball_owner (ps_world s) e \<and> zone_type w3 e = zone_type (ps_world s) e"
    if "e < next_entity (ps_world s)" for e
    using grows_ball_owner [OF g that] reset_stage_same [OF rs, of e] by simp
  with assms(2) have "translate_all w3 (fi_collisions inp) = translate_all (ps_world s) (fi_collisions inp)"
    by (intro translate_all_cong) (auto simp: list_all_iff)
  then have first: "out = trigger_stage inp (ps_world s)"
    by (simp add: out trigger_stage_def trigger_event_def)
  have "out = trigger_stage inp (ps_world s')"
    by (cases "fi_restart inp") (simp_all add: out s' trigger_stage_def trigger_event_def restart_stage_balls)
  with first show ?thesis by simp
qed

section \<open>Witnesses\<close>

theorem frame_trigger_order_free_witness:
  "\<exists>s' out. panel_frame (\<lambda>_. 0) 2000 ex_quiet_input
       ((init_state 2000)\<lparr>ps_spawner := (spawner_new 2000)\<lparr>sp_counter := 6\<rparr>\<rparr>) = Some (Inr (s', out)) \<and>
     out = trigger_stage ex_quiet_input panel_setup \<and> out = trigger_stage ex_quiet_input (ps_world s')"
proof -
  let ?s = "(init_state 2000)\<lparr>ps_spawner := (spawner_new 2000)\<lparr>sp_counter := 6\<rparr>\<rparr>"
  have "\<exists>r. panel_frame (\<lambda>_. 0) 2000 ex_quiet_input ?s = Some (Inr r)"
    by (simp add: panel_frame_def init_from_def ex_quiet_input_def physics_bodies_def
        update_workers_particle_position_def spawn_stage_def reset_stage_def
        spawn_workers_condition_def panel_consts restart_stage_def Let_def)
  then obtain s' out where fr: "panel_frame (\<lambda>_. 0) 2000 ex_quiet_input ?s = Some (Inr (s', out))"
    by auto
  have "list_all (\<lambda>ev. list_all (\<lambda>e. e < next_entity (ps_world ?s)) (event_entities ev))
          (fi_collisions ex_quiet_input)"
    by (simp add: ex_quiet_input_def)
  from frame_trigger_order_free [OF fr this]
  have "out = trigger_stage ex_quiet_input (ps_world ?s) \<and> out = trigger_stage ex_quiet_input (ps_world s')" .
  moreover have "ps_world ?s = panel_setup" by (simp add: init_from_def)
  ultimately show ?thesis using fr by metis
qed

end
