(* ===== verification/Trail_Pool.thy ===== *)
theory Trail_Pool
  imports Spawner Restart
begin

text \<open>
  The trail pool as the spec describes it (a pool of trail resources, each
  \<open>Active ball\<close> or \<open>Idle side\<close>), as a multiset of \<open>trail_link\<close>s: the order of the
  query and the effect handles are abstracted away. The operations of the spec on the
  pool are \<open>pool_attach\<close> (reuse an idle trail of the side, else allocate),
  \<open>pool_update\<close> (park the trails of vanished balls, with alternating side tags) and
  \<open>spec_restart\<close> (every trail idle, with alternating tags from a fixed start). The
  lemmas show that \<open>setup_trail\<close>, \<open>update_workers_particle_position\<close> and the trail loop
  of \<open>restart\<close> refine them through the abstraction \<open>pool\<close>, and where restart does not.
\<close>

definition pool :: "(entity \<times> trail) list \<Rightarrow> trail_link multiset" where
  "pool ts = mset (map (\<lambda>(e, t). tr_link t) ts)"

definition vanished :: "(entity \<Rightarrow> bool) \<Rightarrow> trail_link \<Rightarrow> bool" where
  "vanished alive l \<longleftrightarrow> (case l of WorkerBallTrail b \<Rightarrow> \<not> alive b | InactiveWorkerBallTrail _ \<Rightarrow> False)"

definition idle_link :: "trail_link \<Rightarrow> bool" where
  "idle_link l \<longleftrightarrow> (case l of InactiveWorkerBallTrail _ \<Rightarrow> True | WorkerBallTrail _ \<Rightarrow> False)"

text \<open>\<open>attach(ball_ref, side, color)\<close>: an idle trail of the side if there is one,
  otherwise a new one; either way the pool gains an active trail of the ball.\<close>

definition pool_attach :: "bool \<Rightarrow> entity \<Rightarrow> trail_link multiset \<Rightarrow> trail_link multiset" where
  "pool_attach side b P =
     add_mset (WorkerBallTrail b)
       (if InactiveWorkerBallTrail side \<in># P then P - {#InactiveWorkerBallTrail side#} else P)"

text \<open>\<open>update_all()\<close>: trails of vanished balls become idle, tagged by a toggle that
  flips at every transition.\<close>

definition pool_update :: "(entity \<Rightarrow> bool) \<Rightarrow> bool \<Rightarrow> trail_link multiset \<Rightarrow> trail_link multiset" where
  "pool_update alive g P =
     filter_mset (\<lambda>l. \<not> vanished alive l) P +
     mset (map InactiveWorkerBallTrail (alternate g (size (filter_mset (vanished alive) P))))"

text \<open>The restart of section 4.6 of the spec: every trail, active or idle, becomes idle,
  with tags alternating from \<open>false\<close>.\<close>

definition spec_restart :: "trail_link multiset \<Rightarrow> trail_link multiset" where
  "spec_restart P = mset (map InactiveWorkerBallTrail (alternate False (size P)))"

text \<open>What the trail loop of \<open>restart\<close> does to the pool: the idle trails are re-tagged
  alternately from the toggle's start (\<open>false\<close> in \<open>restart\<close>), the active ones are
  left alone.\<close>

definition pool_restart :: "bool \<Rightarrow> trail_link multiset \<Rightarrow> trail_link multiset" where
  "pool_restart g P =
     filter_mset (\<lambda>l. \<not> idle_link l) P +
     mset (map InactiveWorkerBallTrail (alternate g (size (filter_mset idle_link P))))"

section \<open>Lemmas\<close>

lemma pool_simps [simp]:
  "pool [] = {#}"
  "pool ((e, t) # ts) = add_mset (tr_link t) (pool ts)"
  "pool (ts @ us) = pool ts + pool us"
  by (simp_all add: pool_def)

lemma vanished_simps [simp]:
  "vanished alive (WorkerBallTrail b) \<longleftrightarrow> \<not> alive b"
  "\<not> vanished alive (InactiveWorkerBallTrail x)"
  by (simp_all add: vanished_def)

lemma idle_link_simps [simp]:
  "\<not> idle_link (WorkerBallTrail b)"
  "idle_link (InactiveWorkerBallTrail x)"
  by (simp_all add: idle_link_def)

lemma pool_update_trails:
  "pool (fst (update_trails w g ts)) = pool_update (\<lambda>b. map_of (balls w) b \<noteq> None) g (pool ts)"
proof (induction w g ts rule: update_trails.induct)
  case (1 w g)
  then show ?case by (simp add: pool_update_def)
next
  case (2 w g e t ts)
  then show ?case
    by (auto simp: pool_update_def alternate_Suc case_prod_beta Let_def split: trail_link.splits option.splits)
qed

lemma pool_restart_trails: "pool (restart_trails g ts) = pool_restart g (pool ts)"
  by (induction g ts rule: restart_trails.induct)
     (auto simp: pool_restart_def alternate_Suc split: trail_link.splits)

lemma pool_update_at:
  assumes "distinct (map fst ts)" and "(te, t) \<in> set ts"
  shows "pool (update_at te f ts) = add_mset (tr_link (f t)) (pool ts - {#tr_link t#})"
  using assms
proof (induction ts)
  case Nil
  then show ?case by simp
next
  case (Cons p ts)
  obtain e u where p: "p = (e, u)" by (cases p)
  show ?case
  proof (cases "e = te")
    case True
    with Cons.prems p have "u = t" and "te \<notin> fst ` set ts" by (auto simp: rev_image_eqI)
    with True p show ?thesis by (simp add: update_at_notin)
  next
    case False
    with Cons.prems p have "(te, t) \<in> set ts" by auto
    then have "tr_link t \<in># pool ts" by (force simp: pool_def)
    with Cons False p show ?thesis by (auto simp: add_mset_commute)
  qed
qed

lemma pool_setup_trail:
  assumes "world_inv w"
  shows "pool (trails (setup_trail g re rt p x w)) = pool_attach g (next_entity w) (pool (trails w))"
proof (cases "find_idle g (trails w)")
  case None
  then have "idle_count g (trails w) = 0" by (simp add: find_idle_None)
  then have "InactiveWorkerBallTrail g \<notin># pool (trails w)"
    by (auto simp: idle_count_def pool_def filter_empty_conv)
  with None show ?thesis
    by (simp add: setup_trail_def spawn_ball_def spawn_trail_def pool_attach_def trail_bundle_new_def)
next
  case (Some q)
  obtain te t where q: "q = (te, t)" by (cases q)
  from Some q have mem: "(te, t) \<in> set (trails w)" and idle: "tr_link t = InactiveWorkerBallTrail g"
    using find_idle_Some by blast+
  from assms have "distinct (map fst (trails w))" by (simp add: world_inv_def ids_ok_distinct)
  from pool_update_at [OF this mem] mem idle Some q show ?thesis
    by (force simp: setup_trail_def spawn_ball_def pool_attach_def pool_def)
qed

text \<open>C10: the paired branch of \<open>spawn_workers\<close> refines two \<open>attach\<close> operations of
  the spec's trail pool, one per new ball in spawn order: each reuses an idle trail of the
  panel's side when the pool has one and allocates a trail only otherwise.\<close>

theorem spawn_panel_pair_attach:
  assumes "world_inv w" and "spawn_panel survivors phys a b re rt g samples w pos = Some (w', pos')"
    and "survivors a" and "survivors b"
  shows "\<exists>b1 b2. map fst (drop (length (balls w)) (balls w')) = [b1, b2] \<and>
           pool (trails w') = pool_attach g b2 (pool_attach g b1 (pool (trails w)))"
proof -
  from spawn_panel_pair [OF assms(2-4)] obtain xa xb c' where
    w': "w' = setup_trail g re rt b xb (setup_trail g re rt a xa w)" by metis
  let ?w1 = "setup_trail g re rt a xa w"
  from setup_trail_inv [OF assms(1)] have i1: "world_inv ?w1"
    and b1: "balls ?w1 = balls w @ [(next_entity w, worker_ball_new a xa re)]" by blast+
  from setup_trail_inv [OF i1] have b2: "balls w' = balls ?w1 @ [(next_entity ?w1, worker_ball_new b xb re)]"
    using w' by blast
  have "pool (trails w') = pool_attach g (next_entity ?w1) (pool_attach g (next_entity w) (pool (trails w)))"
    using pool_setup_trail [OF i1] pool_setup_trail [OF assms(1)] w' by simp
  with b1 b2 show ?thesis by auto
qed

text \<open>C7: \<open>update_workers_particle_position\<close> refines \<open>update_all()\<close> of the spec's
  trail pool: the trails of vanished balls become idle with side tags taken from a toggle
  that flips at every transition, and every other trail keeps its state.\<close>

theorem update_workers_refines_pool:
  "pool (trails (fst (update_workers_particle_position g w))) =
   pool_update (\<lambda>b. map_of (balls w) b \<noteq> None) g (pool (trails w))"
  using pool_update_trails [of w g "trails w"]
  by (simp add: update_workers_particle_position_def case_prod_beta)

text \<open>C35: \<open>restart\<close> re-tags the idle trails alternately from \<open>false\<close> and leaves the
  active ones alone; it meets the spec's restart (every trail idle, tags alternating from
  a fixed start) exactly when no trail is active.\<close>

theorem restart_pool:
  "pool (trails (snd (restart lt sp w))) = pool_restart False (pool (trails w)) \<and>
   (pool (trails (snd (restart lt sp w))) = spec_restart (pool (trails w)) \<longleftrightarrow>
      (\<forall>l \<in># pool (trails w). idle_link l))"
proof -
  let ?P = "pool (trails w)"
  have r: "pool (trails (snd (restart lt sp w))) = pool_restart False ?P"
    by (simp add: restart_def pool_restart_trails)
  have "pool_restart False ?P = spec_restart ?P \<longleftrightarrow> (\<forall>l \<in># ?P. idle_link l)"
  proof
    assume eq: "pool_restart False ?P = spec_restart ?P"
    show "\<forall>l \<in># ?P. idle_link l"
    proof
      fix l assume l: "l \<in># ?P"
      show "idle_link l"
      proof (rule ccontr)
        assume "\<not> idle_link l"
        with l have "l \<in># pool_restart False ?P" by (simp add: pool_restart_def)
        with eq have "l \<in># spec_restart ?P" by simp
        then show False using \<open>\<not> idle_link l\<close> by (auto simp: spec_restart_def)
      qed
    qed
  next
    assume all: "\<forall>l \<in># ?P. idle_link l"
    then have "filter_mset (\<lambda>l. \<not> idle_link l) ?P = {#}" and "filter_mset idle_link ?P = ?P"
      by (auto simp: filter_mset_eq_conv)
    then show "pool_restart False ?P = spec_restart ?P"
      by (simp add: pool_restart_def spec_restart_def)
  qed
  with r show ?thesis by simp
qed

section \<open>Witnesses\<close>

theorem spawn_panel_pair_attach_witness:
  "\<exists>w' pos'. spawn_panel (\<lambda>_. True) [] A B 0 (LEFT_ROOT_X, 0) True ex_samples ex_world 0 = Some (w', pos') \<and>
     (\<exists>b1 b2. map fst (drop (length (balls ex_world)) (balls w')) = [b1, b2] \<and>
        pool (trails w') = pool_attach True b2 (pool_attach True b1 (pool (trails ex_world))))"
proof -
  have "\<exists>r. spawn_panel (\<lambda>_. True) [] A B 0 (LEFT_ROOT_X, 0) True ex_samples ex_world 0 = Some r"
    by (simp add: spawn_eval)
  then obtain w' pos' where
    sp: "spawn_panel (\<lambda>_. True) [] A B 0 (LEFT_ROOT_X, 0) True ex_samples ex_world 0 = Some (w', pos')"
    by auto
  from spawn_panel_pair_attach [OF ex_world_inv sp] sp show ?thesis by auto
qed

theorem restart_pool_witness:
  "pool (trails (snd (restart 2000 (spawner_new 2000) ex_restart_world))) \<noteq>
   spec_restart (pool (trails ex_restart_world))"
proof -
  have "\<not> (\<forall>l \<in># pool (trails ex_restart_world). idle_link l)"
    by (simp add: ex_restart_world_def trail_bundle_new_def)
  with restart_pool [of 2000 "spawner_new 2000" ex_restart_world] show ?thesis by blast
qed

end
