(* ===== verification/Debug_Utils.thy ===== *)
theory Debug_Utils
  imports Spawn_Timer Complex_Main
begin

unbundle bit_operations_syntax

text \<open>
  \<open>src/src/debug_utils.rs\<close>: the debug drivers that share the one-shot
  \<open>AutoTimer\<close> (ten seconds, \<open>TimerMode::Once\<close>): \<open>auto_elimination\<close> (the only
  system \<open>DebugUtilsPlugin::build\<close> schedules), \<open>auto_fire\<close>, \<open>auto_multiply\<close>
  and \<open>auto_hanabi\<close>, which packs a participant's colour into a \<open>u32\<close> ABGR word.
  Durations are milliseconds, as in \<open>Spawn_Timer\<close>. \<open>Participant::ALL\<close>,
  \<open>EliminationEvent\<close> and the colour resource live in modules that are not among the
  sources (\<open>utils\<close>, \<open>battlefield\<close>) and are modelled from their use here; the
  random draws of \<open>auto_hanabi\<close> are parameters. \<open>print_trigger_events\<close> only prints.
\<close>

section \<open>Data\<close>

definition participant_all :: "participant list" where
  "participant_all = [A, B, C, D]"

record elimination_event =
  ee_participant :: participant

text \<open>\<open>Srgba\<close>: the colour channels the packing reads.\<close>

record srgba =
  red :: real
  green :: real
  blue :: real

text \<open>\<open>AutoTimer::default\<close>.\<close>

definition auto_timer_default :: timer where
  "auto_timer_default = timer_from 10000 Once"

section \<open>The event drivers\<close>

definition elimination_batch :: "elimination_event list" where
  "elimination_batch = [\<lparr>ee_participant = A\<rparr>, \<lparr>ee_participant = B\<rparr>, \<lparr>ee_participant = C\<rparr>]"

text \<open>\<open>auto_elimination\<close>: tick the timer by the frame's delta; on the tick it finishes,
  send the elimination events of A, B and C.\<close>

definition auto_elimination :: "nat \<Rightarrow> timer \<Rightarrow> timer \<times> elimination_event list" where
  "auto_elimination delta t =
     (let t' = timer_tick delta t in (t', if just_finished t' then elimination_batch else []))"

text \<open>The body of \<open>auto_fire\<close>'s loop for one participant: three \<open>Multiply(4)\<close>
  events, then one \<open>BurstShot\<close>.\<close>

definition fire_batch :: "participant \<Rightarrow> gameplay_event list" where
  "fire_batch p =
     replicate 3 \<lparr>te_participant = p, te_trigger_type = Multiply 4\<rparr> @
     [\<lparr>te_participant = p, te_trigger_type = BurstShot\<rparr>]"

definition auto_fire :: "nat \<Rightarrow> timer \<Rightarrow> timer \<times> gameplay_event list" where
  "auto_fire delta t =
     (let t' = timer_tick delta t in
      (t', if just_finished t' then concat (map fire_batch participant_all) else []))"

definition auto_multiply :: "nat \<Rightarrow> timer \<Rightarrow> timer \<times> gameplay_event list" where
  "auto_multiply delta t =
     (let t' = timer_tick delta t in
      (t', if just_finished t' then [\<lparr>te_participant = A, te_trigger_type = Multiply 4\<rparr>] else []))"

section \<open>Colour packing and \<open>auto_hanabi\<close>\<close>

text \<open>Rust's \<open>f32 as u32\<close>: truncation toward zero, saturating at both ends
  (\<open>NaN\<close>, absent from the reals, would give 0).\<close>

definition as_u32 :: "real \<Rightarrow> 32 word" where
  "as_u32 x = (if x \<le> 0 then 0 else if 4294967295 \<le> x then - 1 else word_of_nat (nat \<lfloor>x\<rfloor>))"

text \<open>Lines 51--54: \<open>0xFF000000 | (b * 255) as u32 << 16 | (g * 255) as u32 << 8 |
  (r * 255) as u32\<close> (\<open><<\<close> binds tighter than \<open>|\<close>; bits shifted past 31 are lost).\<close>

definition pack_color :: "srgba \<Rightarrow> 32 word" where
  "pack_color c =
     0xFF000000 OR push_bit 16 (as_u32 (blue c * 255)) OR push_bit 8 (as_u32 (green c * 255))
       OR as_u32 (red c * 255)"

text \<open>The \<open>match\<close> on a draw of \<open>Uniform::new(0, 4)\<close>; \<open>None\<close> is \<open>unreachable!()\<close>.\<close>

definition participant_of_index :: "nat \<Rightarrow> participant option" where
  "participant_of_index k =
     (if k = 0 then Some A else if k = 1 then Some B else if k = 2 then Some C
      else if k = 3 then Some D else None)"

datatype debug_error = Unreachable

record hanabi_effect =
  he_spawn_color :: "32 word"
  he_translation :: "real \<times> real \<times> real"

text \<open>\<open>auto_hanabi\<close>: on the tick the timer finishes, draw a position and a participant
  and spawn a particle effect of that participant's colour at depth 5.\<close>

definition auto_hanabi ::
  "(participant \<Rightarrow> srgba) \<Rightarrow> real \<Rightarrow> real \<Rightarrow> nat \<Rightarrow> nat \<Rightarrow> timer \<Rightarrow>
   debug_error + (timer \<times> hanabi_effect option)" where
  "auto_hanabi colors x y k delta t =
     (let t' = timer_tick delta t in
      if just_finished t' then
        (case participant_of_index k of
           None \<Rightarrow> Inl Unreachable
         | Some p \<Rightarrow> Inr (t', Some \<lparr>he_spawn_color = pack_color (colors p), he_translation = (x, y, 5)\<rparr>))
      else Inr (t', None))"

section \<open>The plugin\<close>

text \<open>\<open>DebugUtilsPlugin::build\<close>: the \<open>AutoTimer\<close> resource and \<open>auto_elimination\<close> in
  \<open>Update\<close>; a run is one frame per delta, the events sent in frame order.\<close>

fun debug_run :: "nat list \<Rightarrow> timer \<Rightarrow> timer \<times> elimination_event list" where
  "debug_run [] t = (t, [])"
| "debug_run (d # ds) t =
     (let (t1, es) = auto_elimination d t; (t2, es') = debug_run ds t1 in (t2, es @ es'))"

definition debug_plugin_run :: "nat list \<Rightarrow> elimination_event list" where
  "debug_plugin_run ds = snd (debug_run ds auto_timer_default)"

text \<open>The byte \<open>i\<close> of a packed colour (0 = red, 3 = alpha), and the channel value a
  colour component in \<open>[0, 1]\<close> is meant to become.\<close>

definition byte :: "nat \<Rightarrow> 32 word \<Rightarrow> 32 word" where
  "byte i c = take_bit 8 (drop_bit (8 * i) c)"

definition channel :: "real \<Rightarrow> nat" where
  "channel c = nat \<lfloor>c * 255\<rfloor>"

text \<open>Well-formedness of a one-shot timer of positive duration: unfinished below its
  duration, finished exactly at it.\<close>

definition once_timer_ok :: "timer \<Rightarrow> bool" where
  "once_timer_ok t \<longleftrightarrow>
     tm_mode t = Once \<and> 0 < tm_duration t \<and>
     (if tm_finished t then tm_elapsed t = tm_duration t else tm_elapsed t < tm_duration t)"

section \<open>Lemmas\<close>

lemma timer_tick_once:
  assumes "once_timer_ok t"
  shows "timer_tick d t =
           (if tm_finished t then t\<lparr>tm_times_finished_this_tick := 0\<rparr>
            else if tm_duration t \<le> tm_elapsed t + d
            then t\<lparr>tm_elapsed := tm_duration t, tm_finished := True, tm_times_finished_this_tick := 1\<rparr>
            else t\<lparr>tm_elapsed := tm_elapsed t + d, tm_finished := False, tm_times_finished_this_tick := 0\<rparr>)"
  using assms by (simp add: once_timer_ok_def timer_tick_def Let_def)

lemma once_timer_ok_tick: "once_timer_ok t \<Longrightarrow> once_timer_ok (timer_tick d t)"
  by (simp add: timer_tick_once) (auto simp: once_timer_ok_def)

lemma just_finished_once:
  "once_timer_ok t \<Longrightarrow> just_finished (timer_tick d t) \<longleftrightarrow> \<not> tm_finished t \<and> tm_duration t \<le> tm_elapsed t + d"
  by (simp add: timer_tick_once just_finished_def)

lemma auto_timer_default_ok: "once_timer_ok auto_timer_default"
  by (simp add: once_timer_ok_def auto_timer_default_def timer_from_def)

lemma debug_run_finished:
  "once_timer_ok t \<Longrightarrow> tm_finished t \<Longrightarrow> snd (debug_run ds t) = []"
proof (induction ds arbitrary: t)
  case Nil
  then show ?case by simp
next
  case (Cons d ds)
  from Cons.prems(1) have ok: "once_timer_ok (timer_tick d t)" by (rule once_timer_ok_tick)
  from Cons.prems have fin: "tm_finished (timer_tick d t)" and nj: "\<not> just_finished (timer_tick d t)"
    by (simp_all add: timer_tick_once just_finished_def)
  from Cons.IH [OF ok fin] nj show ?case by (simp add: auto_elimination_def case_prod_beta)
qed

lemma debug_run_once:
  "once_timer_ok t \<Longrightarrow> \<not> tm_finished t \<Longrightarrow>
   snd (debug_run ds t) = (if tm_duration t \<le> tm_elapsed t + sum_list ds then elimination_batch else [])"
proof (induction ds arbitrary: t)
  case Nil
  then show ?case by (simp add: once_timer_ok_def)
next
  case (Cons d ds)
  let ?t = "timer_tick d t"
  from Cons.prems(1) have ok: "once_timer_ok ?t" by (rule once_timer_ok_tick)
  show ?case
  proof (cases "tm_duration t \<le> tm_elapsed t + d")
    case True
    with Cons.prems have "tm_finished ?t" and "just_finished ?t"
      by (simp_all add: timer_tick_once just_finished_def)
    with debug_run_finished [OF ok] True show ?thesis
      by (simp add: auto_elimination_def case_prod_beta)
  next
    case False
    with Cons.prems have "\<not> tm_finished ?t" and "\<not> just_finished ?t"
      and "tm_elapsed ?t = tm_elapsed t + d" and "tm_duration ?t = tm_duration t"
      by (simp_all add: timer_tick_once just_finished_def)
    with Cons.IH [OF ok] show ?thesis
      by (simp add: auto_elimination_def case_prod_beta add.assoc)
  qed
qed

lemma as_u32_small:
  assumes "0 \<le> c" "c \<le> 1"
  shows "as_u32 (c * 255) = word_of_nat (channel c) \<and> channel c < 256"
proof -
  from assms have f: "\<lfloor>c * 255\<rfloor> \<le> 255" by (simp add: floor_le_iff)
  then have "nat \<lfloor>c * 255\<rfloor> \<le> nat 255" by (rule nat_mono)
  then have "channel c < 256" by (simp add: channel_def)
  moreover have "\<not> 4294967295 \<le> c * 255" using assms by linarith
  ultimately show ?thesis by (auto simp: as_u32_def channel_def)
qed

lemma small_no_high_bit:
  assumes "v < 256" and "8 \<le> n"
  shows "\<not> bit (v :: nat) n"
proof -
  have "(256::nat) = 2 ^ 8" by simp
  also have "\<dots> \<le> 2 ^ n" using assms(2) by (rule power_increasing) simp
  finally have "v < 2 ^ n" using assms(1) by linarith
  then show ?thesis by (simp add: bit_nat_def)
qed

lemma small_bit_low: "v < 256 \<Longrightarrow> bit (v :: nat) n \<Longrightarrow> n < 8"
  using small_no_high_bit not_le by blast

lemma byte_pack:
  assumes "a < 256" "b < 256" "c < 256" "d < 256"
  shows "byte 3 (push_bit 24 (word_of_nat a) OR push_bit 16 (word_of_nat b) OR push_bit 8 (word_of_nat c) OR word_of_nat d) = word_of_nat a"
    and "byte 2 (push_bit 24 (word_of_nat a) OR push_bit 16 (word_of_nat b) OR push_bit 8 (word_of_nat c) OR word_of_nat d) = word_of_nat b"
    and "byte 1 (push_bit 24 (word_of_nat a) OR push_bit 16 (word_of_nat b) OR push_bit 8 (word_of_nat c) OR word_of_nat d) = word_of_nat c"
    and "byte 0 (push_bit 24 (word_of_nat a) OR push_bit 16 (word_of_nat b) OR push_bit 8 (word_of_nat c) OR word_of_nat d) = (word_of_nat d :: 32 word)"
  using assms
  by (auto intro!: bit_word_eqI simp: byte_def bit_take_bit_iff bit_drop_bit_eq bit_or_iff bit_push_bit_iff
      bit_of_nat_iff small_no_high_bit dest: small_bit_low)

lemma alpha_word: "(0xFF000000 :: 32 word) = push_bit 24 (word_of_nat 255)"
  by simp

lemma alpha_mask: "(0xFF000000 :: 32 word) = push_bit 24 (mask 8)" "(255 :: 32 word) = mask 8"
  by (simp_all add: mask_eq_exp_minus_1)

lemma byte3_alpha: "byte 3 (0xFF000000 OR x) = (255 :: 32 word)"
  unfolding alpha_mask byte_def
  by (rule bit_word_eqI) (auto simp: bit_take_bit_iff bit_drop_bit_eq bit_or_iff bit_push_bit_iff bit_mask_iff)

lemma byte_pack_alpha:
  assumes "b < 256" "c < 256" "d < 256"
  shows "byte 2 (0xFF000000 OR push_bit 16 (word_of_nat b) OR push_bit 8 (word_of_nat c) OR word_of_nat d) = word_of_nat b"
    and "byte 1 (0xFF000000 OR push_bit 16 (word_of_nat b) OR push_bit 8 (word_of_nat c) OR word_of_nat d) = word_of_nat c"
    and "byte 0 (0xFF000000 OR push_bit 16 (word_of_nat b) OR push_bit 8 (word_of_nat c) OR word_of_nat d) = (word_of_nat d :: 32 word)"
  using byte_pack(2-4) [of 255 b c d] assms by simp_all

lemma participant_of_index_Some: "participant_of_index k \<noteq> None \<longleftrightarrow> k < length participant_all"
  by (simp add: participant_of_index_def participant_all_def)

text \<open>Outside \<open>[0, 1]\<close> a channel is not clamped to its byte: a green component of 2
  packs to 510, whose top bit lands in the blue byte.\<close>

lemma pack_color_spill:
  "byte 1 (pack_color \<lparr>red = 0, green = 2, blue = 0\<rparr>) = 254 \<and>
   byte 2 (pack_color \<lparr>red = 0, green = 2, blue = 0\<rparr>) = 1"
  by (simp add: pack_color_def as_u32_def byte_def)

text \<open>C13: \<open>DebugUtilsPlugin\<close> sends the elimination events of A, B and C exactly once,
  in that order, in the first frame at which the frame deltas add up to the ten seconds of
  \<open>AutoTimer\<close>, and nothing before or after: the one-shot timer never fires again.\<close>

theorem debug_plugin_eliminates_once:
  "debug_plugin_run ds = (if 10000 \<le> sum_list ds then elimination_batch else [])"
  using debug_run_once [OF auto_timer_default_ok, of ds]
  by (simp add: debug_plugin_run_def auto_timer_default_def timer_from_def)



text \<open>C14: the colour packing of \<open>auto_hanabi\<close> is exact for colour components in
  \<open>[0, 1]\<close>: byte 0 of the word is the red channel \<open>(r * 255) as u8\<close>, byte 1 the
  green, byte 2 the blue, and byte 3 the opaque alpha \<open>0xFF\<close>.\<close>

theorem pack_color_roundtrip:
  assumes "0 \<le> red c" "red c \<le> 1" "0 \<le> green c" "green c \<le> 1" "0 \<le> blue c" "blue c \<le> 1"
  shows "byte 0 (pack_color c) = word_of_nat (channel (red c)) \<and>
         byte 1 (pack_color c) = word_of_nat (channel (green c)) \<and>
         byte 2 (pack_color c) = word_of_nat (channel (blue c)) \<and> byte 3 (pack_color c) = 255"
proof -
  from as_u32_small [OF assms(1,2)] as_u32_small [OF assms(3,4)] as_u32_small [OF assms(5,6)]
  have "pack_color c =
    0xFF000000 OR push_bit 16 (word_of_nat (channel (blue c))) OR
    push_bit 8 (word_of_nat (channel (green c))) OR word_of_nat (channel (red c))"
    and "channel (red c) < 256" "channel (green c) < 256" "channel (blue c) < 256"
    by (simp_all add: pack_color_def)
  with byte_pack_alpha [of "channel (blue c)" "channel (green c)" "channel (red c)"]
    byte3_alpha [of "push_bit 16 (as_u32 (blue c * 255)) OR push_bit 8 (as_u32 (green c * 255)) OR as_u32 (red c * 255)"]
  show ?thesis by (simp add: pack_color_def or.assoc)
qed


text \<open>C37: \<open>auto_hanabi\<close> reaches \<open>unreachable!()\<close> exactly when the timer finishes
  and the drawn index is not below the number of participants; the draws of
  \<open>Uniform::new(0, 4)\<close> (below 4) therefore never panic.\<close>

theorem auto_hanabi_panics_iff:
  "(\<exists>e. auto_hanabi cs x y k d t = Inl e) \<longleftrightarrow>
   just_finished (timer_tick d t) \<and> length participant_all \<le> k"
  using participant_of_index_Some [of k]
  by (auto simp: auto_hanabi_def Let_def split: option.splits)

section \<open>Witnesses\<close>


theorem pack_color_roundtrip_witness:
  "byte 0 (pack_color \<lparr>red = 1, green = 0, blue = 1\<rparr>) = 255 \<and>
   byte 1 (pack_color \<lparr>red = 1, green = 0, blue = 1\<rparr>) = 0 \<and>
   byte 2 (pack_color \<lparr>red = 1, green = 0, blue = 1\<rparr>) = 255 \<and>
   byte 3 (pack_color \<lparr>red = 1, green = 0, blue = 1\<rparr>) = 255"
  using pack_color_roundtrip [of "\<lparr>red = 1, green = 0, blue = 1\<rparr>"] by (simp add: channel_def)

end
