(* ===== verification/Obstacles.thy ===== *)
theory Obstacles
  imports Setup
begin

text \<open>
  The static colliders \<open>setup\<close> gives each panel (\<open>src/src/panel_plugin.rs\<close>): the
  panel root's wall polyline (lines 407--448), and the obstacle circles and trigger-zone
  dividers spawned through \<open>ObstacleBundleBuilder\<close> (lines 310--397), a builder whose
  \<open>build\<close> fails unless material, mesh, collider and name are set and whose
  \<open>buildtmb\<close> unwraps that result. Coordinates are exact rationals relative to the root;
  the material handles \<open>materials.add(..)\<close> returns are opaque numbers. The contact test
  of a ball against these colliders follows parry's (touching counts, as in \<open>World\<close>):
  a ball against a ball, a capsule (a segment with a radius) and a polyline (its
  segments), by the exact squared distance of a point to a segment.
\<close>

section \<open>Constants\<close>

definition ARENA_HEIGHT :: rat where "ARENA_HEIGHT = 700"
definition ARENA_HEIGHT_FRAC_2 :: rat where "ARENA_HEIGHT_FRAC_2 = ARENA_HEIGHT / 2"
definition TRIGGER_ZONE_HEIGHT :: rat where "TRIGGER_ZONE_HEIGHT = 40"
definition TRIGGER_ZONE_DIVIDER_HEIGHT_OFFSET :: rat where "TRIGGER_ZONE_DIVIDER_HEIGHT_OFFSET = 5 / 2"
definition TRIGGER_ZONE_DIVIDER_RADIUS :: rat where "TRIGGER_ZONE_DIVIDER_RADIUS = 5 / 2"
definition CIRCLE_Z :: rat where "CIRCLE_Z = -1"
definition TRIGGER_ZONE_DIVIDER_Z :: rat where "TRIGGER_ZONE_DIVIDER_Z = -1"

text \<open>The local constant \<open>LENGTH\<close> of \<open>setup\<close>: the divider capsule's length.\<close>

definition DIVIDER_LENGTH :: rat where
  "DIVIDER_LENGTH = TRIGGER_ZONE_DIVIDER_HEIGHT_OFFSET + TRIGGER_ZONE_HEIGHT"

lemmas static_consts = ARENA_HEIGHT_def ARENA_HEIGHT_FRAC_2_def TRIGGER_ZONE_HEIGHT_def
  TRIGGER_ZONE_DIVIDER_HEIGHT_OFFSET_def TRIGGER_ZONE_DIVIDER_RADIUS_def CIRCLE_Z_def
  TRIGGER_ZONE_DIVIDER_Z_def DIVIDER_LENGTH_def

section \<open>Bundles and the builder\<close>

text \<open>The collider shapes \<open>setup\<close> uses: \<open>Collider::ball\<close>, \<open>Collider::capsule_y\<close>
  (half height, radius), \<open>Collider::polyline\<close> and \<open>Collider::cuboid\<close> (half extents).\<close>

datatype collider = BallCollider rat | CapsuleY rat rat | Polyline "point list" | Cuboid rat rat

datatype mesh = CircleMesh rat | Capsule2dMesh rat rat

datatype collision_group = PANEL_OBSTACLES | PANEL_BALLS | PANEL_TRIGGER_ZONES

datatype rigid_body = Fixed | Dynamic

text \<open>\<open>ObstacleBundle\<close>.\<close>

record obstacle_bundle =
  obs_mesh :: mesh
  obs_material :: nat
  obs_translation :: "rat \<times> rat \<times> rat"
  obs_collider :: collider
  obs_groups :: "collision_group \<times> collision_group"
  obs_rigidbody :: rigid_body
  obs_name :: string

text \<open>\<open>ObstacleBundleBuilder\<close> and \<open>ObstacleBundleBuilder::new\<close> (its \<open>Default\<close>).\<close>

record obstacle_builder =
  ob_translation :: "rat \<times> rat \<times> rat"
  ob_material :: "nat option"
  ob_mesh :: "mesh option"
  ob_collider :: "collider option"
  ob_name :: "string option"

definition obstacle_builder_new :: obstacle_builder where
  "obstacle_builder_new =
     \<lparr>ob_translation = (0, 0, 0), ob_material = None, ob_mesh = None, ob_collider = None,
      ob_name = None\<rparr>"

definition builder_xy :: "rat \<Rightarrow> rat \<Rightarrow> obstacle_builder \<Rightarrow> obstacle_builder" where
  "builder_xy x y b = b\<lparr>ob_translation := (x, y, snd (snd (ob_translation b)))\<rparr>"

definition builder_z :: "rat \<Rightarrow> obstacle_builder \<Rightarrow> obstacle_builder" where
  "builder_z z b = b\<lparr>ob_translation := (fst (ob_translation b), fst (snd (ob_translation b)), z)\<rparr>"

definition builder_material :: "nat \<Rightarrow> obstacle_builder \<Rightarrow> obstacle_builder" where
  "builder_material m b = b\<lparr>ob_material := Some m\<rparr>"

definition builder_mesh :: "mesh \<Rightarrow> obstacle_builder \<Rightarrow> obstacle_builder" where
  "builder_mesh h b = b\<lparr>ob_mesh := Some h\<rparr>"

definition builder_collider :: "collider \<Rightarrow> obstacle_builder \<Rightarrow> obstacle_builder" where
  "builder_collider c b = b\<lparr>ob_collider := Some c\<rparr>"

definition builder_name :: "string \<Rightarrow> obstacle_builder \<Rightarrow> obstacle_builder" where
  "builder_name n b = b\<lparr>ob_name := Some n\<rparr>"

text \<open>\<open>ObstacleBundleBuilder::build\<close>: the \<open>let ... else { return None }\<close> pattern.\<close>

definition obstacle_build :: "obstacle_builder \<Rightarrow> obstacle_bundle option" where
  "obstacle_build b =
     (case (ob_material b, ob_mesh b, ob_collider b, ob_name b) of
        (Some m, Some h, Some c, Some n) \<Rightarrow>
          Some \<lparr>obs_mesh = h, obs_material = m, obs_translation = ob_translation b,
                obs_collider = c, obs_groups = (PANEL_OBSTACLES, PANEL_BALLS),
                obs_rigidbody = Fixed, obs_name = n\<rparr>
      | _ \<Rightarrow> None)"

text \<open>\<open>buildtmb\<close>: \<open>build().unwrap()\<close>, whose panic is \<open>Inl\<close>.\<close>

datatype setup_error = UnwrapNone

definition buildtmb :: "obstacle_builder \<Rightarrow> setup_error + obstacle_bundle" where
  "buildtmb b = (case obstacle_build b of Some ob \<Rightarrow> Inr ob | None \<Rightarrow> Inl UnwrapNone)"

section \<open>The builders and obstacles of \<open>setup\<close>\<close>

definition circle_builder :: "nat \<Rightarrow> obstacle_builder" where
  "circle_builder mat =
     builder_collider (BallCollider CIRCLE_RADIUS)
       (builder_mesh (CircleMesh CIRCLE_RADIUS)
         (builder_material mat
           (builder_z CIRCLE_Z (builder_name ''Circle Obstacle'' obstacle_builder_new))))"

definition divider_builder :: "nat \<Rightarrow> obstacle_builder" where
  "divider_builder mat =
     builder_collider (CapsuleY (DIVIDER_LENGTH / 2) TRIGGER_ZONE_DIVIDER_RADIUS)
       (builder_mesh (Capsule2dMesh TRIGGER_ZONE_DIVIDER_RADIUS DIVIDER_LENGTH)
         (builder_material mat
           (builder_z TRIGGER_ZONE_DIVIDER_Z (builder_name ''Trigger Zone Divider'' obstacle_builder_new))))"

text \<open>The builders \<open>f(root)\<close> hands to \<open>buildtmb\<close>, in spawn order: a clone of the
  circle builder per obstacle centre, then one of the divider builder per divider.\<close>

definition panel_obstacles :: "nat \<Rightarrow> nat \<Rightarrow> obstacle_builder list" where
  "panel_obstacles cmat dmat =
     map (\<lambda>(x, y). builder_xy x y (circle_builder cmat)) obstacle_circles @
     map (\<lambda>x. builder_xy x TRIGGER_ZONE_Y (divider_builder dmat)) divider_xs"

text \<open>Spawning in order; the first panic stops \<open>setup\<close>.\<close>

fun spawn_obstacles :: "obstacle_builder list \<Rightarrow> setup_error + obstacle_bundle list" where
  "spawn_obstacles [] = Inr []"
| "spawn_obstacles (b # bs) =
     (case buildtmb b of
        Inl e \<Rightarrow> Inl e
      | Inr ob \<Rightarrow> (case spawn_obstacles bs of Inl e \<Rightarrow> Inl e | Inr obs \<Rightarrow> Inr (ob # obs)))"

definition setup_obstacles :: "nat \<Rightarrow> nat \<Rightarrow> setup_error + obstacle_bundle list" where
  "setup_obstacles cmat dmat = spawn_obstacles (panel_obstacles cmat dmat)"

text \<open>The wall collider of each panel root: a closed polyline around the arena.\<close>

definition root_wall :: collider where
  "root_wall =
     (let w = of_int ARENA_WIDTH_FRAC_2; h = ARENA_HEIGHT_FRAC_2 in
      Polyline [(- w, h), (- w, - h), (w, - h), (w, h), (- w, h)])"

section \<open>Contact with a ball\<close>

definition seg_param :: "point \<Rightarrow> point \<Rightarrow> point \<Rightarrow> rat" where
  "seg_param a b p =
     (let dx = fst b - fst a; dy = snd b - snd a; l = dx\<^sup>2 + dy\<^sup>2 in
      if l = 0 then 0 else max 0 (min 1 (((fst p - fst a) * dx + (snd p - snd a) * dy) / l)))"

text \<open>Squared distance from \<open>p\<close> to the segment \<open>[a, b]\<close>: to its closest point.\<close>

definition seg_dist2 :: "point \<Rightarrow> point \<Rightarrow> point \<Rightarrow> rat" where
  "seg_dist2 a b p =
     (let t = seg_param a b p; cx = fst a + t * (fst b - fst a); cy = snd a + t * (snd b - snd a) in
      (fst p - cx)\<^sup>2 + (snd p - cy)\<^sup>2)"

fun polyline_dist_le :: "point list \<Rightarrow> point \<Rightarrow> rat \<Rightarrow> bool" where
  "polyline_dist_le (a # b # ps) p r2 \<longleftrightarrow> seg_dist2 a b p \<le> r2 \<or> polyline_dist_le (b # ps) p r2"
| "polyline_dist_le _ p r2 \<longleftrightarrow> False"

text \<open>Contact of a ball of radius \<open>r\<close> at \<open>p\<close> with a collider placed at \<open>q\<close>.\<close>

fun collider_hits :: "point \<Rightarrow> collider \<Rightarrow> point \<Rightarrow> rat \<Rightarrow> bool" where
  "collider_hits q (BallCollider s) p r \<longleftrightarrow> (fst p - fst q)\<^sup>2 + (snd p - snd q)\<^sup>2 \<le> (r + s)\<^sup>2"
| "collider_hits q (CapsuleY h s) p r \<longleftrightarrow>
     seg_dist2 (fst q, snd q - h) (fst q, snd q + h) p \<le> (r + s)\<^sup>2"
| "collider_hits q (Polyline ps) p r \<longleftrightarrow>
     polyline_dist_le (map (\<lambda>v. (fst q + fst v, snd q + snd v)) ps) p (r\<^sup>2)"
| "collider_hits q (Cuboid hx hy) p r \<longleftrightarrow>
     (max 0 (\<bar>fst p - fst q\<bar> - hx))\<^sup>2 + (max 0 (\<bar>snd p - snd q\<bar> - hy))\<^sup>2 \<le> r\<^sup>2"

text \<open>The static colliders of a panel after \<open>setup\<close>, relative to its root.\<close>

definition panel_static :: "nat \<Rightarrow> nat \<Rightarrow> (point \<times> collider) list" where
  "panel_static cmat dmat =
     ((0, 0), root_wall) #
     (case setup_obstacles cmat dmat of
        Inl _ \<Rightarrow> []
      | Inr obs \<Rightarrow> map (\<lambda>ob. ((fst (obs_translation ob), fst (snd (obs_translation ob))), obs_collider ob)) obs)"

definition hits_static :: "(point \<times> collider) list \<Rightarrow> point \<Rightarrow> rat \<Rightarrow> bool" where
  "hits_static cs p r \<longleftrightarrow> list_ex (\<lambda>(q, c). collider_hits q c p r) cs"

section \<open>Lemmas\<close>

lemma obstacle_build_None:
  "obstacle_build b = None \<longleftrightarrow>
     ob_material b = None \<or> ob_mesh b = None \<or> ob_collider b = None \<or> ob_name b = None"
  by (simp add: obstacle_build_def split: option.splits)

lemma spawn_obstacles_Inr:
  "list_all (\<lambda>b. obstacle_build b \<noteq> None) bs \<Longrightarrow>
   spawn_obstacles bs = Inr (map (\<lambda>b. the (obstacle_build b)) bs)"
  by (induction bs) (auto simp: buildtmb_def)

lemma builder_circle_build:
  "obstacle_build (builder_xy x y (circle_builder m)) =
     Some \<lparr>obs_mesh = CircleMesh CIRCLE_RADIUS, obs_material = m, obs_translation = (x, y, CIRCLE_Z),
           obs_collider = BallCollider CIRCLE_RADIUS, obs_groups = (PANEL_OBSTACLES, PANEL_BALLS),
           obs_rigidbody = Fixed, obs_name = ''Circle Obstacle''\<rparr>"
  by (simp add: obstacle_build_def circle_builder_def builder_xy_def builder_z_def builder_material_def
      builder_mesh_def builder_collider_def builder_name_def obstacle_builder_new_def)

lemma builder_divider_build:
  "obstacle_build (builder_xy x y (divider_builder m)) =
     Some \<lparr>obs_mesh = Capsule2dMesh TRIGGER_ZONE_DIVIDER_RADIUS DIVIDER_LENGTH, obs_material = m,
           obs_translation = (x, y, TRIGGER_ZONE_DIVIDER_Z),
           obs_collider = CapsuleY (DIVIDER_LENGTH / 2) TRIGGER_ZONE_DIVIDER_RADIUS,
           obs_groups = (PANEL_OBSTACLES, PANEL_BALLS), obs_rigidbody = Fixed,
           obs_name = ''Trigger Zone Divider''\<rparr>"
  by (simp add: obstacle_build_def divider_builder_def builder_xy_def builder_z_def builder_material_def
      builder_mesh_def builder_collider_def builder_name_def obstacle_builder_new_def)

lemma setup_obstacles_eq:
  "setup_obstacles cm dm = Inr (map (\<lambda>b. the (obstacle_build b)) (panel_obstacles cm dm))"
  unfolding setup_obstacles_def
  by (rule spawn_obstacles_Inr)
     (auto simp: panel_obstacles_def list_all_iff builder_circle_build builder_divider_build)

lemma seg_param_bounds: "0 \<le> seg_param a b p" "seg_param a b p \<le> 1"
  by (simp_all add: seg_param_def Let_def)

lemma seg_dist2_ge_y:
  "(snd p - (snd a + seg_param a b p * (snd b - snd a)))\<^sup>2 \<le> seg_dist2 a b p"
  by (simp add: seg_dist2_def Let_def)

lemma seg_dist2_below:
  assumes "snd a \<le> Y" "snd b \<le> Y" "Y \<le> snd p"
  shows "(snd p - Y)\<^sup>2 \<le> seg_dist2 a b p"
proof -
  define t where "t = seg_param a b p"
  have t: "0 \<le> t" "t \<le> 1" using seg_param_bounds unfolding t_def by blast+
  have "snd a + t * (snd b - snd a) = (1 - t) * snd a + t * snd b" by (simp add: algebra_simps)
  also have "\<dots> \<le> (1 - t) * Y + t * Y"
    using t assms by (intro add_mono mult_left_mono) simp_all
  finally have "snd a + t * (snd b - snd a) \<le> Y" by (simp add: algebra_simps)
  then have "(snd p - Y)\<^sup>2 \<le> (snd p - (snd a + t * (snd b - snd a)))\<^sup>2"
    using assms(3) by (intro power_mono) simp_all
  with seg_dist2_ge_y [of p a b] show ?thesis unfolding t_def by linarith
qed

lemma seg_dist2_above:
  assumes "Y \<le> snd a" "Y \<le> snd b" "snd p \<le> Y"
  shows "(Y - snd p)\<^sup>2 \<le> seg_dist2 a b p"
proof -
  define t where "t = seg_param a b p"
  have t: "0 \<le> t" "t \<le> 1" using seg_param_bounds unfolding t_def by blast+
  have "(1 - t) * Y + t * Y \<le> (1 - t) * snd a + t * snd b"
    using t assms by (intro add_mono mult_left_mono) simp_all
  also have "\<dots> = snd a + t * (snd b - snd a)" by (simp add: algebra_simps)
  finally have "Y \<le> snd a + t * (snd b - snd a)" by (simp add: algebra_simps)
  then have "(Y - snd p)\<^sup>2 \<le> (snd a + t * (snd b - snd a) - snd p)\<^sup>2"
    using assms(3) by (intro power_mono) simp_all
  then have "(Y - snd p)\<^sup>2 \<le> (snd p - (snd a + t * (snd b - snd a)))\<^sup>2"
    by (simp add: power2_commute)
  with seg_dist2_ge_y [of p a b] show ?thesis unfolding t_def by linarith
qed

lemma pyramid_row_y:
  "p \<in> set (pyramid_row i) \<Longrightarrow>
   snd p = - of_nat i * (CIRCLE_DIAMETER + CIRCLE_PYRAMID_VERTICAL_GAP) + CIRCLE_PYRAMID_VERTICAL_OFFSET"
  by (auto simp: pyramid_row_def Let_def split: if_splits)

lemma grid_row_y:
  "p \<in> set (grid_row i) \<Longrightarrow>
   snd p = - of_nat i * (CIRCLE_DIAMETER + CIRCLE_GRID_VERTICAL_GAP) + CIRCLE_GRID_VERTICAL_OFFSET"
  by (auto simp: grid_row_def Let_def split: if_splits)

lemma obstacle_circles_low: "p \<in> set obstacle_circles \<Longrightarrow> snd p \<le> CIRCLE_PYRAMID_VERTICAL_OFFSET"
  by (auto simp: obstacle_circles_def layout_consts dest!: pyramid_row_y grid_row_y)

lemma panel_static_eq:
  "panel_static cm dm =
     ((0, 0), root_wall) #
     map (\<lambda>(x, y). ((x, y), BallCollider CIRCLE_RADIUS)) obstacle_circles @
     map (\<lambda>x. ((x, TRIGGER_ZONE_Y), CapsuleY (DIVIDER_LENGTH / 2) TRIGGER_ZONE_DIVIDER_RADIUS)) divider_xs"
  by (simp add: panel_static_def setup_obstacles_eq panel_obstacles_def builder_circle_build
      builder_divider_build case_prod_beta comp_def)

lemma square_le_25: "(y :: rat)\<^sup>2 \<le> 25 \<longleftrightarrow> \<bar>y\<bar> \<le> 5"
  using abs_le_square_iff [of y 5] by simp

text \<open>C23: a worker ball spawned at a sample \<open>x\<close> of the span
  \<open>[-ARENA_WIDTH_FRAC_2, ARENA_WIDTH_FRAC_2]\<close> touches a static collider of its panel
  (wall, obstacle circle or divider) exactly when \<open>x\<close> is within a radius of a side wall,
  \<open>|x| \<ge> ARENA_WIDTH_FRAC_2 - WORKER_BALL_RADIUS\<close>: the obstacles stay clear of the
  spawn height, but the span is not narrowed by the radius, and the placement query, which
  sees dynamic worker balls only, does not notice the wall.\<close>

theorem spawn_static_contact:
  assumes "\<bar>x\<bar> \<le> of_int ARENA_WIDTH_FRAC_2"
  shows "hits_static (panel_static cm dm) (x, of_int WORKER_BALL_SPAWN_Y) (of_int WORKER_BALL_RADIUS) \<longleftrightarrow>
         of_int (ARENA_WIDTH_FRAC_2 - WORKER_BALL_RADIUS) \<le> \<bar>x\<bar>"
proof -
  let ?p = "(x, 320 :: rat)"
  have circ: "\<not> collider_hits (cx, cy) (BallCollider 10) ?p 5" if "(cx, cy) \<in> set obstacle_circles" for cx cy
  proof -
    from obstacle_circles_low [OF that] have "cy \<le> 250" by (simp add: layout_consts)
    then have "(70::rat)\<^sup>2 \<le> (320 - cy)\<^sup>2" by (intro power_mono) simp_all
    moreover have "0 \<le> (x - cx)\<^sup>2" by simp
    moreover have "(5 + 10 :: rat)\<^sup>2 < 70\<^sup>2" by simp
    ultimately show ?thesis unfolding collider_hits.simps fst_conv snd_conv by linarith
  qed
  have div: "\<not> collider_hits (dx, -250) (CapsuleY (85 / 4) (5 / 2)) ?p 5" for dx
  proof -
    have "(320 - (-250 + 85 / 4))\<^sup>2 \<le> seg_dist2 (dx, -250 - 85 / 4) (dx, -250 + 85 / 4) ?p"
      using seg_dist2_below [of "(dx, -250 - 85 / 4)" "-250 + 85 / 4" "(dx, -250 + 85 / 4)" ?p] by simp
    moreover have "(5 + 5 / 2 :: rat)\<^sup>2 < (320 - (-250 + 85 / 4))\<^sup>2"
      by (rule power_strict_mono) simp_all
    ultimately show ?thesis unfolding collider_hits.simps fst_conv snd_conv by linarith
  qed
  have s2: "(320 + 350)\<^sup>2 \<le> seg_dist2 (-130, -350) (130, -350) ?p"
    using seg_dist2_below [of "(-130, -350)" "-350" "(130, -350)" ?p] by simp
  have s4: "(350 - 320)\<^sup>2 \<le> seg_dist2 (130, 350) (-130, 350) ?p"
    using seg_dist2_above [of 350 "(130, 350)" "(-130, 350)" ?p] by simp
  have s1: "seg_dist2 (-130, 350) (-130, -350) ?p = (x + 130)\<^sup>2"
    and s3: "seg_dist2 (130, -350) (130, 350) ?p = (x - 130)\<^sup>2"
    by (simp_all add: seg_dist2_def seg_param_def Let_def)
  have "hits_static (panel_static cm dm) ?p 5 \<longleftrightarrow> (x + 130)\<^sup>2 \<le> 25 \<or> (x - 130)\<^sup>2 \<le> 25"
    using circ div s1 s2 s3 s4
    by (auto simp: hits_static_def panel_static_eq root_wall_def list_ex_iff static_consts layout_consts
        ARENA_WIDTH_FRAC_2_def ARENA_WIDTH_def divider_xs_def)
  also have "\<dots> \<longleftrightarrow> 125 \<le> \<bar>x\<bar>"
    using assms by (auto simp: square_le_25 ARENA_WIDTH_FRAC_2_def ARENA_WIDTH_def)
  finally show ?thesis
    by (simp add: ARENA_WIDTH_FRAC_2_def ARENA_WIDTH_def WORKER_BALL_SPAWN_Y_def WORKER_BALL_RADIUS_def)
qed


section \<open>Witnesses\<close>

theorem spawn_static_contact_witness:
  "hits_static (panel_static 0 0) (127, 320) 5 \<and> \<not> hits_static (panel_static 0 0) (124, 320) 5"
  using spawn_static_contact [of 127 0 0] spawn_static_contact [of 124 0 0]
  by (simp add: ARENA_WIDTH_FRAC_2_def ARENA_WIDTH_def WORKER_BALL_SPAWN_Y_def WORKER_BALL_RADIUS_def)

end
