(* ===== verification/App.thy ===== *)
theory App
  imports Panel_Plugin Obstacles
begin

text \<open>
  \<open>src/src/main.rs\<close>: \<open>main\<close> builds the \<open>App\<close> from external plugins and
  \<open>PanelPlugin\<close> and adds its own \<open>Startup\<close> system \<open>setup\<close>, which spawns the camera.
  Bevy orders the two \<open>Startup\<close> systems (\<open>PanelPlugin\<close>'s \<open>setup\<close> and \<open>main\<close>'s)
  by no constraint, and each reserves its entity ids when it spawns, so either may take the
  first ids: \<open>app_startup\<close> is parameterised by the order. The world model tracks the
  panel plugin's entities only; the camera is seen through the id it reserves. The bundle
  and component types \<open>main.rs\<close> declares for tiles, bullets and turrets are recorded as
  data; no system of the sources constructs them.
\<close>

section \<open>The application\<close>

definition WINDOW_TITLE :: string where
  "WINDOW_TITLE = ''Multiply or Release''"

text \<open>The plugins \<open>main\<close> adds, in order; \<open>DefaultPlugins\<close> carries the window title
  it is configured with.\<close>

datatype app_plugin =
  DefaultPlugins string | RapierPhysicsPlugin | RapierDebugRenderPlugin | WorldInspectorPlugin
  | UtilsPlugin | PanelPlugin

definition main_plugins :: "app_plugin list" where
  "main_plugins =
     [DefaultPlugins WINDOW_TITLE, RapierPhysicsPlugin, RapierDebugRenderPlugin,
      WorldInspectorPlugin, UtilsPlugin, PanelPlugin]"

text \<open>\<open>main.rs\<close>'s \<open>setup\<close>: spawn the camera; its entity is the next id.\<close>

definition camera_setup :: "world \<Rightarrow> entity \<times> world" where
  "camera_setup w = (next_entity w, w\<lparr>next_entity := next_entity w + 1\<rparr>)"

text \<open>The \<open>Startup\<close> schedule: both systems, the camera's first when \<open>camera_first\<close>;
  the result is the camera's entity and the world.\<close>

definition app_startup :: "bool \<Rightarrow> entity \<times> world" where
  "app_startup camera_first =
     (if camera_first then (let (c, w) = camera_setup empty_world in (c, setup_at w))
      else camera_setup (setup_at empty_world))"

text \<open>The running app: \<open>PanelPlugin\<close>'s frames (the other plugins are external) from
  the world \<open>Startup\<close> left.\<close>

abbreviation app_reachable :: "bool \<Rightarrow> (nat \<Rightarrow> int) \<Rightarrow> nat \<Rightarrow> panel_state \<Rightarrow> bool" where
  "app_reachable camera_first \<equiv> reachable_from (snd (app_startup camera_first))"

section \<open>Declared bundles\<close>

text \<open>Marker components and bundles of \<open>main.rs\<close>; the render bundle is the type
  parameter \<open>'m\<close>, and the text placeholder \<open>_text: ()\<close> is \<open>unit\<close>.\<close>

datatype tile = Tile

record 'm tile_bundle =
  tile_marker :: tile
  tile_mesh :: 'm
  tile_collider :: collider
  tile_owner :: participant

datatype bullet = Bullet

record 'm bullet_bundle =
  bullet_marker :: bullet
  bullet_mesh :: 'm
  bullet_collider :: collider
  bullet_rigidbody :: rigid_body
  bullet_owner :: participant
  bullet_text :: unit

datatype turret_head = TurretHead

record 'm turret_head_bundle =
  th_marker :: turret_head
  th_mesh :: 'm
  th_collider :: collider
  th_owner :: participant
  th_text :: unit

record turret =
  barrel_offset :: real
  base_direction :: "real \<times> real"

record 'm turret_bundle =
  turret_mesh :: 'm
  turret_owner :: participant
  turret_turret :: turret

section \<open>Lemmas\<close>

lemma app_startup_simps:
  "app_startup True = (0, setup_at (empty_world\<lparr>next_entity := 1\<rparr>))"
  "app_startup False = (next_entity panel_setup, panel_setup\<lparr>next_entity := next_entity panel_setup + 1\<rparr>)"
  by (simp_all add: app_startup_def camera_setup_def empty_world_def panel_setup_def)

lemma app_startup_world_inv_cases:
  "world_inv (snd (app_startup True))" "world_inv (snd (app_startup False))"
  unfolding app_startup_simps snd_conv by code_simp+

lemma app_startup_world_inv: "world_inv (snd (app_startup cf))"
  using app_startup_world_inv_cases by (cases cf) simp_all

lemma app_startup_ok: "startup_ok (snd (app_startup cf))"
proof -
  have r: "roots (snd (app_startup cf)) =
    [(if cf then 1 else 0, \<lparr>pr_side = Left, pr_translation = (LEFT_ROOT_X, 0)\<rparr>),
     (if cf then 2 else 1, \<lparr>pr_side = Right, pr_translation = (RIGHT_ROOT_X, 0)\<rparr>)]"
    and "balls (snd (app_startup cf)) = []" "trails (snd (app_startup cf)) = []"
    by (simp_all add: app_startup_def camera_setup_def setup_at_frame empty_world_def)
  moreover have "root_of_side (snd (app_startup cf)) side \<noteq> None" for side
    using r by (cases side) (simp_all add: root_of_side_def)
  ultimately show ?thesis
    using app_startup_world_inv by (simp add: startup_ok_def select_roots_def)
qed

lemma app_startup_layout:
  "map snd (roots (snd (app_startup cf))) = map snd (roots panel_setup) \<and>
   map snd (zones (snd (app_startup cf))) = map snd (zones panel_setup)"
  by (simp add: app_startup_def camera_setup_def setup_at_frame setup_at_zones panel_setup_def empty_world_def)

lemma app_camera:
  "fst (app_startup cf) \<notin> set (all_ids (snd (app_startup cf))) \<and>
   fst (app_startup cf) < next_entity (snd (app_startup cf))"
proof -
  have "fst (app_startup True) \<notin> set (all_ids (snd (app_startup True))) \<and>
        fst (app_startup True) < next_entity (snd (app_startup True))"
    "fst (app_startup False) \<notin> set (all_ids (snd (app_startup False))) \<and>
        fst (app_startup False) < next_entity (snd (app_startup False))"
    unfolding app_startup_simps fst_conv snd_conv by code_simp+
  then show ?thesis by (cases cf) simp_all
qed


section \<open>Witnesses\<close>


end
