(* ===== verification/Zones.thy ===== *)
theory Zones
  imports Obstacles
begin

text \<open>
  The trigger zones \<open>setup\<close> spawns for each panel (\<open>src/src/panel_plugin.rs\<close>):
  \<open>TriggerZoneBundle::new\<close> (lines 155--187) and the zone closure of \<open>setup\<close>
  (lines 576--608), which spawns each zone followed by its label text. A zone's collider is
  the unit cuboid \<open>Collider::cuboid(0.5, 0.5)\<close> under the sprite's transform, whose scale
  is the zone's size; bevy_rapier applies that scale to the collider, so the sensor is the
  zone's rectangle. The \<open>ActiveEvents::COLLISION_EVENTS\<close> and \<open>Sensor\<close> markers are
  the same on every zone and are not recorded; colours and the text style are rendering.
\<close>

definition TRIGGER_ZONE_Z :: rat where "TRIGGER_ZONE_Z = -2"
definition TRIGGER_ZONE_TEXT_OFFSET_Z :: rat where "TRIGGER_ZONE_TEXT_OFFSET_Z = -1"

text \<open>\<open>TriggerZoneDividerBundle\<close>: declared, never built.\<close>

record 'm trigger_zone_divider_bundle =
  tzd_matmesh :: 'm
  tzd_collider :: collider
  tzd_groups :: "collision_group \<times> collision_group"
  tzd_rigidbody :: rigid_body

text \<open>\<open>TriggerZoneBundle\<close>: the sprite's transform (translation and scale), the name, the
  unit cuboid collider, the collision groups and the trigger type.\<close>

record trigger_zone_bundle =
  tz_translation :: "rat \<times> rat \<times> rat"
  tz_scale :: "rat \<times> rat"
  tz_name :: string
  tz_collider :: collider
  tz_groups :: "collision_group \<times> collision_group"
  tz_trigger_type :: trigger_type

definition trigger_zone_bundle_new ::
  "trigger_type \<Rightarrow> rat \<times> rat \<Rightarrow> rat \<times> rat \<times> rat \<Rightarrow> trigger_zone_bundle" where
  "trigger_zone_bundle_new t sz translation =
     \<lparr>tz_translation = translation, tz_scale = sz, tz_name = ''Trigger Zone: '' @ trigger_label t,
      tz_collider = Cuboid (1 / 2) (1 / 2), tz_groups = (PANEL_TRIGGER_ZONES, PANEL_BALLS),
      tz_trigger_type = t\<rparr>"

text \<open>The label spawned after each zone: its text, position and name.\<close>

record zone_text =
  zt_text :: string
  zt_translation :: "rat \<times> rat \<times> rat"
  zt_name :: string

text \<open>The zone closure \<open>f(trigger_type, x, color)\<close> of \<open>setup\<close>.\<close>

definition zone_closure :: "trigger_type \<Rightarrow> rat \<Rightarrow> trigger_zone_bundle \<times> zone_text" where
  "zone_closure t x =
     (trigger_zone_bundle_new t (ARENA_WIDTH_FRAC_5, TRIGGER_ZONE_HEIGHT) (x, TRIGGER_ZONE_Y, TRIGGER_ZONE_Z),
      \<lparr>zt_text = trigger_label t, zt_translation = (x, TRIGGER_ZONE_Y, TRIGGER_ZONE_TEXT_OFFSET_Z),
       zt_name = ''Trigger Zone Text: '' @ trigger_label t\<rparr>)"

definition panel_zones :: "(trigger_zone_bundle \<times> zone_text) list" where
  "panel_zones = map (\<lambda>(t, x). zone_closure t x) zone_layout"

text \<open>The sensor a zone puts in the physics world: the cuboid, scaled by the transform,
  at the zone's position (relative to its root).\<close>

definition zone_sensor :: "trigger_zone_bundle \<Rightarrow> point \<times> collider" where
  "zone_sensor z =
     ((fst (tz_translation z), fst (snd (tz_translation z))),
      (case tz_collider z of
         Cuboid hx hy \<Rightarrow> Cuboid (hx * fst (tz_scale z)) (hy * snd (tz_scale z))
       | c \<Rightarrow> c))"

text \<open>The zones a ball of radius \<open>r\<close> at \<open>p\<close> touches.\<close>

definition touched_zones :: "point \<Rightarrow> rat \<Rightarrow> trigger_zone_bundle list" where
  "touched_zones p r =
     filter (\<lambda>z. case zone_sensor z of (q, c) \<Rightarrow> collider_hits q c p r) (map fst panel_zones)"

section \<open>Lemmas\<close>

lemma cuboid_hits_strip:
  assumes "\<bar>snd p - snd q\<bar> \<le> hy" and "0 \<le> r"
  shows "collider_hits q (Cuboid hx hy) p r \<longleftrightarrow> \<bar>fst p - fst q\<bar> \<le> hx + r"
proof -
  have "(max 0 (\<bar>fst p - fst q\<bar> - hx))\<^sup>2 \<le> r\<^sup>2 \<longleftrightarrow> max 0 (\<bar>fst p - fst q\<bar> - hx) \<le> r"
    using assms(2) by (simp add: power2_le_iff_abs_le)
  with assms show ?thesis by auto
qed

lemma touched_zones_strip:
  assumes "\<bar>snd p - TRIGGER_ZONE_Y\<bar> \<le> TRIGGER_ZONE_HEIGHT / 2" and "0 \<le> r"
  shows "length (touched_zones p r) =
         length (filter (\<lambda>x. \<bar>fst p - x\<bar> \<le> ARENA_WIDTH_FRAC_10 + r) (map snd zone_layout))"
  using assms
  by (simp add: touched_zones_def panel_zones_def zone_closure_def trigger_zone_bundle_new_def
      zone_sensor_def zone_layout_def cuboid_hits_strip layout_consts static_consts ARENA_WIDTH_def)

text \<open>C25: no worker ball slips between the trigger zones: a ball of radius up to
  \<open>WORKER_BALL_RADIUS\<close> whose centre is anywhere in the zone strip of the arena
  (within \<open>ARENA_WIDTH_FRAC_2\<close> of the root and within half the zone height of
  \<open>TRIGGER_ZONE_Y\<close>) touches the sensor of at least one zone and of at most two.\<close>

theorem zone_sensors_cover:
  assumes "\<bar>fst p\<bar> \<le> of_int ARENA_WIDTH_FRAC_2"
    and "\<bar>snd p - TRIGGER_ZONE_Y\<bar> \<le> TRIGGER_ZONE_HEIGHT / 2"
    and "0 \<le> r" and "r \<le> of_int WORKER_BALL_RADIUS"
  shows "1 \<le> length (touched_zones p r) \<and> length (touched_zones p r) \<le> 2"
  using assms
  by (simp add: touched_zones_strip zone_layout_def layout_consts ARENA_WIDTH_def ARENA_WIDTH_FRAC_2_def
      WORKER_BALL_RADIUS_def) (auto split: if_splits)

section \<open>Witnesses\<close>

theorem zone_sensors_cover_witness:
  "1 \<le> length (touched_zones (26, -250) 5) \<and> length (touched_zones (26, -250) 5) \<le> 2"
  using zone_sensors_cover [of "(26, -250)" 5]
  by (simp add: ARENA_WIDTH_FRAC_2_def ARENA_WIDTH_def TRIGGER_ZONE_Y_def static_consts WORKER_BALL_RADIUS_def)

end
