(* ===== verification/Spec2Isabelle.thy ===== *)
theory Spec2Isabelle
  imports Panel_Plugin Frame_Order Trail_Pool Debug_Utils Obstacles App Zones
begin

text \<open>
  \<^bold>\<open>The panel plugin of multiply-or-release.\<close>
  The program is a Bevy game. Its gameplay lives in \<open>src/src/panel_plugin.rs\<close>: two
  pachinko-like panels (a left and a right \<open>PanelRoot\<close>) on which worker balls of the four
  participants fall through obstacles into five trigger zones. The plugin's systems are
  \<open>setup\<close> (startup), \<open>update_workers_particle_position\<close>, \<open>spawn_workers\<close>,
  \<open>ball_reset\<close>, \<open>trigger_event\<close> and \<open>restart\<close>, scheduled by
  \<open>PanelPlugin::build\<close>. They share the ECS world (roots, zones, balls, trails), the
  resource \<open>WorkerBallSpawner\<close>, and the physics engine, which they query with
  \<open>RapierContext::intersection_with_shape\<close> through \<open>WorkerBallShapeCaster\<close>.
  \<open>src/src/main.rs\<close> builds the app from external plugins and \<open>PanelPlugin\<close>, spawns
  a camera at startup, and declares tile, bullet and turret types no system uses;
  \<open>src/src/debug_utils.rs\<close> holds debug event generators driven by a one-shot timer
  (\<open>main.rs\<close> declares neither its module nor its plugin).

  \<^bold>\<open>Theories.\<close>
  \<^item> \<open>Prelude\<close>: the collections \<open>model_simps\<close> and \<open>inv_simps\<close>, entity ids
    (\<open>nat\<close>), integer vectors, and \<open>update_at\<close> (a keyed update of an association
    list, the model of \<open>Query::get_mut\<close> followed by a write) with its lemmas.
  \<^item> \<open>Panel_Types\<close>: the constants of lines 27--92, \<open>Participant\<close>,
    \<open>PanelRootSide::for_participant\<close>, \<open>TriggerType\<close> (its factor an \<open>8 word\<close>, as
    the source's \<open>u8\<close>) with its \<open>Display\<close> label, and \<open>TriggerEvent\<close>.
  \<^item> \<open>World\<close>: the ECS state as a record of association lists in query order
    (\<open>roots\<close>, \<open>zones\<close>, \<open>balls\<close>, \<open>trails\<close>, and the next entity id),
    \<open>WorkerBallBundle::new\<close>, \<open>WorkerBallTrailBundle::new\<close>, \<open>Commands::spawn\<close>,
    the physics snapshot and the shape query, and the id invariant \<open>ids_ok\<close>.
  \<^item> \<open>Spawn_Timer\<close>: Bevy's \<open>Timer\<close> (modelled from its documentation) and
    \<open>WorkerBallSpawner::new\<close>, \<open>reset\<close>, \<open>spawn_workers_condition\<close>.
  \<^item> \<open>Placement\<close>: \<open>WorkerBallShapeCaster::new\<close> and \<open>get\<close> as a
    \<open>partial_function (option)\<close> over an indexed sample sequence (the \<open>ThreadRng\<close>
    draws), so that a loop that never finds a free sample is \<open>None\<close>; the paired retry loop
    of \<open>spawn_workers\<close> as \<open>pair_loop\<close>, with a fuelled twin \<open>pair_within\<close>.
  \<^item> \<open>Trails\<close>: \<open>update_workers_particle_position\<close> (parking trails whose ball is
    gone, with its \<open>Local<bool>\<close> toggle) and the trail loop of \<open>restart\<close>; the world
    invariant \<open>world_inv\<close> (ids, and at most one trail linked to each ball).
  \<^item> \<open>Spawner\<close>: \<open>spawn_workers\<close> whole: the timer tick, the root selection with
    its two panics, the per-panel closure with the single and paired branches,
    \<open>setup_trail\<close> and the idle-trail iterator.
  \<^item> \<open>Triggers\<close>: \<open>trigger_event\<close>: restart discard and translation of
    contact-begin events into \<open>TriggerEvent\<close>s.
  \<^item> \<open>Recycler\<close>: \<open>ball_reset\<close>: balls leaving a trigger zone go back to spawn height.
  \<^item> \<open>Restart\<close>: \<open>restart\<close>.
  \<^item> \<open>Setup\<close>: \<open>setup\<close>: roots, obstacle centres (exact rationals), dividers, zones
    and the order in which entity ids are taken.
  \<^item> \<open>Obstacles\<close>: \<open>ObstacleBundleBuilder\<close> (its setters, \<open>build\<close> as an
    \<open>option\<close>, \<open>buildtmb\<close>'s unwrap panic as \<open>Inl\<close>), the circle and divider
    builders of \<open>setup\<close>, the obstacle bundles of a panel, the root's wall polyline, and a
    contact test of a ball against these static colliders by exact point-segment distance.
  \<^item> \<open>Zones\<close>: \<open>TriggerZoneBundle::new\<close>, the zone closure of \<open>setup\<close> with its
    label text, the five zones of a panel, and their sensors (the unit cuboid scaled by the
    zone's size, as bevy_rapier scales colliders).
  \<^item> \<open>Panel_Plugin\<close>: one frame of the \<open>Update\<close> schedule (\<open>panel_frame\<close>, each
    system under its run condition), physics steps between frames, and the inductive
    set \<open>reachable_from w0\<close> of states from a startup world \<open>w0\<close> (\<open>reachable\<close>
    from \<open>setup\<close> alone), with the invariant \<open>state_inv w0\<close> proved for every startup
    world satisfying \<open>startup_ok\<close>.
  \<^item> \<open>Frame_Order\<close>: the one freedom of that schedule that matters to its output:
    \<open>PanelPlugin::build\<close> orders only \<open>update_workers_particle_position\<close> before
    \<open>spawn_workers\<close>, so Bevy may run \<open>trigger_event\<close> at any point of the frame;
    the lemmas show that the other stages only append balls with fresh ids
    (\<open>grows\<close>) or keep ball identities, so the translator reads the same owners and
    zones either way.
  \<^item> \<open>App\<close>: \<open>main.rs\<close>: the plugin list, the camera \<open>setup\<close> (seen through the
    entity id it reserves), the \<open>Startup\<close> schedule running \<open>PanelPlugin\<close>'s
    \<open>setup\<close> and the camera in either order (\<open>app_startup\<close>), the running app, and the
    declared bundle types as records.
  \<^item> \<open>Trail_Pool\<close>: the spec's trail pool as a multiset of links (\<open>pool\<close>) with its
    operations \<open>attach\<close>, \<open>update_all\<close> and restart, and the refinement lemmas
    relating \<open>setup_trail\<close>, \<open>update_workers_particle_position\<close> and \<open>restart\<close>
    to them.
  \<^item> \<open>Debug_Utils\<close>: \<open>debug_utils.rs\<close>: \<open>AutoTimer\<close>, \<open>auto_elimination\<close>,
    \<open>auto_fire\<close>, \<open>auto_multiply\<close>, \<open>auto_hanabi\<close> (its colour packing on
    \<open>32 word\<close> with the saturating \<open>f32 as u32\<close> cast, and its \<open>unreachable!()\<close>
    arm as \<open>Inl\<close>), and \<open>DebugUtilsPlugin\<close> as a run of frames over a list of
    deltas.

  \<^bold>\<open>What is proved.\<close>
  Per operation, the functional behaviour on every branch: \<open>caster_get\<close> returns exactly
  the first free sample, and returns iff one exists (termination as an iff, never only
  partial correctness); the paired loop equals its fuelled rounds; the paired spawn places
  two balls each free of the snapshot and more than a diameter apart, and reuses idle trails
  before spawning new ones; the single spawn always allocates a trail; \<open>trigger_event\<close>
  is exact and sound with respect to zone-ball contacts; \<open>ball_reset\<close> moves exactly the
  exiting ball to a free spot; \<open>restart\<close> resets, despawns and parks, and is idempotent;
  trigger labels are injective; the repeating timer fires exactly at its period and the new
  spawner first fires after the trail lifetime; the trail update leaves no trail linked to
  a vanished ball and parks trails on alternating sides; \<open>setup\<close> tiles the arena width
  with the five zones of each panel. Across components, by rule induction on
  \<open>reachable\<close> (the strengthened invariant \<open>state_inv\<close>): the world invariant (one
  trail per ball, fresh distinct ids), the round bound, the population bound of four balls
  per round and of two balls per panel and round, and that no frame panics; a restart frame
  emits nothing and empties the panels; a frame at the round cap leaves the spawner, timer
  included, untouched; and \<open>trigger_event\<close> emits the same events wherever the
  schedule places it in the frame, as long as the contact events name entities that existed
  before the frame (\<open>frame_trigger_order_free\<close>). Liveness of placement: twelve balls (the per-panel cap) block at
  most 252 of the 260 integer samples of a panel's span, so in every reachable state the
  rejection loop returns for every sample stream that draws each integer of the span,
  while thirteen balls can block the whole span. Refinement: abstracted to the multiset
  \<open>pool\<close>, the paired spawn performs two \<open>attach\<close> operations and the trail update
  performs \<open>update_all\<close>; \<open>restart\<close> meets the spec's restart exactly when no trail
  is active. Application: whichever \<open>Startup\<close> system runs first, the camera's id is
  distinct from every panel entity and the startup world is valid with \<open>setup\<close>'s layout
  up to ids, and the running app keeps the no-panic, population and one-trail-per-ball
  properties. Static layout: \<open>setup\<close> never panics in \<open>buildtmb\<close> and builds one fixed
  ball collider per obstacle centre and one capsule per divider; a spawn point of the
  sample span touches a static collider exactly within a radius of a side wall; a ball
  anywhere in the zone strip touches the sensor of one or two trigger zones, never none. Debug
  drivers: the plugin sends the A, B, C eliminations exactly once when the
  deltas reach ten seconds, every driver keeps the one-shot timer well-formed,
  \<open>auto_fire\<close> sends each participant three \<open>Multiply(4)\<close> and one \<open>BurstShot\<close>,
  the colour packing is a byte-exact round trip on \<open>[0, 1]\<close> with alpha \<open>0xFF\<close>
  always, and \<open>auto_hanabi\<close> panics exactly on an index beyond the four participants.

  \<^bold>\<open>Findings.\<close> Two balls recycled by \<open>ball_reset\<close> in one frame can be placed on
  the same spot, because every query reads the snapshot taken before the frame (proved on
  a concrete world in \<open>Recycler\<close>); the single-survivor branch of \<open>spawn_workers\<close>
  never reuses idle trails; \<open>restart\<close> leaves linked trails pointing at despawned balls;
  at the round cap the spawn timer stops, where the spec says it keeps advancing; the
  colour packing of \<open>auto_hanabi\<close> does not clamp, so a component above 1 spills into
  the next byte (\<open>pack_color_spill\<close>); spawn samples span the whole arena width, so a
  ball drawn within a radius of a side wall touches it, and the placement query, which
  sees only worker balls, does not reject it (\<open>spawn_static_contact\<close>).

  \<^bold>\<open>Bounds and fuel.\<close> Randomness is an explicit sequence \<open>nat \<Rightarrow> int\<close> plus a
  position, so every run is a function of its draws; the loops are partial functions
  whose non-termination is \<open>None\<close> and whose termination is characterised exactly, so no
  fuel bound is assumed. Positions are integer game units: the constants the systems use
  are integral, and the draws of \<open>Uniform::new(-ARENA_WIDTH_FRAC_2, ARENA_WIDTH_FRAC_2)\<close>
  are taken from an arbitrary integer sequence (every property holds for every sequence,
  except that the liveness properties assume it draws each integer of the span at some
  point, as a uniform sampler does with probability one); layout coordinates are exact
  rationals. Rounding of \<open>f32\<close> is not modelled, except in the colour packing, whose
  cast truncates a real and saturates at the ends of \<open>u32\<close> as Rust's does. Frame
  deltas are natural numbers of milliseconds.

  \<^bold>\<open>Not modelled.\<close> Rendering (meshes and materials beyond opaque handles,
  particle effects beyond their spawn colour and position, texts beyond their label, wall
  and background sprites), rigid-body dynamics (abstracted
  as \<open>physics_step\<close>: balls move and may disappear), the external plugins \<open>main\<close>
  adds (window, physics, inspector, \<open>UtilsPlugin\<close>, whose module is not among the
  sources), the camera's components, and \<open>print_trigger_events\<close> (printing only).
\<close>

end
